(* ===== verification/ZVM_Prelude.thy ===== *)
theory ZVM_Prelude
  imports Main "HOL-Library.Word"
begin

text \<open>
  Shared vocabulary of the ZeraVM development.

  \<^item> The machine integers of \<^verbatim>\<open>src/main.cpp\<close>: \<open>byte\<close> (\<^verbatim>\<open>uint8_t\<close>), \<open>u16\<close>
    (\<^verbatim>\<open>uint16_t\<close>) and \<open>u32\<close> (\<^verbatim>\<open>uint32_t\<close>) as words of that width.
  \<^item> The ways a run of the program ends other than by returning from \<^verbatim>\<open>main\<close>:
    \<open>error\<close> has one constructor per \<^verbatim>\<open>exit(1)\<close> of the source, one for the
    uncaught \<^verbatim>\<open>std::bad_array_new_length\<close>, one for the exhausted native stack, and
    \<open>Undefined\<close> for the executions on which C++ gives the program no meaning
    (\<open>fault\<close> says which rule is broken). The source checks none of the latter; the
    model stops there, so that every theorem about a result \<open>Inr _\<close> speaks about a
    run on which the C++ program is defined.
  \<^item> Sequencing of fallible computations (\<open>ebind\<close>) and its rules.
  \<^item> The text that \<^verbatim>\<open>operator<<\<close> of the standard library produces for
    integers in decimal and hexadecimal (\<open>show_nat\<close>, \<open>show_int\<close>, \<open>show_hex\<close>), and
    the conversion between bytes and the characters of a \<^verbatim>\<open>std::string\<close>.
\<close>

unbundle bit_operations_syntax

named_theorems res_simps \<open>rules that characterise the result of a fallible computation\<close>
named_theorems fault_intros \<open>lookups that fail only where C++ gives the program no meaning\<close>

section \<open>Machine integers\<close>

type_synonym byte = "8 word"
type_synonym u16 = "16 word"
type_synonym u32 = "32 word"

lemma unat_byte_less [simp]: "unat (b :: byte) < 256"
  using unsigned_less [of b, where 'a = nat] by simp

lemma unat_u16_less [simp]: "unat (w :: u16) < 65536"
  using unsigned_less [of w, where 'a = nat] by simp

lemma unat_u32_less [simp]: "unat (w :: u32) < 4294967296"
  using unsigned_less [of w, where 'a = nat] by simp

lemma bit_byte_high [simp]: "\<not> bit (b :: byte) (m + 8)"
  by (auto dest: bit_imp_le_length)

lemma take_bit_unat_byte [simp]: "8 \<le> n \<Longrightarrow> take_bit n (unat (b :: byte)) = unat b"
proof (rule take_bit_nat_eq_self)
  assume "8 \<le> n"
  then have "(2::nat) ^ 8 \<le> 2 ^ n" by (rule power_increasing) simp
  moreover have "unat b < 2 ^ 8" using unat_byte_less [of b] by simp
  ultimately show "unat b < 2 ^ n" by linarith
qed

lemma unat_ucast_byte [simp]:
  "8 \<le> LENGTH('a) \<Longrightarrow> unat (ucast (b :: byte) :: 'a::len word) = unat b"
  by (simp add: unsigned_ucast_eq)

lemma or_push_bit_nat: "b < 2 ^ n \<Longrightarrow> push_bit n a OR b = push_bit n a + (b::nat)"
proof -
  assume "b < 2 ^ n"
  then have b: "take_bit n b = b" by (simp add: take_bit_nat_eq_self)
  have "\<not> bit (push_bit n a) m \<or> \<not> bit (take_bit n b) m" for m
    by (auto simp: bit_simps)
  then show ?thesis
    using disjunctive_add [of "push_bit n a" b] by (simp add: b)
qed

lemma or_push_bit_int:
  "0 \<le> b \<Longrightarrow> b < 2 ^ n \<Longrightarrow> push_bit n a OR b = push_bit n a + (b::int)"
proof -
  assume "0 \<le> b" "b < 2 ^ n"
  then have b: "take_bit n b = b" by (simp add: take_bit_int_eq_self)
  have "\<not> bit (push_bit n a) m \<or> \<not> bit (take_bit n b) m" for m
    by (auto simp: bit_simps)
  then show ?thesis
    using disjunctive_add [of "push_bit n a" b] by (simp add: b)
qed

lemma list_all2_update_right:
  "(\<And>x. P x x) \<Longrightarrow> P (xs ! i) y \<Longrightarrow> list_all2 P xs (xs[i := y])"
  by (cases "i < length xs") (simp_all add: list_all2_conv_all_nth nth_list_update)

section \<open>Abnormal termination\<close>

datatype fault =
    TruncatedRead
  | PoolIndex
  | InactiveMember
  | NullPointer
  | BufferOverrun
  | EmptyStack
  | BadDowncast
  | MismatchedDelete
  | IndeterminateRead

datatype error =
    UnknownTag byte
  | NullMethod string
  | NeedLocals
  | UnknownInstruction byte
  | BadArrayNewLength
  | StackExhausted
  | Undefined fault

definition ebind :: "error + 'a \<Rightarrow> ('a \<Rightarrow> error + 'b) \<Rightarrow> error + 'b" where
  "ebind m f = (case m of Inl e \<Rightarrow> Inl e | Inr x \<Rightarrow> f x)"

definition is_ok :: "error + 'a \<Rightarrow> bool" where
  "is_ok m = (case m of Inl _ \<Rightarrow> False | Inr _ \<Rightarrow> True)"

text \<open>
  A computation that never ends the program by itself: it returns, or it is one of
  the executions without a meaning. The lookups in the pool and in the tables of the
  class are of this kind, because the source checks nothing there.
\<close>

definition only_faults :: "error + 'a \<Rightarrow> bool" where
  "only_faults r = (case r of Inl (Undefined f) \<Rightarrow> True | Inl _ \<Rightarrow> False | Inr _ \<Rightarrow> True)"

lemma ebind_Inl [simp]: "ebind (Inl e) f = Inl e"
  by (simp add: ebind_def)

lemma ebind_Inr [simp]: "ebind (Inr x) f = f x"
  by (simp add: ebind_def)

lemma ebind_eq_Inr [res_simps]:
  "ebind m f = Inr y \<longleftrightarrow> (\<exists>x. m = Inr x \<and> f x = Inr y)"
  by (cases m) auto

lemma ebind_eq_Inl [res_simps]:
  "ebind m f = Inl e \<longleftrightarrow> m = Inl e \<or> (\<exists>x. m = Inr x \<and> f x = Inl e)"
  by (cases m) auto

lemma ebind_assoc: "ebind (ebind m f) g = ebind m (\<lambda>x. ebind (f x) g)"
  by (cases m) auto

lemma ebind_cong [fundef_cong]:
  "m = m' \<Longrightarrow> (\<And>x. m' = Inr x \<Longrightarrow> f x = f' x) \<Longrightarrow> ebind m f = ebind m' f'"
  by (cases m') auto

lemma is_ok_simps [simp]: "is_ok (Inr x)" "\<not> is_ok (Inl e)"
  by (simp_all add: is_ok_def)

lemma is_ok_iff [res_simps]: "is_ok m \<longleftrightarrow> (\<exists>x. m = Inr x)"
  by (cases m) auto

lemma only_faults_Inr [fault_intros, simp]: "only_faults (Inr x)"
  by (simp add: only_faults_def)

lemma only_faults_Undefined [fault_intros, simp]: "only_faults (Inl (Undefined f))"
  by (simp add: only_faults_def)

lemma only_faults_Inl: "only_faults (Inl e) \<longleftrightarrow> (\<exists>f. e = Undefined f)"
  by (cases e) (simp_all add: only_faults_def)

lemma only_faults_ebind [fault_intros]:
  "only_faults m \<Longrightarrow> (\<And>x. only_faults (f x)) \<Longrightarrow> only_faults (ebind m f)"
  by (cases m) (simp_all add: only_faults_Inl)

lemma only_faults_if [fault_intros]:
  "only_faults a \<Longrightarrow> only_faults b \<Longrightarrow> only_faults (if c then a else b)"
  by simp

lemma only_faults_prod [fault_intros]:
  "(\<And>a b. only_faults (f a b)) \<Longrightarrow> only_faults (case p of (a, b) \<Rightarrow> f a b)"
  by (cases p) simp

section \<open>Generic list facts\<close>

lemma take_drop_decompose: "n \<le> length xs \<Longrightarrow> xs = take n xs @ drop n xs \<and> length (take n xs) = n"
  by simp

lemma nth_append_length_plus2 [simp]: "(xs @ ys) ! (length xs + n) = ys ! n"
  by (simp add: nth_append)

lemma list_update_take_drop:
  "n + length vs \<le> length xs \<Longrightarrow>
   length (take n xs @ vs @ drop (n + length vs) xs) = length xs"
  by simp

section \<open>Characters and formatted output\<close>

definition byte_char :: "byte \<Rightarrow> char" where
  "byte_char b = char_of (unat b)"

definition char_byte :: "char \<Rightarrow> byte" where
  "char_byte c = of_nat (of_char c)"

lemma byte_char_char_byte [simp]: "byte_char (char_byte c) = c"
  by (simp add: byte_char_def char_byte_def unat_of_nat)

lemma char_byte_byte_char [simp]: "char_byte (byte_char b) = b"
  by (simp add: byte_char_def char_byte_def mod_less)

lemma byte_char_comp [simp]: "byte_char \<circ> char_byte = id" "char_byte \<circ> byte_char = id"
  by (simp_all add: fun_eq_iff)

lemma map_byte_char_char_byte [simp]: "map byte_char (map char_byte s) = s"
  by (induction s) simp_all

lemma map_char_byte_byte_char [simp]: "map char_byte (map byte_char bs) = bs"
  by (induction bs) simp_all

definition digit_char :: "nat \<Rightarrow> char" where
  "digit_char d = (if d < 10 then char_of (48 + d) else char_of (87 + d))"

fun show_nat :: "nat \<Rightarrow> string" where
  "show_nat n = (if n < 10 then [digit_char n] else show_nat (n div 10) @ [digit_char (n mod 10)])"

fun show_hex :: "nat \<Rightarrow> string" where
  "show_hex n = (if n < 16 then [digit_char n] else show_hex (n div 16) @ [digit_char (n mod 16)])"

definition show_int :: "int \<Rightarrow> string" where
  "show_int i = (if i < 0 then CHR ''-'' # show_nat (nat (- i)) else show_nat (nat i))"

declare show_nat.simps [simp del] show_hex.simps [simp del]

lemma show_nat_digit: "n < 10 \<Longrightarrow> show_nat n = [digit_char n]"
  by (subst show_nat.simps) simp

lemma show_nat_step: "10 \<le> n \<Longrightarrow> show_nat n = show_nat (n div 10) @ [digit_char (n mod 10)]"
  by (subst show_nat.simps) simp

lemma show_nat_nonempty [simp]: "show_nat n \<noteq> []"
  by (subst show_nat.simps) simp

lemma show_hex_nonempty [simp]: "show_hex n \<noteq> []"
  by (subst show_hex.simps) simp

lemma show_int_nat [simp]: "show_int (int n) = show_nat n"
  by (simp add: show_int_def)

text \<open>Reading a decimal numeral back: the reference against which \<open>show_nat\<close> is checked.\<close>

definition char_digit :: "char \<Rightarrow> nat" where
  "char_digit c = of_char c - 48"

definition read_nat :: "string \<Rightarrow> nat" where
  "read_nat s = foldl (\<lambda>acc c. 10 * acc + char_digit c) 0 s"

lemma char_digit_digit_char [simp]: "d < 10 \<Longrightarrow> char_digit (digit_char d) = d"
  by (simp add: char_digit_def digit_char_def)

lemma read_nat_snoc [simp]: "read_nat (s @ [c]) = 10 * read_nat s + char_digit c"
  by (simp add: read_nat_def)

lemma read_nat_show_nat: "read_nat (show_nat n) = n"
proof (induction n rule: show_nat.induct)
  case (1 n)
  show ?case
  proof (cases "n < 10")
    case True
    then show ?thesis by (simp add: show_nat_digit read_nat_def)
  next
    case False
    with "1.IH" show ?thesis by (simp add: show_nat_step)
  qed
qed

lemma show_nat_inj: "show_nat m = show_nat n \<Longrightarrow> m = n"
  by (metis read_nat_show_nat)

end
