(* ===== verification/Byte_Codec.thy ===== *)
theory Byte_Codec
  imports ZVM_Prelude
begin

text \<open>
  The byte codec: \<^verbatim>\<open>swapEndianness\<close> of \<^verbatim>\<open>src/main.cpp\<close> (lines 7 to 18).

  The C++ template copies the object representation of a value back to front. An object
  representation depends on the host; the model fixes a little-endian host
  (\<open>word_bytes\<close>, \<open>bytes_word\<close>), which is the only kind of host on which the program
  decodes a class file correctly, since it swaps unconditionally. \<open>swap_loop\<close> is the
  \<^verbatim>\<open>for\<close> loop, index by index; \<open>swapEndianness\<close> is the whole function on a word
  of any width that is a number of bytes.

  The lemmas show that the loop reverses the bytes, that the swap is its own inverse,
  and that swapping what the host read from the wire yields the big-endian value
  (\<open>be_word\<close>), which is what every reader of the class file relies on.
\<close>

section \<open>Object representation on the host\<close>

definition word_bytes :: "'a::len word \<Rightarrow> byte list" where
  "word_bytes w = map (\<lambda>i. ucast (drop_bit (8 * i) w)) [0..<LENGTH('a) div 8]"

fun bytes_word :: "byte list \<Rightarrow> 'a::len word" where
  "bytes_word [] = 0"
| "bytes_word (b # bs) = ucast b OR push_bit 8 (bytes_word bs)"

definition be_word :: "byte list \<Rightarrow> 'a::len word" where
  "be_word bs = foldl (\<lambda>acc b. push_bit 8 acc OR ucast b) 0 bs"

section \<open>swapEndianness\<close>

definition swap_loop :: "byte list \<Rightarrow> byte list" where
  "swap_loop src = map (\<lambda>i. src ! (length src - i - 1)) [0..<length src]"

definition swapEndianness :: "'a::len word \<Rightarrow> 'a word" where
  "swapEndianness v = bytes_word (swap_loop (word_bytes v))"

section \<open>Bytes of a word\<close>

lemma length_word_bytes [simp]: "length (word_bytes (w :: 'a::len word)) = LENGTH('a) div 8"
  by (simp add: word_bytes_def)

lemma nth_word_bytes:
  "i < LENGTH('a) div 8 \<Longrightarrow> word_bytes (w :: 'a::len word) ! i = ucast (drop_bit (8 * i) w)"
  by (simp add: word_bytes_def)

lemma bit_bytes_word:
  "bit (bytes_word bs :: 'a::len word) n \<longleftrightarrow>
     n < LENGTH('a) \<and> n div 8 < length bs \<and> bit (bs ! (n div 8)) (n mod 8)"
proof (induction bs arbitrary: n)
  case Nil
  then show ?case by simp
next
  case (Cons b bs)
  show ?case
  proof (cases "n < 8")
    case True
    then show ?thesis by (auto simp: bit_simps dest: bit_imp_le_length)
  next
    case False
    then obtain m where n: "n = m + 8"
      by (metis add.commute le_Suc_ex not_less)
    have d: "(m + 8) div 8 = Suc (m div 8)" "(m + 8) mod 8 = m mod 8"
      by simp_all
    show ?thesis unfolding n d using Cons.IH [of m]
      by (auto simp: bit_simps)
  qed
qed

lemma bytes_word_word_bytes [simp]:
  "8 dvd LENGTH('a) \<Longrightarrow> bytes_word (word_bytes w) = (w :: 'a::len word)"
  by (rule bit_word_eqI)
    (auto simp: bit_bytes_word nth_word_bytes bit_simps dest: bit_imp_le_length)

lemma word_bytes_bytes_word [simp]:
  "length bs = LENGTH('a) div 8 \<Longrightarrow> word_bytes (bytes_word bs :: 'a::len word) = bs"
  by (rule nth_equalityI)
    (auto simp: nth_word_bytes bit_bytes_word bit_simps intro!: bit_word_eqI)

lemma be_word_snoc [simp]: "be_word (bs @ [b]) = push_bit 8 (be_word bs) OR ucast b"
  by (simp add: be_word_def)

lemma be_word_Nil [simp]: "be_word [] = 0"
  by (simp add: be_word_def)

lemma bytes_word_rev: "bytes_word (rev bs) = (be_word bs :: 'a::len word)"
proof (induction bs rule: rev_induct)
  case Nil
  then show ?case by simp
next
  case (snoc b bs)
  then show ?case by (simp add: or.commute)
qed

section \<open>The loop reverses\<close>

lemma length_swap_loop [simp]: "length (swap_loop src) = length src"
  by (simp add: swap_loop_def)

lemma swap_loop_rev: "swap_loop src = rev src"
  by (auto simp: swap_loop_def rev_nth intro!: nth_equalityI)

lemma swap_loop_swap_loop [simp]: "swap_loop (swap_loop src) = src"
  by (simp add: swap_loop_rev)

lemma swapEndianness_bytes:
  "length bs = LENGTH('a) div 8 \<Longrightarrow>
   swapEndianness (bytes_word bs :: 'a::len word) = be_word bs"
  by (simp add: swapEndianness_def swap_loop_rev bytes_word_rev)

lemma word_bytes_swapEndianness:
  "8 dvd LENGTH('a) \<Longrightarrow> word_bytes (swapEndianness (v :: 'a::len word)) = rev (word_bytes v)"
  by (simp add: swapEndianness_def swap_loop_rev)

text \<open>
  C11. Byte swapping is its own inverse: for every integer type whose width is a whole
  number of bytes, applying \<open>swapEndianness\<close> twice gives the value back.
\<close>

theorem swapEndianness_involution:
  "8 dvd LENGTH('a) \<Longrightarrow> swapEndianness (swapEndianness v) = (v :: 'a::len word)"
  by (simp add: swapEndianness_def swap_loop_rev)

theorem swapEndianness_involution_witness:
  "8 dvd LENGTH(32) \<and> swapEndianness (swapEndianness (0xCAFEBABE :: u32)) = 0xCAFEBABE"
  using swapEndianness_involution [of "0xCAFEBABE :: u32"] by simp

lemma swapEndianness_inj:
  assumes "8 dvd LENGTH('a)" and "swapEndianness v = swapEndianness (w :: 'a::len word)"
  shows "v = w"
proof -
  have "rev (word_bytes v) = rev (word_bytes w)"
    using assms by (metis word_bytes_swapEndianness)
  then have "bytes_word (word_bytes v) = (bytes_word (word_bytes w) :: 'a word)"
    by simp
  with assms(1) show ?thesis by simp
qed

section \<open>The big-endian value, arithmetically\<close>

definition be_nat :: "byte list \<Rightarrow> nat" where
  "be_nat bs = foldl (\<lambda>acc b. 256 * acc + unat b) 0 bs"

lemma be_nat_Nil [simp]: "be_nat [] = 0"
  by (simp add: be_nat_def)

lemma be_nat_snoc [simp]: "be_nat (bs @ [b]) = 256 * be_nat bs + unat b"
  by (simp add: be_nat_def)

lemma be_nat_less: "be_nat bs < 2 ^ (8 * length bs)"
proof (induction bs rule: rev_induct)
  case Nil
  then show ?case by simp
next
  case (snoc b bs)
  have "256 * be_nat bs + unat b < 256 * (be_nat bs + 1)"
    using unat_byte_less [of b] by simp
  also have "\<dots> \<le> 256 * 2 ^ (8 * length bs)"
    using snoc.IH by (simp add: Suc_leI del: mult_Suc_right)
  finally show ?case by (simp add: power_add)
qed

lemma unat_be_word:
  "8 * length bs \<le> LENGTH('a) \<Longrightarrow> unat (be_word bs :: 'a::len word) = be_nat bs"
proof (induction bs rule: rev_induct)
  case Nil
  then show ?case by simp
next
  case (snoc b bs)
  then have IH: "unat (be_word bs :: 'a word) = be_nat bs" and len: "8 \<le> LENGTH('a)"
    by simp_all
  have "be_nat (bs @ [b]) < 2 ^ LENGTH('a)"
    by (rule less_le_trans [OF be_nat_less]) (use snoc.prems in \<open>simp add: power_increasing\<close>)
  then have "256 * be_nat bs < 2 ^ LENGTH('a)"
    by simp
  then have sh: "unat (push_bit 8 (be_word bs) :: 'a word) = push_bit 8 (be_nat bs)"
    by (simp only: unsigned_push_bit_eq IH) (simp add: take_bit_nat_eq_self push_bit_eq_mult)
  have "unat (be_word (bs @ [b]) :: 'a word) = push_bit 8 (be_nat bs) OR unat b"
    using len by (simp only: be_word_snoc unsigned_or_eq sh) simp
  also have "\<dots> = push_bit 8 (be_nat bs) + unat b"
    by (rule or_push_bit_nat) simp
  finally show ?case by (simp add: push_bit_eq_mult)
qed

section \<open>The widths the program uses\<close>

lemma unat_be_word_u16: "unat (be_word [a, b] :: u16) = 256 * unat a + unat b"
  using unat_be_word [of "[a, b]", where 'a = 16] by (simp add: be_nat_def)

lemma unat_be_word_u32:
  "unat (be_word [a, b, c, d] :: u32) =
     16777216 * unat a + 65536 * unat b + 256 * unat c + unat d"
  using unat_be_word [of "[a, b, c, d]", where 'a = 32] by (simp add: be_nat_def)

text \<open>
  C20. What the program does with every integer of the file, reading its bytes into an
  object of the host and swapping, yields the number that the bytes denote in
  big-endian order, for every width that is a whole number of bytes.
\<close>

theorem swapEndianness_be_value:
  assumes "length bs = LENGTH('a) div 8" and "8 dvd LENGTH('a)"
  shows "unat (swapEndianness (bytes_word bs :: 'a::len word)) = be_nat bs"
proof -
  from assms have "8 * length bs \<le> LENGTH('a)"
    by auto
  with assms(1) show ?thesis
    by (simp add: swapEndianness_bytes unat_be_word)
qed

theorem swapEndianness_be_value_witness:
  "unat (swapEndianness (bytes_word [0xCA, 0xFE, 0xBA, 0xBE] :: u32)) = 3405691582"
  using swapEndianness_be_value [of "[0xCA, 0xFE, 0xBA, 0xBE]", where 'a = 32]
  by (simp add: be_nat_def)

end
