(* ===== verification/Byte_Stream.thy ===== *)
theory Byte_Stream
  imports Byte_Codec
begin

text \<open>
  The input stream. The program reads its class file front to back through one
  \<^verbatim>\<open>std::ifstream\<close> and never seeks, so the stream is the list of bytes not yet read.

  \<open>stream_read\<close> is \<^verbatim>\<open>stream.read(buf, n)\<close>. When fewer than \<open>n\<close> bytes are left
  the C++ call fills only part of the buffer and sets the fail bit, and the program,
  which never tests the stream, goes on with indeterminate memory; the model ends such
  a run with \<open>Undefined TruncatedRead\<close>. \<open>read_obj\<close> reads an integer object in host
  order, \<open>read_array\<close> is the loop \<^verbatim>\<open>for (i = 0; i < n; i++) a[i].read(stream)\<close>.
  Readers are sequenced with \<open>rbind\<close>.

  The lemmas: what a reader returns on input that begins with the bytes it expects,
  that a successful read consumes a prefix and leaves the rest untouched, and that
  reading a big-endian encoding and swapping gives the encoded word back.
\<close>

type_synonym ifstream = "byte list"
type_synonym 'a reader = "ifstream \<Rightarrow> error + ('a \<times> ifstream)"

definition stream_read :: "nat \<Rightarrow> byte list reader" where
  "stream_read n s =
     (if n \<le> length s then Inr (take n s, drop n s) else Inl (Undefined TruncatedRead))"

definition rreturn :: "'a \<Rightarrow> 'a reader" where
  "rreturn x s = Inr (x, s)"

definition rfail :: "error \<Rightarrow> 'a reader" where
  "rfail e s = Inl e"

definition rbind :: "'a reader \<Rightarrow> ('a \<Rightarrow> 'b reader) \<Rightarrow> 'b reader" where
  "rbind m f s = ebind (m s) (\<lambda>(x, s'). f x s')"

definition read_obj :: "'a::len word reader" where
  "read_obj = rbind (stream_read (LENGTH('a) div 8)) (\<lambda>bs. rreturn (bytes_word bs))"

definition read_char :: "char reader" where
  "read_char = rbind (stream_read 1) (\<lambda>bs. rreturn (byte_char (hd bs)))"

fun read_array :: "nat \<Rightarrow> 'a reader \<Rightarrow> 'a list reader" where
  "read_array 0 r = rreturn []"
| "read_array (Suc n) r = rbind r (\<lambda>x. rbind (read_array n r) (\<lambda>xs. rreturn (x # xs)))"

definition field16 :: "byte list \<Rightarrow> nat \<Rightarrow> u16" where
  "field16 bs off = bytes_word (take 2 (drop off bs))"

definition field32 :: "byte list \<Rightarrow> nat \<Rightarrow> u32" where
  "field32 bs off = bytes_word (take 4 (drop off bs))"

text \<open>The wire format of a word: most significant byte first.\<close>

definition be_bytes :: "'a::len word \<Rightarrow> byte list" where
  "be_bytes w = rev (word_bytes w)"

definition consumes :: "'a reader \<Rightarrow> bool" where
  "consumes r \<longleftrightarrow> (\<forall>s x s'. r s = Inr (x, s') \<longrightarrow> (\<exists>bs. s = bs @ s'))"

section \<open>Sequencing\<close>

lemma rbind_rreturn [simp]: "rbind (rreturn x) f = f x"
  by (rule ext) (simp add: rbind_def rreturn_def)

lemma rbind_rfail [simp]: "rbind (rfail e) f = rfail e"
  by (rule ext) (simp add: rbind_def rfail_def)

lemma rbind_Inr [simp]: "m s = Inr (x, s') \<Longrightarrow> rbind m f s = f x s'"
  by (simp add: rbind_def)

lemma rbind_Inl [simp]: "m s = Inl e \<Longrightarrow> rbind m f s = Inl e"
  by (simp add: rbind_def)

lemma rbind_eq_Inr [res_simps]:
  "rbind m f s = Inr r \<longleftrightarrow> (\<exists>x s'. m s = Inr (x, s') \<and> f x s' = Inr r)"
  by (cases "m s") (auto simp: rbind_def)

lemma rbind_eq_Inl [res_simps]:
  "rbind m f s = Inl e \<longleftrightarrow> m s = Inl e \<or> (\<exists>x s'. m s = Inr (x, s') \<and> f x s' = Inl e)"
  by (cases "m s") (auto simp: rbind_def)

lemma rreturn_eq [simp]: "rreturn x s = Inr r \<longleftrightarrow> r = (x, s)"
  by (auto simp: rreturn_def)

lemma rfail_eq [simp]: "rfail e s = Inl e' \<longleftrightarrow> e' = e" "rfail e s \<noteq> Inr r"
  by (auto simp: rfail_def)

lemma rreturn_not_Inl [simp]: "rreturn x s \<noteq> Inl e"
  by (simp add: rreturn_def)

section \<open>Raw reads\<close>

lemma stream_read_append [simp]:
  "length bs = n \<Longrightarrow> stream_read n (bs @ rest) = Inr (bs, rest)"
  by (simp add: stream_read_def)

lemma stream_read_eq_Inr [res_simps]:
  "stream_read n s = Inr (bs, s') \<longleftrightarrow> s = bs @ s' \<and> length bs = n"
  by (auto simp: stream_read_def)

lemma stream_read_eq_Inl [res_simps]:
  "stream_read n s = Inl e \<longleftrightarrow> length s < n \<and> e = Undefined TruncatedRead"
  by (auto simp: stream_read_def)

lemma stream_read_short [simp]:
  "length s < n \<Longrightarrow> stream_read n s = Inl (Undefined TruncatedRead)"
  by (simp add: stream_read_def)

lemma length_be_bytes [simp]: "length (be_bytes (w :: 'a::len word)) = LENGTH('a) div 8"
  by (simp add: be_bytes_def)

lemma be_word_be_bytes [simp]:
  "8 dvd LENGTH('a) \<Longrightarrow> be_word (be_bytes w) = (w :: 'a::len word)"
  by (simp add: be_bytes_def flip: bytes_word_rev)

lemma be_bytes_be_word [simp]:
  "length bs = LENGTH('a) div 8 \<Longrightarrow> be_bytes (be_word bs :: 'a::len word) = bs"
  by (simp add: be_bytes_def flip: bytes_word_rev)

lemma be_bytes_inj:
  "8 dvd LENGTH('a) \<Longrightarrow> be_bytes v = be_bytes (w :: 'a::len word) \<Longrightarrow> v = w"
  by (metis be_word_be_bytes)

section \<open>Reading integers\<close>

lemma read_obj_eq_Inr:
  "read_obj s = Inr (w :: 'a::len word, s') \<longleftrightarrow>
     (\<exists>bs. s = bs @ s' \<and> length bs = LENGTH('a) div 8 \<and> w = bytes_word bs)"
  by (auto simp: read_obj_def res_simps)

lemma read_obj_eq_Inl [res_simps]:
  "(read_obj :: 'a::len word reader) s = Inl e \<longleftrightarrow>
     length s < LENGTH('a) div 8 \<and> e = Undefined TruncatedRead"
  by (auto simp: read_obj_def res_simps)

lemma read_obj_append:
  "length bs = LENGTH('a) div 8 \<Longrightarrow>
   read_obj (bs @ rest) = Inr (bytes_word bs :: 'a::len word, rest)"
  by (simp add: read_obj_def)

lemma read_obj_be_bytes [simp]:
  "8 dvd LENGTH('a) \<Longrightarrow>
   rbind read_obj (\<lambda>v. f (swapEndianness v)) (be_bytes w @ rest) = f (w :: 'a::len word) rest"
  by (simp add: read_obj_append [of "be_bytes w"] swapEndianness_bytes)

lemma read_obj_byte [simp]: "(read_obj :: byte reader) (b # rest) = Inr (b, rest)"
  using read_obj_append [of "[b]" rest, where 'a = 8] by simp

lemma read_obj_byte_eq_Inr [simp]: "read_obj s = Inr (b :: byte, s') \<longleftrightarrow> s = b # s'"
  by (cases s) (auto simp: read_obj_eq_Inr length_Suc_conv)

lemma swapEndianness_bytes_word_be_bytes [simp]:
  "8 dvd LENGTH('a) \<Longrightarrow> swapEndianness (bytes_word (be_bytes w)) = (w :: 'a::len word)"
  by (simp add: swapEndianness_bytes)

lemma be_bytes_swapEndianness_bytes_word [simp]:
  "length bs = LENGTH('a) div 8 \<Longrightarrow>
   be_bytes (swapEndianness (bytes_word bs :: 'a::len word)) = bs"
  by (simp add: swapEndianness_bytes)

lemma be_bytes_field16_0: "length bs = 2 \<Longrightarrow> be_bytes (swapEndianness (field16 bs 0)) = bs"
  by (simp add: field16_def)

lemma be_bytes_field16_pair:
  "length bs = 4 \<Longrightarrow>
   be_bytes (swapEndianness (field16 bs 0)) @ be_bytes (swapEndianness (field16 bs 2)) = bs"
  by (simp add: field16_def)

lemma read_char_Cons [simp]: "read_char (b # rest) = Inr (byte_char b, rest)"
  using stream_read_append [of "[b]" 1 rest] by (simp add: read_char_def)

lemma read_char_Nil [simp]: "read_char [] = Inl (Undefined TruncatedRead)"
  by (simp add: read_char_def)

lemma field16_append [simp]:
  "length pre = off \<Longrightarrow> field16 (pre @ [a, b] @ post) off = bytes_word [a, b]"
  by (simp add: field16_def)

lemma field32_append [simp]:
  "length pre = off \<Longrightarrow> field32 (pre @ [a, b, c, d] @ post) off = bytes_word [a, b, c, d]"
  by (simp add: field32_def)

section \<open>Reading arrays\<close>

lemma read_array_chars:
  "read_array n read_char s =
     (if n \<le> length s then Inr (map byte_char (take n s), drop n s)
      else Inl (Undefined TruncatedRead))"
proof (induction n arbitrary: s)
  case 0
  then show ?case by (simp add: rreturn_def)
next
  case (Suc n)
  show ?case
  proof (cases s)
    case Nil
    then show ?thesis by simp
  next
    case (Cons b rest)
    then show ?thesis by (simp add: Suc.IH rbind_def rreturn_def)
  qed
qed

lemma read_array_length:
  "read_array n r s = Inr (xs, s') \<Longrightarrow> length xs = n"
  by (induction n arbitrary: s xs s') (auto simp: res_simps)

lemma read_array_concat:
  assumes "\<And>x rest. x \<in> set xs \<Longrightarrow> r (enc x @ rest) = Inr (x, rest)"
  shows "read_array (length xs) r (concat (map enc xs) @ rest) = Inr (xs, rest)"
  using assms by (induction xs) simp_all

lemma read_array_sound:
  assumes r: "\<And>s x s'. r s = Inr (x, s') \<Longrightarrow> P x \<and> s = enc x @ s'"
    and run: "read_array n r s = Inr (xs, s')"
  shows "list_all P xs \<and> s = concat (map enc xs) @ s' \<and> length xs = n"
  using run
proof (induction n arbitrary: s xs)
  case 0
  then show ?case by simp
next
  case (Suc n)
  then obtain x ys s1 where x: "r s = Inr (x, s1)"
    and ys: "read_array n r s1 = Inr (ys, s')" and xs: "xs = x # ys"
    by (auto simp: res_simps)
  from r [OF x] Suc.IH [OF ys] xs show ?case by simp
qed

lemma read_array_fail:
  assumes "\<And>x rest. x \<in> set xs \<Longrightarrow> r (enc x @ rest) = Inr (x, rest)"
    and "r s = Inl e" and "length xs < n"
  shows "read_array n r (concat (map enc xs) @ s) = Inl e"
  using assms
proof (induction xs arbitrary: n)
  case Nil
  then show ?case by (cases n) simp_all
next
  case (Cons x xs)
  then obtain m where "n = Suc m" "length xs < m"
    by (cases n) auto
  with Cons show ?case by simp
qed

section \<open>Forward-only reading\<close>

lemma consumesI: "(\<And>s x s'. r s = Inr (x, s') \<Longrightarrow> \<exists>bs. s = bs @ s') \<Longrightarrow> consumes r"
  by (auto simp: consumes_def)

lemma consumesD: "consumes r \<Longrightarrow> r s = Inr (x, s') \<Longrightarrow> \<exists>bs. s = bs @ s'"
  by (auto simp: consumes_def)

lemma consumes_rreturn [simp, intro]: "consumes (rreturn x)"
  by (rule consumesI) simp

lemma consumes_rfail [simp, intro]: "consumes (rfail e)"
  by (rule consumesI) simp

lemma consumes_stream_read [simp, intro]: "consumes (stream_read n)"
  by (rule consumesI) (auto simp: res_simps)

lemma consumes_rbind [intro]:
  assumes "consumes m" and "\<And>x. consumes (f x)"
  shows "consumes (rbind m f)"
proof (rule consumesI)
  fix s y s''
  assume "rbind m f s = Inr (y, s'')"
  then obtain x s' where "m s = Inr (x, s')" and "f x s' = Inr (y, s'')"
    by (auto simp: res_simps)
  with assms obtain bs cs where "s = bs @ s'" and "s' = cs @ s''"
    by (meson consumesD)
  then have "s = (bs @ cs) @ s''" by simp
  then show "\<exists>bs. s = bs @ s''" ..
qed

lemma consumes_if [intro]: "consumes a \<Longrightarrow> consumes b \<Longrightarrow> consumes (if c then a else b)"
  by simp

lemma consumes_read_obj [simp, intro]: "consumes read_obj"
  unfolding read_obj_def by (intro consumes_rbind) simp_all

lemma consumes_read_char [simp, intro]: "consumes read_char"
  unfolding read_char_def by (intro consumes_rbind) simp_all

lemma consumes_read_array [intro]: "consumes r \<Longrightarrow> consumes (read_array n r)"
  by (induction n) (auto intro!: consumes_rbind)

end
