(* ===== verification/Constant_Pool.thy ===== *)
theory Constant_Pool
  imports Byte_Stream
begin

text \<open>
  The constant pool of \<^verbatim>\<open>src/main.cpp\<close>: the enumeration \<^verbatim>\<open>ConstantPoolTypes\<close>, the
  struct \<^verbatim>\<open>ConstantPoolEntry\<close> (a tag and an anonymous union), its method \<^verbatim>\<open>read\<close>,
  its \<^verbatim>\<open>operator<<\<close>, and the class \<^verbatim>\<open>ConstantPool\<close>.

  \<^item> \<open>ConstantPoolEntry\<close> is a record of the tag byte and the union; the union is the
    datatype \<open>cp_union\<close>, whose constructor says which member was written last. Reading
    a member other than that one has no defined result in C++, and the accessors
    (\<open>Reference_of\<close>, \<open>Class_of\<close>, \<dots>) return \<open>Undefined InactiveMember\<close> then.
  \<^item> \<open>ConstantPoolEntry_read\<close> follows the chain of comparisons of \<^verbatim>\<open>read\<close> in the
    order of the source; the last branch is the \<^verbatim>\<open>exit(1)\<close> on a tag it does not know.
  \<^item> \<open>ConstantPool_ctor\<close> is the constructor, \<open>entry_at\<close> the subscript
    \<^verbatim>\<open>entries[k]\<close> with \<open>k\<close> an \<^verbatim>\<open>int\<close>, as all callers compute it (\<^verbatim>\<open>idx - 1\<close>).
  \<^item> \<open>wf_entry\<close> is the invariant that the tag and the active member agree;
    \<open>encode_entry\<close> is the wire format, against which the reader is checked.

  Destructors and the ownership of the \<^verbatim>\<open>std::string\<close> behind a Utf8 entry are not
  modelled: entries are values.
\<close>

section \<open>Headers\<close>

record JavaClassHeader1 =
  magic :: u32
  minor :: u16
  major :: u16
  constantPoolCount :: u16

record JavaClassHeader2 =
  access_flags :: u16
  this_class :: u16
  super_class :: u16
  interfaces_count :: u16

section \<open>Entries\<close>

datatype ConstantPoolTypes =
    Utf8 | Class | Fieldref | Methodref | InterfaceMethodref | String
  | Integer | Float | Long | Double | NameAndType
  | MethodHandle | MethodType | InvokeDynamic

primrec tag_of :: "ConstantPoolTypes \<Rightarrow> byte" where
  "tag_of Utf8 = 1"
| "tag_of Class = 7"
| "tag_of Fieldref = 9"
| "tag_of Methodref = 10"
| "tag_of InterfaceMethodref = 11"
| "tag_of String = 8"
| "tag_of Integer = 3"
| "tag_of Float = 4"
| "tag_of Long = 5"
| "tag_of Double = 6"
| "tag_of NameAndType = 12"
| "tag_of MethodHandle = 15"
| "tag_of MethodType = 16"
| "tag_of InvokeDynamic = 18"

datatype cp_union =
    Class_m u16
  | Reference u16 u16
  | String_m u16
  | Numeric u32
  | LongNumeric u32 u32
  | NameAndType_m u16 u16
  | Utf8_m u16 string

record ConstantPoolEntry =
  tag :: byte
  un :: cp_union

definition Reference_of :: "ConstantPoolEntry \<Rightarrow> error + (u16 \<times> u16)" where
  "Reference_of e =
     (case un e of Reference ci nt \<Rightarrow> Inr (ci, nt) | _ \<Rightarrow> Inl (Undefined InactiveMember))"

definition Class_of :: "ConstantPoolEntry \<Rightarrow> error + u16" where
  "Class_of e = (case un e of Class_m ni \<Rightarrow> Inr ni | _ \<Rightarrow> Inl (Undefined InactiveMember))"

definition String_of :: "ConstantPoolEntry \<Rightarrow> error + u16" where
  "String_of e = (case un e of String_m si \<Rightarrow> Inr si | _ \<Rightarrow> Inl (Undefined InactiveMember))"

definition NameAndType_of :: "ConstantPoolEntry \<Rightarrow> error + (u16 \<times> u16)" where
  "NameAndType_of e =
     (case un e of NameAndType_m ni di \<Rightarrow> Inr (ni, di) | _ \<Rightarrow> Inl (Undefined InactiveMember))"

definition Utf8_of :: "ConstantPoolEntry \<Rightarrow> error + string" where
  "Utf8_of e = (case un e of Utf8_m len bytes \<Rightarrow> Inr bytes | _ \<Rightarrow> Inl (Undefined InactiveMember))"

definition ConstantPoolEntry_read :: "ConstantPoolEntry reader" where
  "ConstantPoolEntry_read =
     rbind read_obj (\<lambda>t.
       if t = tag_of Methodref then
         rbind (stream_read 4) (\<lambda>bs. rreturn
           \<lparr>tag = t, un = Reference (swapEndianness (field16 bs 0)) (swapEndianness (field16 bs 2))\<rparr>)
       else if t = tag_of Class then
         rbind (stream_read 2) (\<lambda>bs. rreturn
           \<lparr>tag = t, un = Class_m (swapEndianness (field16 bs 0))\<rparr>)
       else if t = tag_of NameAndType then
         rbind (stream_read 4) (\<lambda>bs. rreturn
           \<lparr>tag = t, un = NameAndType_m (swapEndianness (field16 bs 0)) (swapEndianness (field16 bs 2))\<rparr>)
       else if t = tag_of Utf8 then
         rbind read_obj (\<lambda>len.
           rbind (read_array (unat (swapEndianness len)) read_char) (\<lambda>bytes. rreturn
             \<lparr>tag = t, un = Utf8_m (swapEndianness len) bytes\<rparr>))
       else if t = tag_of Fieldref then
         rbind (stream_read 4) (\<lambda>bs. rreturn
           \<lparr>tag = t, un = Reference (swapEndianness (field16 bs 0)) (swapEndianness (field16 bs 2))\<rparr>)
       else if t = tag_of String then
         rbind (stream_read 2) (\<lambda>bs. rreturn
           \<lparr>tag = t, un = String_m (swapEndianness (field16 bs 0))\<rparr>)
       else rfail (UnknownTag t))"

definition ConstantPoolEntry_show :: "ConstantPoolEntry \<Rightarrow> error + string" where
  "ConstantPoolEntry_show info =
     ebind
       (if tag info = tag_of Fieldref then Inr ''Field reference''
        else if tag info = tag_of Methodref then Inr ''Method reference''
        else if tag info = tag_of String then
          ebind (String_of info) (\<lambda>si. Inr (''String@'' @ show_int (uint si - 1)))
        else if tag info = tag_of Class then Inr ''Class''
        else if tag info = tag_of NameAndType then Inr ''Name and type''
        else if tag info = tag_of Utf8 then
          ebind (Utf8_of info) (\<lambda>bytes. Inr (''Utf8; Value = \"'' @ bytes @ ''\"''))
        else Inr [])
       (\<lambda>body. Inr (''<ConstantPoolEntry = TAG: '' @ show_nat (unat (tag info)) @ ''; '' @ body @ ''>''))"

section \<open>The pool\<close>

record ConstantPool =
  entries :: "ConstantPoolEntry list"

definition ConstantPool_ctor :: "JavaClassHeader1 \<Rightarrow> ConstantPool reader" where
  "ConstantPool_ctor header =
     (if uint (constantPoolCount header) - 1 < 0 then rfail BadArrayNewLength
      else rbind (read_array (nat (uint (constantPoolCount header) - 1)) ConstantPoolEntry_read)
             (\<lambda>es. rreturn \<lparr>entries = es\<rparr>))"

definition entry_at :: "ConstantPool \<Rightarrow> int \<Rightarrow> error + ConstantPoolEntry" where
  "entry_at pool k =
     (if 0 \<le> k \<and> k < int (length (entries pool)) then Inr (entries pool ! nat k)
      else Inl (Undefined PoolIndex))"

definition get_name_by_index :: "ConstantPool \<Rightarrow> u32 \<Rightarrow> error + string" where
  "get_name_by_index pool idx = ebind (entry_at pool (uint idx)) Utf8_of"

text \<open>
  The name behind a one-based index, as \<^verbatim>\<open>get_method\<close>, \<^verbatim>\<open>get_attribute\<close> and the
  interpreter compute it: \<^verbatim>\<open>*entries[idx - 1].Utf8.bytes\<close>.
\<close>

definition utf8_at :: "ConstantPool \<Rightarrow> u16 \<Rightarrow> error + string" where
  "utf8_at pool idx = ebind (entry_at pool (uint idx - 1)) Utf8_of"

section \<open>Well-formed entries and the wire format\<close>

definition wf_entry :: "ConstantPoolEntry \<Rightarrow> bool" where
  "wf_entry e =
     (case un e of
        Class_m ni \<Rightarrow> tag e = tag_of Class
      | Reference ci nt \<Rightarrow> tag e = tag_of Fieldref \<or> tag e = tag_of Methodref
      | String_m si \<Rightarrow> tag e = tag_of String
      | NameAndType_m ni di \<Rightarrow> tag e = tag_of NameAndType
      | Utf8_m len bytes \<Rightarrow> tag e = tag_of Utf8 \<and> length bytes = unat len
      | Numeric n \<Rightarrow> False
      | LongNumeric lo hi \<Rightarrow> False)"

definition encode_entry :: "ConstantPoolEntry \<Rightarrow> byte list" where
  "encode_entry e =
     tag e #
     (case un e of
        Class_m ni \<Rightarrow> be_bytes ni
      | Reference ci nt \<Rightarrow> be_bytes ci @ be_bytes nt
      | String_m si \<Rightarrow> be_bytes si
      | NameAndType_m ni di \<Rightarrow> be_bytes ni @ be_bytes di
      | Utf8_m len bytes \<Rightarrow> be_bytes len @ map char_byte bytes
      | Numeric n \<Rightarrow> be_bytes n
      | LongNumeric lo hi \<Rightarrow> be_bytes lo @ be_bytes hi)"

definition wf_pool :: "ConstantPool \<Rightarrow> bool" where
  "wf_pool pool \<longleftrightarrow> list_all wf_entry (entries pool)"

definition encode_pool :: "ConstantPool \<Rightarrow> byte list" where
  "encode_pool pool = concat (map encode_entry (entries pool))"

text \<open>
  The tags that \<^verbatim>\<open>read\<close> knows, and a small pool with its header for the examples.
\<close>

definition known_tags :: "byte set" where
  "known_tags = tag_of ` {Methodref, Class, NameAndType, Utf8, Fieldref, String}"

definition pool_ex :: ConstantPool where
  "pool_ex = \<lparr>entries = [\<lparr>tag = 8, un = String_m 2\<rparr>, \<lparr>tag = 1, un = Utf8_m 2 ''Hi''\<rparr>]\<rparr>"

definition header_ex :: JavaClassHeader1 where
  "header_ex = \<lparr>magic = 0xCAFEBABE, minor = 0, major = 52, constantPoolCount = 3\<rparr>"

section \<open>Facts about tags\<close>

lemma tag_of_inj: "tag_of a = tag_of b \<Longrightarrow> a = b"
  by (cases a; cases b) simp_all

lemma tag_of_eq_iff [simp]: "tag_of a = tag_of b \<longleftrightarrow> a = b"
  by (auto dest: tag_of_inj)

lemmas accessor_defs = Reference_of_def Class_of_def String_of_def NameAndType_of_def Utf8_of_def

lemma accessors_simps [simp]:
  "Reference_of \<lparr>tag = t, un = Reference ci nt\<rparr> = Inr (ci, nt)"
  "Class_of \<lparr>tag = t, un = Class_m ni\<rparr> = Inr ni"
  "String_of \<lparr>tag = t, un = String_m si\<rparr> = Inr si"
  "NameAndType_of \<lparr>tag = t, un = NameAndType_m ni di\<rparr> = Inr (ni, di)"
  "Utf8_of \<lparr>tag = t, un = Utf8_m len bytes\<rparr> = Inr bytes"
  by (simp_all add: accessor_defs)

lemma Reference_of_eq_Inr [res_simps]:
  "Reference_of e = Inr (ci, nt) \<longleftrightarrow> un e = Reference ci nt"
  by (auto simp: Reference_of_def split: cp_union.splits)

lemma Class_of_eq_Inr [res_simps]: "Class_of e = Inr ni \<longleftrightarrow> un e = Class_m ni"
  by (auto simp: Class_of_def split: cp_union.splits)

lemma String_of_eq_Inr [res_simps]: "String_of e = Inr si \<longleftrightarrow> un e = String_m si"
  by (auto simp: String_of_def split: cp_union.splits)

lemma NameAndType_of_eq_Inr [res_simps]:
  "NameAndType_of e = Inr (ni, di) \<longleftrightarrow> un e = NameAndType_m ni di"
  by (auto simp: NameAndType_of_def split: cp_union.splits)

lemma Utf8_of_eq_Inr [res_simps]: "Utf8_of e = Inr s \<longleftrightarrow> (\<exists>len. un e = Utf8_m len s)"
  by (auto simp: Utf8_of_def split: cp_union.splits)

lemma accessor_errors:
  "Reference_of e = Inl err \<Longrightarrow> err = Undefined InactiveMember"
  "Class_of e = Inl err \<Longrightarrow> err = Undefined InactiveMember"
  "String_of e = Inl err \<Longrightarrow> err = Undefined InactiveMember"
  "NameAndType_of e = Inl err \<Longrightarrow> err = Undefined InactiveMember"
  "Utf8_of e = Inl err \<Longrightarrow> err = Undefined InactiveMember"
  by (auto simp: accessor_defs split: cp_union.splits)

section \<open>Subscripts\<close>

lemma entry_at_nth [simp]:
  "i < length (entries pool) \<Longrightarrow> entry_at pool (int i) = Inr (entries pool ! i)"
  by (simp add: entry_at_def)

lemma entry_at_eq_Inr [res_simps]:
  "entry_at pool k = Inr e \<longleftrightarrow> 0 \<le> k \<and> nat k < length (entries pool) \<and> e = entries pool ! nat k"
  by (auto simp: entry_at_def)

lemma entry_at_eq_Inl [res_simps]:
  "entry_at pool k = Inl err \<longleftrightarrow>
     (k < 0 \<or> int (length (entries pool)) \<le> k) \<and> err = Undefined PoolIndex"
  by (auto simp: entry_at_def)

section \<open>Reading one entry\<close>

lemma entry_eqI: "tag e = t \<Longrightarrow> un e = u \<Longrightarrow> e = \<lparr>tag = t, un = u\<rparr>"
  by (cases e) simp

lemma read_encode_entry:
  "wf_entry e \<Longrightarrow> ConstantPoolEntry_read (encode_entry e @ rest) = Inr (e, rest)"
  by (cases e; cases "un e")
    (auto simp: wf_entry_def encode_entry_def ConstantPoolEntry_read_def field16_def
      read_array_chars read_obj_append [of "be_bytes w" for w] stream_read_def)

lemma read_entry_sound:
  "ConstantPoolEntry_read s = Inr (e, s') \<Longrightarrow> wf_entry e \<and> s = encode_entry e @ s'"
  by (auto simp: ConstantPoolEntry_read_def rbind_eq_Inr stream_read_eq_Inr read_obj_eq_Inr
      wf_entry_def encode_entry_def be_bytes_field16_0 be_bytes_field16_pair read_array_chars
      split: if_splits)

text \<open>
  C10. \<^verbatim>\<open>ConstantPoolEntry::read\<close> accepts exactly the wire format of the well-formed
  entries: it returns entry \<open>e\<close> and leaves \<open>s'\<close> if and only if \<open>e\<close> is well formed
  (the active member of the union is the one its tag announces, a Utf8 entry holds as
  many characters as its length field says) and the stream was the big-endian encoding
  of \<open>e\<close> followed by \<open>s'\<close>.
\<close>

theorem ConstantPoolEntry_read_iff:
  "ConstantPoolEntry_read s = Inr (e, s') \<longleftrightarrow> wf_entry e \<and> s = encode_entry e @ s'"
  by (auto simp: read_encode_entry dest: read_entry_sound)

theorem ConstantPoolEntry_read_iff_witness:
  "ConstantPoolEntry_read [1, 0, 2, 0x48, 0x69, 7, 0, 1] =
     Inr (\<lparr>tag = 1, un = Utf8_m 2 ''Hi''\<rparr>, [7, 0, 1])"
  unfolding ConstantPoolEntry_read_iff
  by (simp add: wf_entry_def encode_entry_def be_bytes_def word_bytes_def upt_rec char_byte_def)

text \<open>
  C36. \<^verbatim>\<open>read\<close> ends the run through its \<^verbatim>\<open>exit(1)\<close> exactly when the tag is none of
  Methodref, Class, NameAndType, Utf8, Fieldref and String, whatever follows the tag;
  the error carries the tag that the message on \<^verbatim>\<open>cerr\<close> shows. The tags of Integer,
  Float, Long, Double and InterfaceMethodref are among the rejected ones.
\<close>

theorem read_unknown_tag:
  "ConstantPoolEntry_read (t # rest) = Inl (UnknownTag t') \<longleftrightarrow> t \<notin> known_tags \<and> t' = t"
  by (auto simp: ConstantPoolEntry_read_def known_tags_def rfail_def res_simps read_array_chars
      split: if_splits)

theorem read_unknown_tag_witness:
  "ConstantPoolEntry_read (tag_of Integer # [0, 0, 0, 42]) = Inl (UnknownTag 3) \<and>
   ConstantPoolEntry_read (tag_of InterfaceMethodref # [0, 1, 0, 2]) = Inl (UnknownTag 11)"
  unfolding read_unknown_tag by (simp add: known_tags_def)

lemma read_entry_known_tag:
  "ConstantPoolEntry_read s = Inr (e, s') \<Longrightarrow> tag e \<in> known_tags"
  by (auto simp: ConstantPoolEntry_read_def rbind_eq_Inr known_tags_def split: if_splits)

lemma read_entry_error:
  "ConstantPoolEntry_read s = Inl err \<Longrightarrow>
   err = Undefined TruncatedRead \<or> (\<exists>t. err = UnknownTag t \<and> t \<notin> known_tags)"
  by (auto simp: ConstantPoolEntry_read_def res_simps read_array_chars known_tags_def
      split: if_splits)

lemma consumes_ConstantPoolEntry_read [simp, intro]: "consumes ConstantPoolEntry_read"
  unfolding ConstantPoolEntry_read_def
  by (intro consumes_rbind consumes_if consumes_read_array) simp_all

section \<open>Printing an entry\<close>

lemma show_wf_entry: "wf_entry e \<Longrightarrow> is_ok (ConstantPoolEntry_show e)"
  by (cases e; cases "un e")
    (auto simp: wf_entry_def ConstantPoolEntry_show_def accessor_defs)

section \<open>Reading the pool\<close>

lemma ConstantPool_eqI: "entries p = es \<Longrightarrow> p = \<lparr>entries = es\<rparr>"
  by (cases p) simp

lemma ctor_encode_pool:
  assumes "wf_pool p" and "uint (constantPoolCount h) = int (length (entries p)) + 1"
  shows "ConstantPool_ctor h (encode_pool p @ rest) = Inr (p, rest)"
proof -
  have "read_array (length (entries p)) ConstantPoolEntry_read
          (concat (map encode_entry (entries p)) @ rest) = Inr (entries p, rest)"
    using assms(1) by (intro read_array_concat read_encode_entry) (simp add: wf_pool_def list_all_iff)
  with assms(2) show ?thesis
    by (simp add: ConstantPool_ctor_def encode_pool_def)
qed

lemma wf_pool_ex: "wf_pool pool_ex"
  by (simp add: wf_pool_def pool_ex_def wf_entry_def)

lemma ctor_sound:
  assumes "ConstantPool_ctor h s = Inr (p, s')"
  shows "wf_pool p \<and> s = encode_pool p @ s' \<and>
         int (length (entries p)) = uint (constantPoolCount h) - 1"
proof -
  from assms have nonneg: "\<not> uint (constantPoolCount h) - 1 < 0"
    and run: "read_array (nat (uint (constantPoolCount h) - 1)) ConstantPoolEntry_read s =
                Inr (entries p, s')"
    by (auto simp: ConstantPool_ctor_def res_simps split: if_splits)
  from read_array_sound [of ConstantPoolEntry_read wf_entry encode_entry, OF read_entry_sound run]
  show ?thesis using nonneg by (simp add: wf_pool_def encode_pool_def)
qed

text \<open>
  C9. The constructor of \<^verbatim>\<open>ConstantPool\<close> returns pool \<open>p\<close> and leaves \<open>s'\<close> if and
  only if \<open>p\<close> holds \<open>constantPoolCount - 1\<close> entries, all of them well formed, and the
  stream was their wire format, one after the other, followed by \<open>s'\<close>.
\<close>

theorem ConstantPool_ctor_iff:
  "ConstantPool_ctor h s = Inr (p, s') \<longleftrightarrow>
     wf_pool p \<and> s = encode_pool p @ s' \<and>
     int (length (entries p)) = uint (constantPoolCount h) - 1"
  by (auto simp: ctor_encode_pool dest: ctor_sound)

theorem ConstantPool_ctor_iff_witness:
  "ConstantPool_ctor header_ex ([8, 0, 2, 1, 0, 2, 0x48, 0x69] @ [0, 33]) = Inr (pool_ex, [0, 33])"
  unfolding ConstantPool_ctor_iff
  by (simp add: wf_pool_ex)
    (simp add: pool_ex_def header_ex_def encode_pool_def encode_entry_def be_bytes_def
      word_bytes_def upt_rec char_byte_def)

text \<open>
  C37. A header that announces a pool count of zero makes the constructor ask for an
  array of \<open>-1\<close> entries: the run ends with \<^verbatim>\<open>std::bad_array_new_length\<close> before any
  entry is read.
\<close>

theorem ctor_count_zero:
  "constantPoolCount h = 0 \<Longrightarrow> ConstantPool_ctor h s = Inl BadArrayNewLength"
  by (simp add: ConstantPool_ctor_def rfail_def)

theorem ctor_count_zero_witness:
  "constantPoolCount (header_ex\<lparr>constantPoolCount := 0\<rparr>) = 0 \<and>
   ConstantPool_ctor (header_ex\<lparr>constantPoolCount := 0\<rparr>) [1, 2, 3] = Inl BadArrayNewLength"
  using ctor_count_zero [of "header_ex\<lparr>constantPoolCount := 0\<rparr>" "[1, 2, 3]"] by simp

lemma ctor_unknown_tag:
  assumes "list_all wf_entry es" and "int (length es) < uint (constantPoolCount h) - 1"
    and "t \<notin> known_tags"
  shows "ConstantPool_ctor h (concat (map encode_entry es) @ t # rest) = Inl (UnknownTag t)"
proof -
  from assms(3) have "ConstantPoolEntry_read (t # rest) = Inl (UnknownTag t)"
    by (simp add: ConstantPoolEntry_read_def known_tags_def rfail_def)
  with assms(1,2)
  have "read_array (nat (uint (constantPoolCount h) - 1)) ConstantPoolEntry_read
          (concat (map encode_entry es) @ t # rest) = Inl (UnknownTag t)"
    by (intro read_array_fail) (auto simp: list_all_iff read_encode_entry)
  with assms(2) show ?thesis
    by (simp add: ConstantPool_ctor_def)
qed

lemma consumes_ConstantPool_ctor [simp, intro]: "consumes (ConstantPool_ctor h)"
  unfolding ConstantPool_ctor_def
  by (intro consumes_rbind consumes_if consumes_read_array) simp_all

section \<open>Lookup by one-based index\<close>

text \<open>
  C32. In a pool built from a header with count \<open>n\<close>, the one-based index \<open>i\<close> with
  \<open>1 \<le> i < n\<close> names the entry that was read at position \<open>i\<close>; index \<open>0\<close> and
  every index from \<open>n\<close> on lie outside the array, where the C++ subscript is undefined.
\<close>

theorem entry_at_ctor:
  assumes "ConstantPool_ctor h s = Inr (p, s')"
  shows "entry_at p (uint (i :: u16) - 1) =
           (if 1 \<le> uint i \<and> uint i < uint (constantPoolCount h)
            then Inr (entries p ! (unat i - 1)) else Inl (Undefined PoolIndex))"
proof -
  from ctor_sound [OF assms] have "int (length (entries p)) = uint (constantPoolCount h) - 1"
    by simp
  then show ?thesis
    by (auto simp: entry_at_def nat_diff_distrib')
qed

theorem entry_at_ctor_witness:
  "ConstantPool_ctor header_ex (encode_pool pool_ex @ [0, 33]) = Inr (pool_ex, [0, 33]) \<and>
   entry_at pool_ex (uint (2 :: u16) - 1) = Inr \<lparr>tag = 1, un = Utf8_m 2 ''Hi''\<rparr> \<and>
   entry_at pool_ex (uint (0 :: u16) - 1) = Inl (Undefined PoolIndex) \<and>
   entry_at pool_ex (uint (3 :: u16) - 1) = Inl (Undefined PoolIndex)"
proof -
  have r: "ConstantPool_ctor header_ex (encode_pool pool_ex @ [0, 33]) = Inr (pool_ex, [0, 33])"
    using wf_pool_ex by (intro ctor_encode_pool) (simp_all add: pool_ex_def header_ex_def)
  from entry_at_ctor [OF r, of 2] entry_at_ctor [OF r, of 0] entry_at_ctor [OF r, of 3] r
  show ?thesis by (simp add: pool_ex_def header_ex_def)
qed

lemma entry_at_one_based:
  "entry_at pool (uint (idx :: u16) - 1) =
     (if 1 \<le> unat idx \<and> unat idx \<le> length (entries pool)
      then Inr (entries pool ! (unat idx - 1)) else Inl (Undefined PoolIndex))"
proof -
  have "uint idx - 1 = int (unat idx) - 1"
    by simp
  then show ?thesis
    by (auto simp: entry_at_def nat_diff_distrib' simp del: of_nat_unat)
qed

lemma utf8_at_eq_Inr [res_simps]:
  "utf8_at pool idx = Inr s \<longleftrightarrow>
     1 \<le> unat idx \<and> unat idx \<le> length (entries pool) \<and>
     (\<exists>len. un (entries pool ! (unat idx - 1)) = Utf8_m len s)"
  by (auto simp: utf8_at_def entry_at_one_based Utf8_of_eq_Inr)

lemma utf8_at_error:
  "utf8_at pool idx = Inl err \<Longrightarrow> err = Undefined PoolIndex \<or> err = Undefined InactiveMember"
  by (auto simp: utf8_at_def entry_at_one_based dest: accessor_errors split: if_splits)

section \<open>Lookups never end the program\<close>

lemma only_faults_entry_at [fault_intros]: "only_faults (entry_at pool k)"
  by (simp add: entry_at_def)

lemma only_faults_accessors [fault_intros]:
  "only_faults (Reference_of e)" "only_faults (Class_of e)" "only_faults (String_of e)"
  "only_faults (NameAndType_of e)" "only_faults (Utf8_of e)"
  by (simp_all add: accessor_defs split: cp_union.splits)

lemma only_faults_utf8_at [fault_intros]: "only_faults (utf8_at pool i)"
  unfolding utf8_at_def by (intro fault_intros)

lemma only_faults_show [fault_intros]: "only_faults (ConstantPoolEntry_show e)"
  unfolding ConstantPoolEntry_show_def by (intro fault_intros)

end
