(* ===== verification/Class_File.thy ===== *)
theory Class_File
  imports Constant_Pool
begin

text \<open>
  The structural records of a class file and the class \<^verbatim>\<open>JavaClassFile\<close> of
  \<^verbatim>\<open>src/main.cpp\<close> (lines 194 to 412).

  \<^item> \<open>AttributeInfo\<close>, \<open>FieldEntry\<close> and \<open>MethodEntry\<close> are the structs of the same
    names; an array member and its count member are both kept (\<open>attributes\<close> and
    \<open>attributes_count\<close>), and that they agree is part of the invariant \<open>wf_class\<close>.
    \<open>FieldEntry\<close> and \<open>MethodEntry\<close> have the same member names, as in the source:
    the selectors are written with the record's name in front. The member
    \<^verbatim>\<open>fields\<close> of \<^verbatim>\<open>JavaClassFile\<close> is \<open>fields'\<close>, since every record already has a
    constant of that name.
  \<^item> \<open>AttributeInfo_read\<close>, \<open>FieldEntry_read\<close> and \<open>MethodEntry_read\<close> are the
    \<^verbatim>\<open>read\<close> methods. \<open>get_attribute\<close> and \<open>get_method\<close> are the two linear searches;
    a pointer to an element of an array is the index of the element, \<^verbatim>\<open>nullptr\<close> is
    \<open>None\<close>.
  \<^item> \<open>JavaClassFile_ctor\<close> is the constructor. It returns the object and what it wrote
    to standard output. After a wrong magic number it returns early with \<open>ok\<close> false,
    no pool and no methods; \<open>header2\<close> is \<open>None\<close> as long as it has not been read.
    The test \<^verbatim>\<open>if (!stream)\<close> of the source compares a pointer that \<^verbatim>\<open>new\<close> has just
    returned and can never succeed, so it has no branch here; a file that cannot be
    opened is a stream on which every read fails.
  \<^item> \<open>encode_class\<close> and its parts give the wire format; \<open>wf_class\<close> is the invariant
    of a successfully constructed object.
  \<^item> \<open>first_match\<close> is the linear search that \<open>get_method\<close> and \<open>get_attribute\<close> are
    instances of.
  \<^item> \<open>example_class\<close>, \<open>hello_code\<close> and \<open>hello_bytes\<close> are the class file of a
    \<^verbatim>\<open>main\<close> that prints \<^verbatim>\<open>Hi\<close>, on which the theorems are instantiated.
\<close>

section \<open>Attributes, fields, methods\<close>

record AttributeInfo =
  attribute_name_index :: u16
  attribute_length :: u32
  info :: "byte list"

definition AttributeInfo_read :: "AttributeInfo reader" where
  "AttributeInfo_read =
     rbind read_obj (\<lambda>ni :: u16.
     rbind read_obj (\<lambda>len :: u32.
     rbind (stream_read (unat (swapEndianness len))) (\<lambda>bs.
     rreturn \<lparr>attribute_name_index = swapEndianness ni,
              attribute_length = swapEndianness len,
              info = bs\<rparr>)))"

record FieldEntry =
  access_flags :: u16
  name_index :: u16
  descriptor_index :: u16
  attributes_count :: u16
  attributes :: "AttributeInfo list"

definition FieldEntry_read :: "FieldEntry reader" where
  "FieldEntry_read =
     rbind read_obj (\<lambda>af :: u16.
     rbind read_obj (\<lambda>ni :: u16.
     rbind read_obj (\<lambda>di :: u16.
     rbind read_obj (\<lambda>ac :: u16.
     rbind (read_array (unat (swapEndianness ac)) AttributeInfo_read) (\<lambda>attrs.
     rreturn \<lparr>FieldEntry.access_flags = swapEndianness af,
              FieldEntry.name_index = swapEndianness ni,
              FieldEntry.descriptor_index = swapEndianness di,
              FieldEntry.attributes_count = swapEndianness ac,
              FieldEntry.attributes = attrs\<rparr>)))))"

record MethodEntry =
  access_flags :: u16
  name_index :: u16
  descriptor_index :: u16
  attributes_count :: u16
  attributes :: "AttributeInfo list"

definition MethodEntry_read :: "MethodEntry reader" where
  "MethodEntry_read =
     rbind read_obj (\<lambda>af :: u16.
     rbind read_obj (\<lambda>ni :: u16.
     rbind read_obj (\<lambda>di :: u16.
     rbind read_obj (\<lambda>ac :: u16.
     rbind (read_array (unat (swapEndianness ac)) AttributeInfo_read) (\<lambda>attrs.
     rreturn \<lparr>MethodEntry.access_flags = swapEndianness af,
              MethodEntry.name_index = swapEndianness ni,
              MethodEntry.descriptor_index = swapEndianness di,
              MethodEntry.attributes_count = swapEndianness ac,
              MethodEntry.attributes = attrs\<rparr>)))))"

text \<open>
  The search loops run an index up to the count member and subscript the array with it.
  \<open>deref\<close> is the dereference of a pool pointer that may be null.
\<close>

definition deref :: "'a option \<Rightarrow> error + 'a" where
  "deref p = (case p of None \<Rightarrow> Inl (Undefined NullPointer) | Some x \<Rightarrow> Inr x)"

definition subscript :: "'a list \<Rightarrow> nat \<Rightarrow> error + 'a" where
  "subscript xs i = (if i < length xs then Inr (xs ! i) else Inl (Undefined BufferOverrun))"

function get_attribute_from ::
  "MethodEntry \<Rightarrow> ConstantPool option \<Rightarrow> string \<Rightarrow> nat \<Rightarrow> error + nat option" where
  "get_attribute_from m pool name i =
     (if i < unat (MethodEntry.attributes_count m) then
        ebind (subscript (MethodEntry.attributes m) i) (\<lambda>a.
        ebind (deref pool) (\<lambda>p.
        ebind (utf8_at p (attribute_name_index a)) (\<lambda>aname.
        if aname = name then Inr (Some i) else get_attribute_from m pool name (Suc i))))
      else Inr None)"
  by pat_completeness auto
termination
  by (relation "measure (\<lambda>(m, pool, name, i). unat (MethodEntry.attributes_count m) - i)") auto

definition get_attribute :: "MethodEntry \<Rightarrow> ConstantPool option \<Rightarrow> string \<Rightarrow> error + nat option" where
  "get_attribute m pool name = get_attribute_from m pool name 0"

section \<open>The class file\<close>

record JavaClassFile =
  ok :: bool
  filename :: string
  header1 :: JavaClassHeader1
  header2 :: "JavaClassHeader2 option"
  const_pool :: "ConstantPool option"
  interfaces :: "u16 list"
  fields_count :: u16
  fields' :: "FieldEntry list"
  methods_count :: u16
  methods :: "MethodEntry list"
  attributes_count :: u16
  attributes :: "AttributeInfo list"

definition read_header1 :: "JavaClassHeader1 reader" where
  "read_header1 =
     rbind (stream_read 10) (\<lambda>bs.
     rreturn \<lparr>magic = swapEndianness (field32 bs 0),
              minor = swapEndianness (field16 bs 4),
              major = swapEndianness (field16 bs 6),
              constantPoolCount = swapEndianness (field16 bs 8)\<rparr>)"

definition read_header2 :: "JavaClassHeader2 reader" where
  "read_header2 =
     rbind (stream_read 8) (\<lambda>bs.
     rreturn \<lparr>JavaClassHeader2.access_flags = swapEndianness (field16 bs 0),
              this_class = swapEndianness (field16 bs 2),
              super_class = swapEndianness (field16 bs 4),
              interfaces_count = swapEndianness (field16 bs 6)\<rparr>)"

definition read_interfaces :: "JavaClassHeader2 \<Rightarrow> u16 list reader" where
  "read_interfaces h2 =
     (if interfaces_count h2 \<noteq> 0 then read_array (unat (interfaces_count h2)) read_obj
      else rreturn [])"

definition new_JavaClassFile :: "JavaClassHeader1 \<Rightarrow> JavaClassFile" where
  "new_JavaClassFile h1 =
     \<lparr>ok = False, filename = [], header1 = h1, header2 = None, const_pool = None,
      interfaces = [], fields_count = 0, fields' = [], methods_count = 0, methods = [],
      JavaClassFile.attributes_count = 0, JavaClassFile.attributes = []\<rparr>"

definition read_class_body :: "JavaClassHeader1 \<Rightarrow> JavaClassFile reader" where
  "read_class_body h1 =
     rbind (ConstantPool_ctor h1) (\<lambda>pool.
     rbind read_header2 (\<lambda>h2.
     rbind (read_interfaces h2) (\<lambda>ifs.
     rbind read_obj (\<lambda>fc :: u16.
     rbind (read_array (unat (swapEndianness fc)) FieldEntry_read) (\<lambda>fs.
     rbind read_obj (\<lambda>mc :: u16.
     rbind (read_array (unat (swapEndianness mc)) MethodEntry_read) (\<lambda>ms.
     rbind read_obj (\<lambda>ac :: u16.
     rbind (read_array (unat (swapEndianness ac)) AttributeInfo_read) (\<lambda>as.
     rreturn \<lparr>ok = True, filename = [], header1 = h1, header2 = Some h2,
              const_pool = Some pool, interfaces = ifs,
              fields_count = swapEndianness fc, fields' = fs,
              methods_count = swapEndianness mc, methods = ms,
              JavaClassFile.attributes_count = swapEndianness ac,
              JavaClassFile.attributes = as\<rparr>)))))))))"

definition JavaClassFile_ctor :: "string \<Rightarrow> ifstream \<Rightarrow> error + (JavaClassFile \<times> string)" where
  "JavaClassFile_ctor fname s =
     ebind (read_header1 s) (\<lambda>(h1, s1).
       if magic h1 \<noteq> 0xCAFEBABE
       then Inr (new_JavaClassFile h1, fname @ '': not a Java Class file!'' @ [CHR 0x0A])
       else ebind (read_class_body h1 s1) (\<lambda>(cf, s2). Inr (cf, [])))"

function get_method_from :: "JavaClassFile \<Rightarrow> string \<Rightarrow> nat \<Rightarrow> error + nat option" where
  "get_method_from cf name i =
     (if i < unat (methods_count cf) then
        ebind (subscript (methods cf) i) (\<lambda>m.
        ebind (deref (const_pool cf)) (\<lambda>p.
        ebind (utf8_at p (MethodEntry.name_index m)) (\<lambda>mname.
        if mname = name then Inr (Some i) else get_method_from cf name (Suc i))))
      else Inr None)"
  by pat_completeness auto
termination
  by (relation "measure (\<lambda>(cf, name, i). unat (methods_count cf) - i)") auto

definition get_method :: "JavaClassFile \<Rightarrow> string \<Rightarrow> error + nat option" where
  "get_method cf name = get_method_from cf name 0"

declare get_attribute_from.simps [simp del] get_method_from.simps [simp del]

section \<open>The wire format\<close>

text \<open>
  The bytes of a class file, as the constructor expects them, and the conditions under
  which an object is the result of reading such bytes. Every integer is written most
  significant byte first, except for the interface indices: the constructor reads them
  without swapping, so that the bytes it inverts are those of the host representation.
\<close>

definition wf_attribute :: "AttributeInfo \<Rightarrow> bool" where
  "wf_attribute a \<longleftrightarrow> length (info a) = unat (attribute_length a)"

definition encode_attribute :: "AttributeInfo \<Rightarrow> byte list" where
  "encode_attribute a = be_bytes (attribute_name_index a) @ be_bytes (attribute_length a) @ info a"

definition wf_field :: "FieldEntry \<Rightarrow> bool" where
  "wf_field f \<longleftrightarrow>
     length (FieldEntry.attributes f) = unat (FieldEntry.attributes_count f) \<and>
     list_all wf_attribute (FieldEntry.attributes f)"

definition encode_field :: "FieldEntry \<Rightarrow> byte list" where
  "encode_field f =
     be_bytes (FieldEntry.access_flags f) @ be_bytes (FieldEntry.name_index f) @
     be_bytes (FieldEntry.descriptor_index f) @ be_bytes (FieldEntry.attributes_count f) @
     concat (map encode_attribute (FieldEntry.attributes f))"

definition wf_method :: "MethodEntry \<Rightarrow> bool" where
  "wf_method m \<longleftrightarrow>
     length (MethodEntry.attributes m) = unat (MethodEntry.attributes_count m) \<and>
     list_all wf_attribute (MethodEntry.attributes m)"

definition encode_method :: "MethodEntry \<Rightarrow> byte list" where
  "encode_method m =
     be_bytes (MethodEntry.access_flags m) @ be_bytes (MethodEntry.name_index m) @
     be_bytes (MethodEntry.descriptor_index m) @ be_bytes (MethodEntry.attributes_count m) @
     concat (map encode_attribute (MethodEntry.attributes m))"

definition encode_header1 :: "JavaClassHeader1 \<Rightarrow> byte list" where
  "encode_header1 h =
     be_bytes (magic h) @ be_bytes (minor h) @ be_bytes (major h) @ be_bytes (constantPoolCount h)"

definition encode_header2 :: "JavaClassHeader2 \<Rightarrow> byte list" where
  "encode_header2 h =
     be_bytes (JavaClassHeader2.access_flags h) @ be_bytes (this_class h) @
     be_bytes (super_class h) @ be_bytes (interfaces_count h)"

definition encode_body :: "JavaClassFile \<Rightarrow> JavaClassHeader2 \<Rightarrow> ConstantPool \<Rightarrow> byte list" where
  "encode_body cf h2 pool =
     encode_pool pool @ encode_header2 h2 @
     concat (map word_bytes (interfaces cf)) @
     be_bytes (fields_count cf) @ concat (map encode_field (fields' cf)) @
     be_bytes (methods_count cf) @ concat (map encode_method (methods cf)) @
     be_bytes (JavaClassFile.attributes_count cf) @
     concat (map encode_attribute (JavaClassFile.attributes cf))"

definition encode_class :: "JavaClassFile \<Rightarrow> byte list" where
  "encode_class cf =
     (case (header2 cf, const_pool cf) of
        (Some h2, Some pool) \<Rightarrow> encode_header1 (header1 cf) @ encode_body cf h2 pool
      | _ \<Rightarrow> encode_header1 (header1 cf))"

definition wf_body :: "JavaClassFile \<Rightarrow> JavaClassHeader2 \<Rightarrow> ConstantPool \<Rightarrow> bool" where
  "wf_body cf h2 pool \<longleftrightarrow>
     wf_pool pool \<and>
     int (length (entries pool)) = uint (constantPoolCount (header1 cf)) - 1 \<and>
     length (interfaces cf) = unat (interfaces_count h2) \<and>
     length (fields' cf) = unat (fields_count cf) \<and> list_all wf_field (fields' cf) \<and>
     length (methods cf) = unat (methods_count cf) \<and> list_all wf_method (methods cf) \<and>
     length (JavaClassFile.attributes cf) = unat (JavaClassFile.attributes_count cf) \<and>
     list_all wf_attribute (JavaClassFile.attributes cf)"

definition wf_class :: "JavaClassFile \<Rightarrow> bool" where
  "wf_class cf \<longleftrightarrow>
     ok cf \<and> filename cf = [] \<and> magic (header1 cf) = 0xCAFEBABE \<and>
     (case (header2 cf, const_pool cf) of
        (Some h2, Some pool) \<Rightarrow> wf_body cf h2 pool
      | _ \<Rightarrow> False)"

section \<open>Linear search\<close>

text \<open>
  \<open>first_match n names name i\<close> is the search that \<^verbatim>\<open>get_method\<close> and \<^verbatim>\<open>get_attribute\<close>
  both perform: the least index from \<open>i\<close> below \<open>n\<close> whose name is \<open>name\<close>, where the
  name of an index is looked up in the pool and the lookup may fail. \<open>misses\<close> says that
  the indices from \<open>i\<close> below \<open>k\<close> all have a name and that it is another one.
\<close>

function first_match :: "nat \<Rightarrow> (nat \<Rightarrow> error + string) \<Rightarrow> string \<Rightarrow> nat \<Rightarrow> error + nat option" where
  "first_match n names name i =
     (if i < n then
        ebind (names i) (\<lambda>s. if s = name then Inr (Some i) else first_match n names name (Suc i))
      else Inr None)"
  by pat_completeness auto
termination
  by (relation "measure (\<lambda>(n, names, name, i). n - i)") auto

declare first_match.simps [simp del]

definition method_name_at :: "JavaClassFile \<Rightarrow> nat \<Rightarrow> error + string" where
  "method_name_at cf i =
     ebind (subscript (methods cf) i) (\<lambda>m.
     ebind (deref (const_pool cf)) (\<lambda>p. utf8_at p (MethodEntry.name_index m)))"

definition attribute_name_at :: "MethodEntry \<Rightarrow> ConstantPool option \<Rightarrow> nat \<Rightarrow> error + string" where
  "attribute_name_at m pool i =
     ebind (subscript (MethodEntry.attributes m) i) (\<lambda>a.
     ebind (deref pool) (\<lambda>p. utf8_at p (attribute_name_index a)))"

definition misses :: "(nat \<Rightarrow> error + string) \<Rightarrow> string \<Rightarrow> nat \<Rightarrow> nat \<Rightarrow> bool" where
  "misses names name i k \<longleftrightarrow>
     list_all (\<lambda>j. case names j of Inl e \<Rightarrow> False | Inr s \<Rightarrow> s \<noteq> name) [i..<k]"

section \<open>An example class\<close>

text \<open>
  The class that a Java compiler produces for a \<^verbatim>\<open>main\<close> that prints \<^verbatim>\<open>Hi\<close>, reduced
  to what the program reads: a pool of nineteen entries, no interfaces, no fields, one
  method \<^verbatim>\<open>main\<close> with one attribute \<^verbatim>\<open>Code\<close>. \<open>example_class code\<close> is the object
  that the constructor builds when the method holds the instructions \<open>code\<close>;
  \<open>example_bytes code\<close> is the file.
\<close>

definition utf8_entry :: "string \<Rightarrow> ConstantPoolEntry" where
  "utf8_entry s = \<lparr>tag = tag_of Utf8, un = Utf8_m (of_nat (length s)) s\<rparr>"

definition example_pool :: ConstantPool where
  "example_pool = \<lparr>entries =
     [\<lparr>tag = tag_of Fieldref, un = Reference 2 3\<rparr>,
      \<lparr>tag = tag_of Class, un = Class_m 4\<rparr>,
      \<lparr>tag = tag_of NameAndType, un = NameAndType_m 5 6\<rparr>,
      utf8_entry ''java/lang/System'',
      utf8_entry ''out'',
      utf8_entry ''Ljava/io/PrintStream;'',
      \<lparr>tag = tag_of String, un = String_m 8\<rparr>,
      utf8_entry ''Hi'',
      \<lparr>tag = tag_of Methodref, un = Reference 10 11\<rparr>,
      \<lparr>tag = tag_of Class, un = Class_m 12\<rparr>,
      \<lparr>tag = tag_of NameAndType, un = NameAndType_m 13 14\<rparr>,
      utf8_entry ''java/io/PrintStream'',
      utf8_entry ''println'',
      utf8_entry ''(Ljava/lang/String;)V'',
      utf8_entry ''main'',
      utf8_entry ''([Ljava/lang/String;)V'',
      utf8_entry ''Code'',
      \<lparr>tag = tag_of Class, un = Class_m 19\<rparr>,
      utf8_entry ''Hello'']\<rparr>"

definition example_info :: "byte list \<Rightarrow> byte list" where
  "example_info code =
     [0, 2, 0, 1] @ be_bytes (of_nat (length code) :: u32) @ code @ [0, 0, 0, 0]"

definition example_method :: "byte list \<Rightarrow> MethodEntry" where
  "example_method code =
     \<lparr>MethodEntry.access_flags = 9, MethodEntry.name_index = 15,
      MethodEntry.descriptor_index = 16, MethodEntry.attributes_count = 1,
      MethodEntry.attributes =
        [\<lparr>attribute_name_index = 17,
          attribute_length = of_nat (length (example_info code)),
          info = example_info code\<rparr>]\<rparr>"

definition example_class :: "byte list \<Rightarrow> JavaClassFile" where
  "example_class code =
     \<lparr>ok = True, filename = [],
      header1 = \<lparr>magic = 0xCAFEBABE, minor = 0, major = 52, constantPoolCount = 20\<rparr>,
      header2 = Some \<lparr>JavaClassHeader2.access_flags = 0x21, this_class = 18,
                       super_class = 0, interfaces_count = 0\<rparr>,
      const_pool = Some example_pool, interfaces = [],
      fields_count = 0, fields' = [],
      methods_count = 1, methods = [example_method code],
      JavaClassFile.attributes_count = 0, JavaClassFile.attributes = []\<rparr>"

definition hello_code :: "byte list" where
  "hello_code = [0xB2, 0, 1, 0x12, 7, 0xB6, 0, 9, 0xB1]"

text \<open>The file of \<open>example_class hello_code\<close>, byte by byte.\<close>

definition hello_bytes :: "byte list" where
  "hello_bytes =
     [202, 254, 186, 190, 0, 0, 0, 52, 0, 20, 9, 0, 2, 0, 3, 7, 0, 4, 12, 0, 5,
      0, 6, 1, 0, 16, 106, 97, 118, 97, 47, 108, 97, 110, 103, 47, 83, 121, 115,
      116, 101, 109, 1, 0, 3, 111, 117, 116, 1, 0, 21, 76, 106, 97, 118, 97, 47,
      105, 111, 47, 80, 114, 105, 110, 116, 83, 116, 114, 101, 97, 109, 59, 8,
      0, 8, 1, 0, 2, 72, 105, 10, 0, 10, 0, 11, 7, 0, 12, 12, 0, 13, 0, 14, 1,
      0, 19, 106, 97, 118, 97, 47, 105, 111, 47, 80, 114, 105, 110, 116, 83,
      116, 114, 101, 97, 109, 1, 0, 7, 112, 114, 105, 110, 116, 108, 110, 1, 0,
      21, 40, 76, 106, 97, 118, 97, 47, 108, 97, 110, 103, 47, 83, 116, 114,
      105, 110, 103, 59, 41, 86, 1, 0, 4, 109, 97, 105, 110, 1, 0, 22, 40, 91,
      76, 106, 97, 118, 97, 47, 108, 97, 110, 103, 47, 83, 116, 114, 105, 110,
      103, 59, 41, 86, 1, 0, 4, 67, 111, 100, 101, 7, 0, 19, 1, 0, 5, 72, 101,
      108, 108, 111, 0, 33, 0, 18, 0, 0, 0, 0, 0, 0, 0, 1, 0, 9, 0, 15, 0, 16,
      0, 1, 0, 17, 0, 0, 0, 21, 0, 2, 0, 1, 0, 0, 0, 9, 178, 0, 1, 18, 7, 182,
      0, 9, 177, 0, 0, 0, 0, 0, 0]"

section \<open>Attributes, fields and methods on the wire\<close>

lemmas read_be = read_obj_append [of "be_bytes w" for w]

lemma AttributeInfo_read_encode:
  "wf_attribute a \<Longrightarrow> AttributeInfo_read (encode_attribute a @ rest) = Inr (a, rest)"
  by (cases a) (simp add: wf_attribute_def encode_attribute_def AttributeInfo_read_def read_be)

lemma AttributeInfo_read_sound:
  "AttributeInfo_read s = Inr (a, s') \<Longrightarrow> wf_attribute a \<and> s = encode_attribute a @ s'"
  by (auto simp: AttributeInfo_read_def rbind_eq_Inr read_obj_eq_Inr stream_read_eq_Inr
      wf_attribute_def encode_attribute_def)

lemma read_attributes_encode:
  "list_all wf_attribute as \<Longrightarrow> length as = n \<Longrightarrow>
   read_array n AttributeInfo_read (concat (map encode_attribute as) @ rest) = Inr (as, rest)"
  using read_array_concat [of as AttributeInfo_read encode_attribute rest]
  by (simp add: AttributeInfo_read_encode list_all_iff)

lemma read_attributes_sound:
  "read_array n AttributeInfo_read s = Inr (as, s') \<Longrightarrow>
   list_all wf_attribute as \<and> s = concat (map encode_attribute as) @ s' \<and> length as = n"
  by (rule read_array_sound [OF AttributeInfo_read_sound])

lemma MethodEntry_read_encode:
  "wf_method m \<Longrightarrow> MethodEntry_read (encode_method m @ rest) = Inr (m, rest)"
  by (cases m) (simp add: wf_method_def encode_method_def MethodEntry_read_def read_be
      read_attributes_encode)

lemma MethodEntry_read_sound:
  "MethodEntry_read s = Inr (m, s') \<Longrightarrow> wf_method m \<and> s = encode_method m @ s'"
  by (auto simp: MethodEntry_read_def rbind_eq_Inr read_obj_eq_Inr
      wf_method_def encode_method_def dest!: read_attributes_sound)

lemma FieldEntry_read_encode:
  "wf_field f \<Longrightarrow> FieldEntry_read (encode_field f @ rest) = Inr (f, rest)"
  by (cases f) (simp add: wf_field_def encode_field_def FieldEntry_read_def read_be
      read_attributes_encode)

lemma FieldEntry_read_sound:
  "FieldEntry_read s = Inr (f, s') \<Longrightarrow> wf_field f \<and> s = encode_field f @ s'"
  by (auto simp: FieldEntry_read_def rbind_eq_Inr read_obj_eq_Inr
      wf_field_def encode_field_def dest!: read_attributes_sound)

lemma read_fields_encode:
  "list_all wf_field fs \<Longrightarrow> length fs = n \<Longrightarrow>
   read_array n FieldEntry_read (concat (map encode_field fs) @ rest) = Inr (fs, rest)"
  using read_array_concat [of fs FieldEntry_read encode_field rest]
  by (simp add: FieldEntry_read_encode list_all_iff)

lemma read_methods_encode:
  "list_all wf_method ms \<Longrightarrow> length ms = n \<Longrightarrow>
   read_array n MethodEntry_read (concat (map encode_method ms) @ rest) = Inr (ms, rest)"
  using read_array_concat [of ms MethodEntry_read encode_method rest]
  by (simp add: MethodEntry_read_encode list_all_iff)

lemma read_fields_sound:
  "read_array n FieldEntry_read s = Inr (fs, s') \<Longrightarrow>
   list_all wf_field fs \<and> s = concat (map encode_field fs) @ s' \<and> length fs = n"
  by (rule read_array_sound [OF FieldEntry_read_sound])

lemma read_methods_sound:
  "read_array n MethodEntry_read s = Inr (ms, s') \<Longrightarrow>
   list_all wf_method ms \<and> s = concat (map encode_method ms) @ s' \<and> length ms = n"
  by (rule read_array_sound [OF MethodEntry_read_sound])

section \<open>Headers and interfaces\<close>

lemma take_drop_10:
  "length bs = 10 \<Longrightarrow> take 4 bs @ take 2 (drop 4 bs) @ take 2 (drop 6 bs) @ drop 8 bs = bs"
  by (auto simp: numeral_eq_Suc length_Suc_conv)

lemma take_drop_8:
  "length bs = 8 \<Longrightarrow> take 2 bs @ take 2 (drop 2 bs) @ take 2 (drop 4 bs) @ drop 6 bs = bs"
  by (auto simp: numeral_eq_Suc length_Suc_conv)

lemma read_header1_encode: "read_header1 (encode_header1 h @ rest) = Inr (h, rest)"
  by (cases h) (simp add: read_header1_def encode_header1_def field16_def field32_def stream_read_def)

lemma read_header1_sound: "read_header1 s = Inr (h, s') \<Longrightarrow> s = encode_header1 h @ s'"
  by (auto simp: read_header1_def encode_header1_def field16_def field32_def res_simps take_drop_10)

lemma read_header2_encode: "read_header2 (encode_header2 h @ rest) = Inr (h, rest)"
  by (cases h) (simp add: read_header2_def encode_header2_def field16_def stream_read_def)

lemma read_header2_sound: "read_header2 s = Inr (h, s') \<Longrightarrow> s = encode_header2 h @ s'"
  by (auto simp: read_header2_def encode_header2_def field16_def res_simps take_drop_8)

lemma read_interfaces_eq: "read_interfaces h2 = read_array (unat (interfaces_count h2)) read_obj"
  by (simp add: read_interfaces_def unat_eq_0 [symmetric] del: unat_eq_0)

lemma read_interfaces_encode:
  "length ifs = unat (interfaces_count h2) \<Longrightarrow>
   read_interfaces h2 (concat (map word_bytes ifs) @ rest) = Inr (ifs, rest)"
  using read_array_concat [of ifs read_obj word_bytes rest]
  by (simp add: read_interfaces_eq read_obj_append [of "word_bytes w" for w])

lemma read_interfaces_sound:
  assumes "read_interfaces h2 s = Inr (ifs, s')"
  shows "s = concat (map word_bytes ifs) @ s' \<and> length ifs = unat (interfaces_count h2)"
proof -
  have "True \<and> s = word_bytes x @ s'" if "read_obj s = Inr (x :: u16, s')" for s x s'
    using that by (auto simp: read_obj_eq_Inr)
  from read_array_sound [of read_obj "\<lambda>_. True" word_bytes, OF this] assms show ?thesis
    by (simp add: read_interfaces_eq)
qed

text \<open>
  C38. The interface indices are stored as they are read, without the swap that every
  other integer of the file gets: for a file that holds the indices in big-endian
  order, as class files do, the constructor stores each index with its two bytes
  exchanged.
\<close>

theorem read_interfaces_unswapped:
  assumes "length ifs = unat (interfaces_count h2)"
  shows "read_interfaces h2 (concat (map be_bytes ifs) @ rest) = Inr (map swapEndianness ifs, rest)"
proof -
  have "concat (map be_bytes ifs) = concat (map word_bytes (map swapEndianness ifs))"
    by (simp add: be_bytes_def [abs_def] word_bytes_swapEndianness comp_def)
  with read_interfaces_encode [of "map swapEndianness ifs" h2 rest] assms show ?thesis
    by simp
qed

theorem read_interfaces_unswapped_witness:
  "read_interfaces \<lparr>JavaClassHeader2.access_flags = 0x21, this_class = 18, super_class = 0,
                     interfaces_count = 2\<rparr> ([0, 5, 1, 2] @ [0, 0]) = Inr ([0x0500, 0x0201], [0, 0])"
proof -
  have "be_bytes (5 :: u16) = [0, 5]" "be_bytes (0x0102 :: u16) = [1, 2]"
    "map swapEndianness [5, 0x0102 :: u16] = [0x0500, 0x0201]"
    by code_simp+
  with read_interfaces_unswapped [of "[5, 0x0102]"
      "\<lparr>JavaClassHeader2.access_flags = 0x21, this_class = 18, super_class = 0,
        interfaces_count = 2\<rparr>" "[0, 0]"]
  show ?thesis
    by simp
qed

section \<open>The constructor\<close>

lemma read_class_body_encode:
  assumes "wf_body cf h2 pool" and "header2 cf = Some h2" and "const_pool cf = Some pool"
    and "ok cf" and "filename cf = []"
  shows "read_class_body (header1 cf) (encode_body cf h2 pool @ rest) = Inr (cf, rest)"
proof -
  from assms(1) have "uint (constantPoolCount (header1 cf)) = int (length (entries pool)) + 1"
    by (simp add: wf_body_def)
  with assms show ?thesis
    by (cases cf)
      (simp add: wf_body_def read_class_body_def encode_body_def ctor_encode_pool
        read_header2_encode read_interfaces_encode read_be read_fields_encode
        read_methods_encode read_attributes_encode)
qed

lemma read_class_body_sound:
  assumes "read_class_body h1 s = Inr (cf, s')"
  shows "\<exists>h2 pool. header2 cf = Some h2 \<and> const_pool cf = Some pool \<and> header1 cf = h1 \<and>
           ok cf \<and> filename cf = [] \<and> wf_body cf h2 pool \<and> s = encode_body cf h2 pool @ s'"
  using assms
  by (auto simp: read_class_body_def rbind_eq_Inr read_obj_eq_Inr wf_body_def encode_body_def
      dest!: ctor_sound read_header2_sound read_interfaces_sound read_fields_sound
        read_methods_sound read_attributes_sound)

lemma JavaClassFile_ctor_encode:
  assumes "wf_class cf"
  shows "JavaClassFile_ctor fname (encode_class cf @ rest) = Inr (cf, [])"
proof -
  from assms obtain h2 pool where "header2 cf = Some h2" "const_pool cf = Some pool"
    "wf_body cf h2 pool" "ok cf" "filename cf = []" "magic (header1 cf) = 0xCAFEBABE"
    by (auto simp: wf_class_def split: option.splits)
  then show ?thesis
    by (simp add: JavaClassFile_ctor_def encode_class_def read_header1_encode
        read_class_body_encode)
qed

lemma JavaClassFile_ctor_sound:
  assumes "JavaClassFile_ctor fname s = Inr (cf, out)" and "ok cf"
  shows "wf_class cf \<and> out = [] \<and> (\<exists>rest. s = encode_class cf @ rest)"
proof -
  from assms obtain s1 s2 where h1: "read_header1 s = Inr (header1 cf, s1)"
    and magic: "magic (header1 cf) = 0xCAFEBABE"
    and body: "read_class_body (header1 cf) s1 = Inr (cf, s2)" and out: "out = []"
    by (auto simp: JavaClassFile_ctor_def res_simps new_JavaClassFile_def split: if_splits
        dest: read_class_body_sound)
  from read_class_body_sound [OF body] read_header1_sound [OF h1] magic out show ?thesis
    by (auto simp: wf_class_def encode_class_def)
qed

lemma wf_class_ok: "wf_class cf \<Longrightarrow> ok cf"
  by (simp add: wf_class_def)

text \<open>
  C2. The constructor of \<^verbatim>\<open>JavaClassFile\<close> succeeds with \<^verbatim>\<open>ok\<close> set exactly on the
  streams that begin with the wire format of a well-formed class: it returns object
  \<open>cf\<close> if and only if \<open>cf\<close> is well formed (magic number, a pool and arrays of the
  announced sizes, buffers of the announced lengths) and the stream starts with the
  encoding of \<open>cf\<close>. What follows the class in the stream is ignored, and nothing is
  printed.
\<close>

theorem JavaClassFile_ctor_iff:
  "JavaClassFile_ctor fname s = Inr (cf, out) \<and> ok cf \<longleftrightarrow>
     wf_class cf \<and> out = [] \<and> (\<exists>rest. s = encode_class cf @ rest)"
  by (auto simp: JavaClassFile_ctor_encode wf_class_ok dest: JavaClassFile_ctor_sound)

lemma wf_example_class: "wf_class (example_class hello_code)"
  by code_simp

lemma encode_example_class: "encode_class (example_class hello_code) = hello_bytes"
  by code_simp

theorem JavaClassFile_ctor_iff_witness:
  "JavaClassFile_ctor ''Hello.class'' (hello_bytes @ [0xFF]) = Inr (example_class hello_code, []) \<and>
   ok (example_class hello_code)"
  unfolding JavaClassFile_ctor_iff
  by (simp add: wf_example_class encode_example_class)

lemma be_word_magic:
  "length bs = 4 \<Longrightarrow> (be_word bs :: u32) = 0xCAFEBABE \<longleftrightarrow> bs = [0xCA, 0xFE, 0xBA, 0xBE]"
proof
  assume "length bs = 4" "(be_word bs :: u32) = 0xCAFEBABE"
  then have "be_bytes (0xCAFEBABE :: u32) = bs"
    using be_bytes_be_word [of bs, where 'a = 32] by simp
  moreover have "be_bytes (0xCAFEBABE :: u32) = [0xCA, 0xFE, 0xBA, 0xBE]"
    by code_simp
  ultimately show "bs = [0xCA, 0xFE, 0xBA, 0xBE]"
    by simp
qed (simp add: be_word_def)

lemma JavaClassFile_ctor_bad_magic:
  assumes "length hdr = 10" and "take 4 hdr \<noteq> [0xCA, 0xFE, 0xBA, 0xBE]"
  shows "JavaClassFile_ctor fname (hdr @ rest) =
           Inr (new_JavaClassFile
                  \<lparr>magic = be_word (take 4 hdr), minor = be_word (take 2 (drop 4 hdr)),
                   major = be_word (take 2 (drop 6 hdr)),
                   constantPoolCount = be_word (take 2 (drop 8 hdr))\<rparr>,
                fname @ '': not a Java Class file!'' @ [CHR 0x0A])"
  using assms
  by (simp add: JavaClassFile_ctor_def read_header1_def field16_def field32_def
      swapEndianness_bytes be_word_magic rreturn_def)

lemma JavaClassFile_ctor_truncated:
  "length s < 10 \<Longrightarrow> JavaClassFile_ctor fname s = Inl (Undefined TruncatedRead)"
  by (simp add: JavaClassFile_ctor_def read_header1_def)

section \<open>The searches\<close>

lemma first_match_unfold:
  "first_match n names name i =
     (if i < n then
        (case names i of Inl e \<Rightarrow> Inl e
         | Inr s \<Rightarrow> if s = name then Inr (Some i) else first_match n names name (Suc i))
      else Inr None)"
  by (subst first_match.simps) (simp add: ebind_def split: sum.splits)

lemma misses_step:
  "misses names name i k \<longleftrightarrow>
     (i < k \<longrightarrow> (\<exists>s. names i = Inr s \<and> s \<noteq> name) \<and> misses names name (Suc i) k)"
  by (cases "names i"; cases "i < k") (auto simp: misses_def upt_conv_Cons)

lemma first_match_Some:
  "first_match n names name i = Inr (Some k) \<longleftrightarrow>
     i \<le> k \<and> k < n \<and> names k = Inr name \<and> misses names name i k"
proof (induction "n - i" arbitrary: i)
  case 0
  then show ?case by (subst first_match_unfold) auto
next
  case (Suc d)
  then have IH: "first_match n names name (Suc i) = Inr (Some k) \<longleftrightarrow>
     Suc i \<le> k \<and> k < n \<and> names k = Inr name \<and> misses names name (Suc i) k" and i: "i < n"
    by auto
  from i have unfold: "first_match n names name i =
      (case names i of Inl e \<Rightarrow> Inl e
       | Inr s \<Rightarrow> if s = name then Inr (Some i) else first_match n names name (Suc i))"
    by (subst first_match_unfold) simp
  show ?case
    unfolding unfold misses_step [of names name i k]
    using i IH by (cases "names i"; cases "k = i") (auto simp: Suc_le_eq)
qed

lemma first_match_None:
  "first_match n names name i = Inr None \<longleftrightarrow> misses names name i n"
proof (induction "n - i" arbitrary: i)
  case 0
  then show ?case by (subst first_match_unfold, subst misses_step) auto
next
  case (Suc d)
  then have "first_match n names name (Suc i) = Inr None \<longleftrightarrow> misses names name (Suc i) n"
    and "i < n"
    by auto
  then show ?case
    unfolding first_match_unfold [of n names name i] misses_step [of names name i n]
    by (cases "names i") auto
qed

lemma get_method_from_first_match:
  "get_method_from cf name i = first_match (unat (methods_count cf)) (method_name_at cf) name i"
proof (induction "unat (methods_count cf) - i" arbitrary: i)
  case 0
  then show ?case
    by (subst first_match.simps, subst get_method_from.simps) simp
next
  case (Suc d)
  then have "get_method_from cf name (Suc i) =
      first_match (unat (methods_count cf)) (method_name_at cf) name (Suc i)"
    by simp
  then show ?case
    by (subst first_match.simps, subst get_method_from.simps)
      (simp add: method_name_at_def ebind_assoc cong: if_cong)
qed

lemma get_attribute_from_first_match:
  "get_attribute_from m pool name i =
     first_match (unat (MethodEntry.attributes_count m)) (attribute_name_at m pool) name i"
proof (induction "unat (MethodEntry.attributes_count m) - i" arbitrary: i)
  case 0
  then show ?case
    by (subst first_match.simps, subst get_attribute_from.simps) simp
next
  case (Suc d)
  then have "get_attribute_from m pool name (Suc i) =
      first_match (unat (MethodEntry.attributes_count m)) (attribute_name_at m pool) name (Suc i)"
    by simp
  then show ?case
    by (subst first_match.simps, subst get_attribute_from.simps)
      (simp add: attribute_name_at_def ebind_assoc cong: if_cong)
qed

text \<open>
  C30. \<^verbatim>\<open>get_method\<close> returns the first method whose name is the one asked for, and
  the null pointer exactly when every method has another name; it needs the name of
  every method up to the one it returns to be a Utf8 entry of the pool.
\<close>

theorem get_method_iff:
  "get_method cf name = Inr r \<longleftrightarrow>
     (case r of
        None \<Rightarrow> misses (method_name_at cf) name 0 (unat (methods_count cf))
      | Some k \<Rightarrow> k < unat (methods_count cf) \<and> method_name_at cf k = Inr name \<and>
                  misses (method_name_at cf) name 0 k)"
  by (simp add: get_method_def get_method_from_first_match first_match_Some first_match_None
      split: option.splits)

theorem get_method_iff_witness:
  "get_method (example_class hello_code) ''main'' = Inr (Some 0) \<and>
   get_method (example_class hello_code) ''run'' = Inr None"
  unfolding get_method_iff by code_simp

text \<open>
  C31. \<^verbatim>\<open>get_attribute\<close> returns the first attribute of the method whose name is the
  one asked for, and the null pointer exactly when every attribute has another name.
\<close>

theorem get_attribute_iff:
  "get_attribute m pool name = Inr r \<longleftrightarrow>
     (case r of
        None \<Rightarrow> misses (attribute_name_at m pool) name 0 (unat (MethodEntry.attributes_count m))
      | Some k \<Rightarrow> k < unat (MethodEntry.attributes_count m) \<and>
                  attribute_name_at m pool k = Inr name \<and> misses (attribute_name_at m pool) name 0 k)"
  by (simp add: get_attribute_def get_attribute_from_first_match first_match_Some
      first_match_None split: option.splits)

theorem get_attribute_iff_witness:
  "get_attribute (example_method hello_code) (Some example_pool) ''Code'' = Inr (Some 0) \<and>
   get_attribute (example_method hello_code) (Some example_pool) ''LineNumberTable'' = Inr None"
  unfolding get_attribute_iff by code_simp

section \<open>Lookups never end the program\<close>

lemma only_faults_deref [fault_intros]: "only_faults (deref p)"
  by (simp add: deref_def split: option.splits)

lemma only_faults_subscript [fault_intros]: "only_faults (subscript xs i)"
  by (simp add: subscript_def)

lemma only_faults_first_match:
  assumes "\<And>j. only_faults (names j)"
  shows "only_faults (first_match n names name i)"
proof (induction "n - i" arbitrary: i)
  case 0
  then show ?case by (subst first_match_unfold) simp
next
  case (Suc d)
  then have "only_faults (first_match n names name (Suc i))"
    by simp
  with assms [of i] show ?case
    by (subst first_match_unfold) (auto simp: only_faults_Inl split: sum.splits)
qed

lemma only_faults_get_method [fault_intros]: "only_faults (get_method cf name)"
  unfolding get_method_def get_method_from_first_match
  by (rule only_faults_first_match) (simp add: method_name_at_def fault_intros)

lemma only_faults_get_attribute [fault_intros]: "only_faults (get_attribute m pool name)"
  unfolding get_attribute_def get_attribute_from_first_match
  by (rule only_faults_first_match) (simp add: attribute_name_at_def fault_intros)

end
