(* ===== verification/Executor.thy ===== *)
theory Executor
  imports Class_File "HOL-Library.Sublist"
begin

text \<open>
  The interpreter: \<^verbatim>\<open>struct CodeAttribute\<close>, the opcodes, the \<^verbatim>\<open>Action\<close> hierarchy and
  the class \<^verbatim>\<open>JavaExecutor\<close> of \<^verbatim>\<open>src/main.cpp\<close> (lines 414 to 670).

  \<^bold>\<open>State.\<close> \<open>JavaExecutor\<close> has the two members of the class, \<open>klass\<close> and
  \<open>action_stack\<close> (a list, top first), and \<open>cout\<close>, the characters written to standard
  output so far. The class file is part of the state because \<^verbatim>\<open>get_code_attribute\<close>
  writes into it: it swaps the three header fields of the Code attribute in place,
  inside the attribute's \<open>info\<close> buffer. An operation is a function
  \<open>JavaExecutor \<Rightarrow> (error + 'a) \<times> JavaExecutor\<close>: the state is returned also when the
  run ends in an error, since what was printed before remains printed.

  \<^bold>\<open>Pointers.\<close> A \<^verbatim>\<open>MethodEntry*\<close> is the index of the method (\<open>None\<close> for
  \<^verbatim>\<open>nullptr\<close>); a \<^verbatim>\<open>CodeAttribute*\<close> and the code pointer are the pair of the method's
  index and the attribute's index (\<open>attr_ref\<close>). The code pointer stands for the address
  \<^verbatim>\<open>info + 8\<close>, so that \<^verbatim>\<open>codeptr[k]\<close> is byte \<open>8 + k\<close> of the buffer; a read beyond the
  buffer is \<open>Undefined BufferOverrun\<close>.

  \<^bold>\<open>Operations.\<close> One definition for each branch of \<^verbatim>\<open>step\<close> (\<open>do_GETSTATIC\<close>,
  \<open>do_LDC\<close>, \<open>do_INVOKEVIRTUAL\<close>, \<open>do_INVOKESTATIC\<close>, \<open>do_SIPUSH\<close>, \<open>do_ILOAD_1\<close>,
  \<open>do_RETURN\<close>, \<open>do_unknown\<close>), each returning the cursor as the branch leaves it;
  \<open>step\<close> dispatches on the opcode in the order of the source and adds the final
  \<^verbatim>\<open>cursor++\<close>. \<open>resolve\<close> is the block of six pool lookups that three branches share.

  \<^bold>\<open>Recursion.\<close> \<^verbatim>\<open>step\<close> calls \<^verbatim>\<open>run\<close> for INVOKESTATIC and \<^verbatim>\<open>run\<close> calls
  \<^verbatim>\<open>step\<close>. In the model \<open>step\<close> takes the function to call as its first argument, the
  loop of \<^verbatim>\<open>run\<close> is \<open>exec_loop\<close> (it terminates because the cursor grows and the code
  length is below \<open>2 ^ 32\<close>), and \<open>run\<close> is defined by recursion on the number of
  nested calls that the native stack still has room for: at depth \<open>0\<close> the run ends
  with \<open>StackExhausted\<close>. The source has no guard against unbounded recursion.

  \<^bold>\<open>Lemmas.\<close> The rules of the state monad, the cursor after a step, termination
  of the loop, and the cursor at the end of the loop. The theories \<open>Instructions\<close>,
  \<open>Class_Changes\<close>, \<open>Stack_Depth\<close> and \<open>Last_Words\<close> hold the properties of the
  single instructions and of whole runs.
\<close>

section \<open>Data\<close>

record CodeAttribute =
  max_stack :: u16
  max_locals :: u16
  code_length :: u32

datatype JavaOpCodes = GETSTATIC | SIPUSH | LDC | ILOAD_1 | INVOKEVIRTUAL | INVOKESTATIC | RETURN

primrec opcode_of :: "JavaOpCodes \<Rightarrow> byte" where
  "opcode_of GETSTATIC = 0xB2"
| "opcode_of SIPUSH = 0x11"
| "opcode_of LDC = 0x12"
| "opcode_of ILOAD_1 = 0x1b"
| "opcode_of INVOKEVIRTUAL = 0xB6"
| "opcode_of INVOKESTATIC = 0xB8"
| "opcode_of RETURN = 0xB1"

datatype ActionID = STATIC | CONSTANT

datatype Action =
    StaticAction ActionID string string
  | ConstantAction ActionID ConstantPoolEntry
  | ValueAction ActionID int

record JavaExecutor =
  klass :: JavaClassFile
  action_stack :: "Action list"
  cout :: string

type_synonym 'a exec = "JavaExecutor \<Rightarrow> (error + 'a) \<times> JavaExecutor"
type_synonym attr_ref = "nat \<times> nat"

definition new_JavaExecutor :: "JavaClassFile \<Rightarrow> JavaExecutor" where
  "new_JavaExecutor k = \<lparr>klass = k, action_stack = [], cout = []\<rparr>"

section \<open>Sequencing with state\<close>

definition xreturn :: "'a \<Rightarrow> 'a exec" where
  "xreturn x ex = (Inr x, ex)"

definition xfail :: "error \<Rightarrow> 'a exec" where
  "xfail e ex = (Inl e, ex)"

definition xbind :: "'a exec \<Rightarrow> ('a \<Rightarrow> 'b exec) \<Rightarrow> 'b exec" where
  "xbind m f ex = (case m ex of (Inl e, ex') \<Rightarrow> (Inl e, ex') | (Inr x, ex') \<Rightarrow> f x ex')"

definition xread :: "(JavaExecutor \<Rightarrow> error + 'a) \<Rightarrow> 'a exec" where
  "xread f ex = (f ex, ex)"

definition xprint :: "string \<Rightarrow> unit exec" where
  "xprint s ex = (Inr (), ex\<lparr>cout := cout ex @ s\<rparr>)"

definition endl :: string where
  "endl = [CHR 0x0A]"

definition push :: "Action \<Rightarrow> unit exec" where
  "push a ex = (Inr (), ex\<lparr>action_stack := a # action_stack ex\<rparr>)"

definition top :: "Action exec" where
  "top ex = (case action_stack ex of [] \<Rightarrow> (Inl (Undefined EmptyStack), ex) | a # _ \<Rightarrow> (Inr a, ex))"

definition pop :: "unit exec" where
  "pop ex = (case action_stack ex of [] \<Rightarrow> (Inl (Undefined EmptyStack), ex)
             | _ # rest \<Rightarrow> (Inr (), ex\<lparr>action_stack := rest\<rparr>))"

section \<open>The Code attribute in its buffer\<close>

definition store :: "byte list \<Rightarrow> nat \<Rightarrow> byte list \<Rightarrow> byte list" where
  "store buf off bs = take off buf @ bs @ drop (off + length bs) buf"

definition CodeAttribute_swap :: "byte list \<Rightarrow> error + byte list" where
  "CodeAttribute_swap buf =
     (if length buf < 8 then Inl (Undefined BufferOverrun)
      else
        let b1 = store buf 0 (word_bytes (swapEndianness (field16 buf 0)));
            b2 = store b1 2 (word_bytes (swapEndianness (field16 b1 2)));
            b3 = store b2 4 (word_bytes (swapEndianness (field32 b2 4)))
        in Inr b3)"

definition CodeAttribute_at :: "byte list \<Rightarrow> error + CodeAttribute" where
  "CodeAttribute_at buf =
     (if length buf < 8 then Inl (Undefined BufferOverrun)
      else Inr \<lparr>max_stack = field16 buf 0, max_locals = field16 buf 2, code_length = field32 buf 4\<rparr>)"

definition attr_at :: "JavaClassFile \<Rightarrow> attr_ref \<Rightarrow> error + AttributeInfo" where
  "attr_at k r =
     ebind (subscript (methods k) (fst r)) (\<lambda>m. subscript (MethodEntry.attributes m) (snd r))"

definition set_info :: "JavaClassFile \<Rightarrow> attr_ref \<Rightarrow> byte list \<Rightarrow> JavaClassFile" where
  "set_info k r buf =
     k\<lparr>methods := (methods k)[fst r :=
         (methods k ! fst r)\<lparr>MethodEntry.attributes :=
           (MethodEntry.attributes (methods k ! fst r))[snd r :=
             (MethodEntry.attributes (methods k ! fst r) ! snd r)\<lparr>info := buf\<rparr>]\<rparr>]\<rparr>"

definition read_CodeAttribute :: "attr_ref \<Rightarrow> CodeAttribute exec" where
  "read_CodeAttribute r = xread (\<lambda>ex. ebind (attr_at (klass ex) r) (\<lambda>a. CodeAttribute_at (info a)))"

definition code_byte :: "attr_ref \<Rightarrow> nat \<Rightarrow> byte exec" where
  "code_byte codeptr i =
     xread (\<lambda>ex. ebind (attr_at (klass ex) codeptr) (\<lambda>a. subscript (info a) (8 + i)))"

definition code_u16 :: "attr_ref \<Rightarrow> nat \<Rightarrow> u16 exec" where
  "code_u16 codeptr i =
     xread (\<lambda>ex. ebind (attr_at (klass ex) codeptr) (\<lambda>a.
       if 8 + i + 2 \<le> length (info a) then Inr (field16 (info a) (8 + i))
       else Inl (Undefined BufferOverrun)))"

section \<open>Methods and their code\<close>

definition JavaExecutor_get_method :: "string \<Rightarrow> nat option exec" where
  "JavaExecutor_get_method method_name = xread (\<lambda>ex. get_method (klass ex) method_name)"

definition find_Code :: "nat \<Rightarrow> attr_ref exec" where
  "find_Code mi =
     xbind (xread (\<lambda>ex. ebind (subscript (methods (klass ex)) mi) (\<lambda>m.
              get_attribute m (const_pool (klass ex)) ''Code''))) (\<lambda>a.
       case a of None \<Rightarrow> xfail (Undefined NullPointer) | Some ai \<Rightarrow> xreturn (mi, ai))"

definition get_code_attribute :: "nat option \<Rightarrow> string \<Rightarrow> attr_ref exec" where
  "get_code_attribute entry method_name =
     (case entry of
        None \<Rightarrow>
          xbind (xprint (''Exception: Trying to get Code Attribute from nullptr method!'' @ endl)) (\<lambda>_.
          xbind (xprint (''           Method name: '' @ method_name @ endl)) (\<lambda>_.
          xfail (NullMethod method_name)))
      | Some mi \<Rightarrow>
          xbind (find_Code mi) (\<lambda>r.
          xbind (xread (\<lambda>ex. ebind (attr_at (klass ex) r) (\<lambda>a. CodeAttribute_swap (info a)))) (\<lambda>buf.
          xbind (\<lambda>ex. (Inr (), ex\<lparr>klass := set_info (klass ex) r buf\<rparr>)) (\<lambda>_.
          xreturn r))))"

definition get_code :: "nat option \<Rightarrow> attr_ref exec" where
  "get_code method =
     (case method of None \<Rightarrow> xfail (Undefined NullPointer) | Some mi \<Rightarrow> find_Code mi)"

section \<open>Resolution of a reference\<close>

record resolved =
  r_entry :: ConstantPoolEntry
  r_class_index :: ConstantPoolEntry
  r_classname_index :: ConstantPoolEntry
  r_name_type_index :: ConstantPoolEntry
  r_name :: ConstantPoolEntry
  r_descriptor :: ConstantPoolEntry

definition resolve :: "ConstantPool \<Rightarrow> u16 \<Rightarrow> error + resolved" where
  "resolve pool idx =
     ebind (entry_at pool (uint idx - 1)) (\<lambda>entry.
     ebind (Reference_of entry) (\<lambda>(ci, nt).
     ebind (entry_at pool (uint ci - 1)) (\<lambda>class_index.
     ebind (Class_of class_index) (\<lambda>cni.
     ebind (entry_at pool (uint cni - 1)) (\<lambda>classname_index.
     ebind (entry_at pool (uint nt - 1)) (\<lambda>name_type_index.
     ebind (NameAndType_of name_type_index) (\<lambda>(ni, di).
     ebind (entry_at pool (uint ni - 1)) (\<lambda>name.
     ebind (entry_at pool (uint di - 1)) (\<lambda>descriptor.
     Inr \<lparr>r_entry = entry, r_class_index = class_index,
          r_classname_index = classname_index, r_name_type_index = name_type_index,
          r_name = name, r_descriptor = descriptor\<rparr>)))))))))"

definition pool_of :: "JavaExecutor \<Rightarrow> error + ConstantPool" where
  "pool_of ex = deref (const_pool (klass ex))"

definition xresolve :: "u16 \<Rightarrow> resolved exec" where
  "xresolve idx = xread (\<lambda>ex. ebind (pool_of ex) (\<lambda>pool. resolve pool idx))"

section \<open>The branches of step\<close>

definition do_GETSTATIC :: "attr_ref \<Rightarrow> nat \<Rightarrow> nat exec" where
  "do_GETSTATIC codeptr cursor =
     xbind (code_u16 codeptr (cursor + 1)) (\<lambda>idx.
     xbind (xresolve (swapEndianness idx)) (\<lambda>r.
     xbind (xread (\<lambda>_. Utf8_of (r_classname_index r))) (\<lambda>class_name.
     xbind (xread (\<lambda>_. Utf8_of (r_name r))) (\<lambda>name.
     xbind (push (StaticAction STATIC class_name name)) (\<lambda>_.
     xreturn (cursor + 2))))))"

definition do_LDC :: "attr_ref \<Rightarrow> nat \<Rightarrow> nat exec" where
  "do_LDC codeptr cursor =
     xbind (code_byte codeptr (cursor + 1)) (\<lambda>idx.
     xbind (xread (\<lambda>ex. ebind (pool_of ex) (\<lambda>pool. entry_at pool (uint idx - 1)))) (\<lambda>entry.
     xbind (push (ConstantAction CONSTANT entry)) (\<lambda>_.
     xreturn (cursor + 1))))"

definition println :: "unit exec" where
  "println =
     xbind top (\<lambda>action.
     xbind (case action of ConstantAction i entry \<Rightarrow> xreturn entry
            | _ \<Rightarrow> xfail (Undefined BadDowncast)) (\<lambda>entry.
     xbind (xread (\<lambda>ex. ebind (String_of entry) (\<lambda>si.
              ebind (pool_of ex) (\<lambda>pool. utf8_at pool si)))) (\<lambda>text.
     xbind (xprint (text @ endl)) (\<lambda>_.
     pop))))"

definition do_INVOKEVIRTUAL :: "attr_ref \<Rightarrow> nat \<Rightarrow> nat exec" where
  "do_INVOKEVIRTUAL codeptr cursor =
     xbind (code_u16 codeptr (cursor + 1)) (\<lambda>idx.
     xbind (xresolve (swapEndianness idx)) (\<lambda>r.
     xbind (xread (\<lambda>_. Utf8_of (r_classname_index r))) (\<lambda>class_name.
     xbind (if class_name = ''java/io/PrintStream''
            then xbind (xread (\<lambda>_. Utf8_of (r_name r))) (\<lambda>name.
                   if name = ''println'' then println else xreturn ())
            else xreturn ()) (\<lambda>_.
     xreturn (cursor + 2)))))"

definition print_entry :: "string \<Rightarrow> ConstantPoolEntry \<Rightarrow> unit exec" where
  "print_entry label e =
     xbind (xread (\<lambda>_. ConstantPoolEntry_show e)) (\<lambda>s. xprint (label @ s @ endl))"

definition do_INVOKESTATIC :: "(string \<Rightarrow> unit exec) \<Rightarrow> attr_ref \<Rightarrow> nat \<Rightarrow> nat exec" where
  "do_INVOKESTATIC invoke codeptr cursor =
     xbind (xprint (''Invoke static!'' @ endl)) (\<lambda>_.
     xbind (code_u16 codeptr (cursor + 1)) (\<lambda>idx.
     xbind (xresolve (swapEndianness idx)) (\<lambda>r.
     xbind (print_entry ''Class: '' (r_entry r)) (\<lambda>_.
     xbind (print_entry ''Class index: '' (r_class_index r)) (\<lambda>_.
     xbind (print_entry ''Class name: '' (r_classname_index r)) (\<lambda>_.
     xbind (print_entry ''Name and type: '' (r_name_type_index r)) (\<lambda>_.
     xbind (print_entry ''|- Name: '' (r_name r)) (\<lambda>_.
     xbind (print_entry ''|- Descriptor: '' (r_descriptor r)) (\<lambda>_.
     xbind (xread (\<lambda>_. Utf8_of (r_name r))) (\<lambda>name.
     xbind (invoke name) (\<lambda>_.
     xreturn (cursor + 2))))))))))))"

definition sipush_value :: "byte \<Rightarrow> byte \<Rightarrow> int" where
  "sipush_value sh1 sh2 = push_bit 8 (uint sh1) OR uint sh2"

definition do_SIPUSH :: "attr_ref \<Rightarrow> nat \<Rightarrow> nat exec" where
  "do_SIPUSH codeptr cursor =
     xbind (code_byte codeptr (cursor + 1)) (\<lambda>sh1.
     xbind (code_byte codeptr (cursor + 2)) (\<lambda>sh2.
     xbind (xprint (''Number is: '' @ show_int (sipush_value sh1 sh2) @ endl)) (\<lambda>_.
     xbind (push (ValueAction CONSTANT (sipush_value sh1 sh2))) (\<lambda>_.
     xreturn (cursor + 2)))))"

definition do_ILOAD_1 :: "nat exec" where
  "do_ILOAD_1 =
     xbind (xprint (''Iload 1!'' @ endl)) (\<lambda>_.
     xbind (xprint (''Need a local variable array!'' @ endl)) (\<lambda>_.
     xfail NeedLocals))"

definition do_RETURN :: "nat \<Rightarrow> nat exec" where
  "do_RETURN cursor = xbind (xprint (''Return!'' @ endl)) (\<lambda>_. xreturn cursor)"

definition do_unknown :: "byte \<Rightarrow> nat exec" where
  "do_unknown op =
     xbind (xprint (''Unknown instruction: 0x'' @ show_hex (unat op) @ endl)) (\<lambda>_.
     xfail (UnknownInstruction op))"

section \<open>step, the loop and run\<close>

definition dispatch :: "(string \<Rightarrow> unit exec) \<Rightarrow> attr_ref \<Rightarrow> nat \<Rightarrow> byte \<Rightarrow> nat exec" where
  "dispatch invoke codeptr cursor op =
     (if op = opcode_of GETSTATIC then do_GETSTATIC codeptr cursor
      else if op = opcode_of LDC then do_LDC codeptr cursor
      else if op = opcode_of INVOKEVIRTUAL then do_INVOKEVIRTUAL codeptr cursor
      else if op = opcode_of INVOKESTATIC then do_INVOKESTATIC invoke codeptr cursor
      else if op = opcode_of SIPUSH then do_SIPUSH codeptr cursor
      else if op = opcode_of ILOAD_1 then do_ILOAD_1
      else if op = opcode_of RETURN then do_RETURN cursor
      else do_unknown op)"

definition step :: "(string \<Rightarrow> unit exec) \<Rightarrow> attr_ref \<Rightarrow> nat \<Rightarrow> nat exec" where
  "step invoke codeptr cursor =
     xbind (code_byte codeptr cursor) (\<lambda>op.
     xbind (dispatch invoke codeptr cursor op) (\<lambda>cursor'.
     xreturn (cursor' + 1)))"

text \<open>
  The number of code bytes an instruction occupies, opcode included: the reference
  against which the cursor arithmetic of \<open>step\<close> is checked.
\<close>

definition instr_length :: "byte \<Rightarrow> nat" where
  "instr_length op =
     (if op = opcode_of LDC then 2
      else if op = opcode_of RETURN then 1
      else 3)"

section \<open>Operands, names and messages\<close>

text \<open>
  What the branches of \<open>step\<close> compute from the code and the pool, named so that the
  theorems about one instruction can speak of it: the two-byte operand behind the
  opcode, read as the source reads it (the two bytes in host order, then swapped: the
  first byte is the more significant one); the class name and the member name at the
  end of the chain of pool entries that starts at a reference; the six lines that
  INVOKESTATIC prints about that chain.
\<close>

definition operand :: "attr_ref \<Rightarrow> nat \<Rightarrow> JavaExecutor \<Rightarrow> u16 option" where
  "operand codeptr cursor ex =
     (case (fst (code_byte codeptr (cursor + 1) ex), fst (code_byte codeptr (cursor + 2) ex)) of
        (Inr b1, Inr b2) \<Rightarrow> Some (be_word [b1, b2])
      | _ \<Rightarrow> None)"

definition class_name_of :: "ConstantPool \<Rightarrow> u16 \<Rightarrow> error + string" where
  "class_name_of pool idx = ebind (resolve pool idx) (\<lambda>r. Utf8_of (r_classname_index r))"

definition member_name_of :: "ConstantPool \<Rightarrow> u16 \<Rightarrow> error + string" where
  "member_name_of pool idx = ebind (resolve pool idx) (\<lambda>r. Utf8_of (r_name r))"

definition invoke_report :: "ConstantPool \<Rightarrow> u16 \<Rightarrow> error + string" where
  "invoke_report pool idx =
     ebind (resolve pool idx) (\<lambda>r.
     ebind (ConstantPoolEntry_show (r_entry r)) (\<lambda>s1.
     ebind (ConstantPoolEntry_show (r_class_index r)) (\<lambda>s2.
     ebind (ConstantPoolEntry_show (r_classname_index r)) (\<lambda>s3.
     ebind (ConstantPoolEntry_show (r_name_type_index r)) (\<lambda>s4.
     ebind (ConstantPoolEntry_show (r_name r)) (\<lambda>s5.
     ebind (ConstantPoolEntry_show (r_descriptor r)) (\<lambda>s6.
     Inr (''Class: '' @ s1 @ endl @ ''Class index: '' @ s2 @ endl @
          ''Class name: '' @ s3 @ endl @ ''Name and type: '' @ s4 @ endl @
          ''|- Name: '' @ s5 @ endl @ ''|- Descriptor: '' @ s6 @ endl))))))))"

section \<open>Examples\<close>

text \<open>
  The executor of the example class at the moment the loop of \<^verbatim>\<open>run\<close> starts: the
  header of the Code attribute of \<^verbatim>\<open>main\<close> has been swapped.
\<close>

definition example_running :: "byte list \<Rightarrow> JavaExecutor" where
  "example_running code =
     snd (get_code_attribute (Some 0) ''main'' (new_JavaExecutor (example_class code)))"

text \<open>The executor after \<^verbatim>\<open>main\<close> of the example class with \<open>hello_code\<close> has run.\<close>

definition hello_final :: JavaExecutor where
  "hello_final = (example_running hello_code)\<lparr>
     action_stack := [StaticAction STATIC ''java/lang/System'' ''out''],
     cout := ''[main] Length of LVA: 1'' @ endl @ ''Hi'' @ endl @ ''Return!'' @ endl\<rparr>"

text \<open>
  A class with two methods: \<^verbatim>\<open>main\<close> pushes the stream and the string and calls
  \<^verbatim>\<open>greet\<close> with INVOKESTATIC, and \<^verbatim>\<open>greet\<close> calls \<^verbatim>\<open>println\<close>. \<open>call_running\<close> is
  the executor when \<^verbatim>\<open>main\<close> has reached its INVOKESTATIC.
\<close>

definition call_pool :: ConstantPool where
  "call_pool = \<lparr>entries = entries example_pool @
     [\<lparr>tag = tag_of Methodref, un = Reference 18 21\<rparr>,
      \<lparr>tag = tag_of NameAndType, un = NameAndType_m 22 23\<rparr>,
      utf8_entry ''greet'',
      utf8_entry ''()V'']\<rparr>"

definition call_class :: "byte list \<Rightarrow> byte list \<Rightarrow> JavaClassFile" where
  "call_class main_code greet_code =
     (example_class main_code)\<lparr>
        header1 := (header1 (example_class main_code))\<lparr>constantPoolCount := 24\<rparr>,
        const_pool := Some call_pool,
        methods_count := 2,
        methods := [example_method main_code,
                    (example_method greet_code)\<lparr>MethodEntry.name_index := 22,
                                                 MethodEntry.descriptor_index := 23\<rparr>]\<rparr>"

definition caller_code :: "byte list" where
  "caller_code = [0xB2, 0, 1, 0x12, 7, 0xB8, 0, 20, 0xB1]"

definition greet_code :: "byte list" where
  "greet_code = [0xB6, 0, 9, 0xB1]"

definition call_running :: JavaExecutor where
  "call_running =
     (snd (get_code_attribute (Some 0) ''main''
             (new_JavaExecutor (call_class caller_code greet_code))))\<lparr>
        action_stack := [ConstantAction CONSTANT \<lparr>tag = tag_of String, un = String_m 8\<rparr>,
                         StaticAction STATIC ''java/lang/System'' ''out'']\<rparr>"

section \<open>Rules for sequencing\<close>

lemma xbind_xreturn [simp]: "xbind (xreturn x) f = f x"
  by (rule ext) (simp add: xbind_def xreturn_def)

lemma xbind_xfail [simp]: "xbind (xfail e) f = xfail e"
  by (rule ext) (simp add: xbind_def xfail_def)

lemma xbind_Inr [simp]: "m ex = (Inr x, ex') \<Longrightarrow> xbind m f ex = f x ex'"
  by (simp add: xbind_def)

lemma xbind_Inl [simp]: "m ex = (Inl e, ex') \<Longrightarrow> xbind m f ex = (Inl e, ex')"
  by (simp add: xbind_def)

lemma xbind_assoc: "xbind (xbind m f) g = xbind m (\<lambda>x. xbind (f x) g)"
  by (rule ext) (simp add: xbind_def split: prod.splits sum.splits)

lemma xbind_eq_Inr [res_simps]:
  "xbind m f ex = (Inr y, ex'') \<longleftrightarrow> (\<exists>x ex'. m ex = (Inr x, ex') \<and> f x ex' = (Inr y, ex''))"
  by (auto simp: xbind_def split: prod.splits sum.splits)

lemma xbind_eq_Inl [res_simps]:
  "xbind m f ex = (Inl e, ex'') \<longleftrightarrow>
     m ex = (Inl e, ex'') \<or> (\<exists>x ex'. m ex = (Inr x, ex') \<and> f x ex' = (Inl e, ex''))"
  by (auto simp: xbind_def split: prod.splits sum.splits)

lemma xreturn_eq [simp]: "xreturn x ex = (r, ex') \<longleftrightarrow> r = Inr x \<and> ex' = ex"
  by (auto simp: xreturn_def)

lemma xfail_eq [simp]: "xfail e ex = (r, ex') \<longleftrightarrow> r = Inl e \<and> ex' = ex"
  by (auto simp: xfail_def)

lemma xread_eq [simp]: "xread f ex = (r, ex') \<longleftrightarrow> f ex = r \<and> ex' = ex"
  by (auto simp: xread_def)

lemma xprint_eq [simp]:
  "xprint s ex = (r, ex') \<longleftrightarrow> r = Inr () \<and> ex' = ex\<lparr>cout := cout ex @ s\<rparr>"
  by (auto simp: xprint_def)

lemma push_eq [simp]:
  "push a ex = (r, ex') \<longleftrightarrow> r = Inr () \<and> ex' = ex\<lparr>action_stack := a # action_stack ex\<rparr>"
  by (auto simp: push_def)

lemma top_eq [simp]:
  "top ex = (r, ex') \<longleftrightarrow> ex' = ex \<and>
     r = (case action_stack ex of [] \<Rightarrow> Inl (Undefined EmptyStack) | a # _ \<Rightarrow> Inr a)"
  by (auto simp: top_def split: list.splits)

lemma pop_eq_Inr [simp]:
  "pop ex = (Inr u, ex') \<longleftrightarrow>
     action_stack ex \<noteq> [] \<and> ex' = ex\<lparr>action_stack := tl (action_stack ex)\<rparr>"
  by (auto simp: pop_def split: list.splits)

lemma code_byte_state [simp]: "code_byte cp c ex = (r, ex') \<Longrightarrow> ex' = ex"
  by (simp add: code_byte_def)

section \<open>The cursor after one step\<close>

lemma do_GETSTATIC_cursor: "do_GETSTATIC cp c ex = (Inr c', ex') \<Longrightarrow> c' = c + 2"
  by (auto simp: do_GETSTATIC_def res_simps)

lemma do_LDC_cursor: "do_LDC cp c ex = (Inr c', ex') \<Longrightarrow> c' = c + 1"
  by (auto simp: do_LDC_def res_simps)

lemma do_INVOKEVIRTUAL_cursor: "do_INVOKEVIRTUAL cp c ex = (Inr c', ex') \<Longrightarrow> c' = c + 2"
  by (auto simp: do_INVOKEVIRTUAL_def res_simps)

lemma do_INVOKESTATIC_cursor: "do_INVOKESTATIC call cp c ex = (Inr c', ex') \<Longrightarrow> c' = c + 2"
  by (auto simp: do_INVOKESTATIC_def res_simps)

lemma do_SIPUSH_cursor: "do_SIPUSH cp c ex = (Inr c', ex') \<Longrightarrow> c' = c + 2"
  by (auto simp: do_SIPUSH_def res_simps)

lemma do_ILOAD_1_fails: "do_ILOAD_1 ex \<noteq> (Inr c', ex')"
  by (auto simp: do_ILOAD_1_def res_simps)

lemma do_RETURN_cursor: "do_RETURN c ex = (Inr c', ex') \<Longrightarrow> c' = c"
  by (auto simp: do_RETURN_def res_simps)

lemma do_unknown_fails: "do_unknown op ex \<noteq> (Inr c', ex')"
  by (auto simp: do_unknown_def res_simps)

lemmas do_cursor =
  do_GETSTATIC_cursor do_LDC_cursor do_INVOKEVIRTUAL_cursor do_INVOKESTATIC_cursor
  do_SIPUSH_cursor do_RETURN_cursor

lemma UNIV_JavaOpCodes:
  "UNIV = {GETSTATIC, SIPUSH, LDC, ILOAD_1, INVOKEVIRTUAL, INVOKESTATIC, RETURN}"
  by (auto intro: JavaOpCodes.exhaust)

lemma range_opcode_of: "range opcode_of = {0xB2, 0x11, 0x12, 0x1b, 0xB6, 0xB8, 0xB1}"
  by (auto simp: UNIV_JavaOpCodes)

lemma opcode_of_eq_iff [simp]: "opcode_of a = opcode_of b \<longleftrightarrow> a = b"
  by (cases a; cases b) simp_all

lemma dispatch_cursor:
  "dispatch call cp c op ex = (Inr c1, ex') \<Longrightarrow>
   op \<in> range opcode_of \<and> c1 + 1 = c + instr_length op"
  by (auto simp: dispatch_def instr_length_def range_opcode_of do_ILOAD_1_fails do_unknown_fails
      split: if_splits dest: do_cursor)

lemma instr_length_bounds: "1 \<le> instr_length op \<and> instr_length op \<le> 3"
  by (simp add: instr_length_def)

lemma step_cursor:
  assumes "step call cp c ex = (Inr c', ex')"
  shows "c < c' \<and> c' \<le> c + 3"
proof -
  from assms obtain op where "c' = c + instr_length op"
    by (auto simp: step_def res_simps dest!: dispatch_cursor)
  with instr_length_bounds [of op] show ?thesis by simp
qed

lemma loop_measure:
  "cursor < unat (n :: u32) \<Longrightarrow> cursor < cursor' \<Longrightarrow>
   (4294967296 :: nat) - cursor' < 4294967296 - cursor"
  using unat_u32_less [of n] by linarith

function exec_loop :: "(string \<Rightarrow> unit exec) \<Rightarrow> attr_ref \<Rightarrow> attr_ref \<Rightarrow> nat \<Rightarrow> nat exec" where
  "exec_loop invoke codeattr code cursor ex =
     (case read_CodeAttribute codeattr ex of
        (Inl e, ex') \<Rightarrow> (Inl e, ex')
      | (Inr ca, _) \<Rightarrow>
          if cursor < unat (code_length ca) then
            (case step invoke code cursor ex of
               (Inl e, ex') \<Rightarrow> (Inl e, ex')
             | (Inr cursor', ex') \<Rightarrow> exec_loop invoke codeattr code cursor' ex')
          else (Inr cursor, ex))"
  by pat_completeness auto
termination
  by (relation "measure (\<lambda>(invoke, codeattr, code, cursor, ex). 2 ^ 32 - cursor)")
    (auto dest!: step_cursor [OF sym] intro: loop_measure)

declare exec_loop.simps [simp del]

primrec run :: "nat \<Rightarrow> string \<Rightarrow> unit exec" where
  "run 0 method_name = xfail StackExhausted"
| "run (Suc depth) method_name =
     xbind (JavaExecutor_get_method method_name) (\<lambda>method.
     xbind (get_code_attribute method method_name) (\<lambda>codeattr.
     xbind (read_CodeAttribute codeattr) (\<lambda>ca.
     xbind (xprint (''['' @ method_name @ ''] Length of LVA: '' @
                    show_nat (unat (max_locals ca)) @ endl)) (\<lambda>_.
     xbind (get_code method) (\<lambda>code.
     xbind (exec_loop (run depth) codeattr code 0) (\<lambda>_.
     xreturn ()))))))"

section \<open>The cursor\<close>

lemma run_hello:
  "run 1 ''main'' (new_JavaExecutor (example_class hello_code)) = (Inr (), hello_final)"
  by code_simp

lemma get_code_attribute_example:
  "get_code_attribute (Some 0) ''main'' (new_JavaExecutor (example_class hello_code)) =
     (Inr (0, 0), example_running hello_code)"
  by code_simp

text \<open>
  C5. A step that succeeds has read the opcode of one of the seven instructions at the
  cursor and leaves the cursor behind the last byte of that instruction: three bytes
  further for GETSTATIC, INVOKEVIRTUAL, INVOKESTATIC and SIPUSH, two for LDC, one for
  RETURN. The two increments inside a branch and the final increment of \<^verbatim>\<open>step\<close>
  add up to the length of the instruction.
\<close>

theorem step_length:
  assumes "step call cp c ex = (Inr c', ex')"
  shows "\<exists>op. code_byte cp c ex = (Inr op, ex) \<and> op \<in> range opcode_of \<and>
              c' = c + instr_length op"
  using assms by (auto simp: step_def res_simps code_byte_def dest!: dispatch_cursor)

theorem step_length_witness:
  "\<exists>op. code_byte (0, 0) 0 (example_running hello_code) =
           (Inr op, example_running hello_code) \<and>
         op \<in> range opcode_of \<and> (3 :: nat) = 0 + instr_length op"
  by (rule step_length [where call = "run 0" and
        ex' = "(example_running hello_code)\<lparr>action_stack :=
                 [StaticAction STATIC ''java/lang/System'' ''out'']\<rparr>"]) code_simp

lemma read_CodeAttribute_state [simp]: "read_CodeAttribute ca ex = (r, ex') \<Longrightarrow> ex' = ex"
  by (simp add: read_CodeAttribute_def)

lemma exec_loop_unfold:
  "read_CodeAttribute ca ex = (Inr h, ex') \<Longrightarrow>
   exec_loop call ca code c ex =
     (if c < unat (code_length h) then xbind (step call code c) (exec_loop call ca code) ex
      else (Inr c, ex))"
  by (subst exec_loop.simps) (auto simp: xbind_def split: prod.splits sum.splits)

lemma exec_loop_fail:
  "read_CodeAttribute ca ex = (Inl e, ex') \<Longrightarrow> exec_loop call ca code c ex = (Inl e, ex)"
  by (subst exec_loop.simps) (auto simp: read_CodeAttribute_def xread_def)

lemma exec_loop_cases [consumes 1, case_names fail stop error step]:
  assumes "exec_loop call ca code c ex = (r, ex')"
  obtains e where "read_CodeAttribute ca ex = (Inl e, ex)" and "r = Inl e" and "ex' = ex"
  | h where "read_CodeAttribute ca ex = (Inr h, ex)" and "unat (code_length h) \<le> c"
      and "r = Inr c" and "ex' = ex"
  | h e where "read_CodeAttribute ca ex = (Inr h, ex)" and "c < unat (code_length h)"
      and "step call code c ex = (Inl e, ex')" and "r = Inl e"
  | h c1 ex1 where "read_CodeAttribute ca ex = (Inr h, ex)" and "c < unat (code_length h)"
      and "step call code c ex = (Inr c1, ex1)" and "exec_loop call ca code c1 ex1 = (r, ex')"
proof -
  obtain rh where rh: "read_CodeAttribute ca ex = (rh, ex)"
    by (cases "read_CodeAttribute ca ex") auto
  obtain rs ex1 where st: "step call code c ex = (rs, ex1)"
    by (cases "step call code c ex") auto
  show ?thesis
  proof (cases rh)
    case (Inl e)
    with rh assms show ?thesis
      by (intro that(1) [of e]) (auto simp: exec_loop_fail)
  next
    case (Inr h)
    with rh have h: "read_CodeAttribute ca ex = (Inr h, ex)"
      by simp
    from assms st show ?thesis
      unfolding exec_loop_unfold [OF h]
      by (cases "c < unat (code_length h)"; cases rs)
        (auto intro: that(2) [OF h] that(3) [OF h] that(4) [OF h])
  qed
qed

lemma exec_loop_outcome [consumes 1, case_names fail stop error step]:
  assumes "exec_loop call ca code c ex = (r, ex')"
    and "\<And>e c ex. read_CodeAttribute ca ex = (Inl e, ex) \<Longrightarrow> P c ex (Inl e) ex"
    and "\<And>h c ex. read_CodeAttribute ca ex = (Inr h, ex) \<Longrightarrow> unat (code_length h) \<le> c \<Longrightarrow>
           P c ex (Inr c) ex"
    and "\<And>h c ex e ex1. read_CodeAttribute ca ex = (Inr h, ex) \<Longrightarrow> c < unat (code_length h) \<Longrightarrow>
           step call code c ex = (Inl e, ex1) \<Longrightarrow> P c ex (Inl e) ex1"
    and "\<And>h c ex c1 ex1 r ex'. read_CodeAttribute ca ex = (Inr h, ex) \<Longrightarrow>
           c < unat (code_length h) \<Longrightarrow> step call code c ex = (Inr c1, ex1) \<Longrightarrow>
           exec_loop call ca code c1 ex1 = (r, ex') \<Longrightarrow> P c1 ex1 r ex' \<Longrightarrow> P c ex r ex'"
  shows "P c ex r ex'"
  using assms
proof (induction call ca code c ex arbitrary: r ex' rule: exec_loop.induct)
  case (1 invoke codeattr code cursor ex)
  note rules = "1.prems"(2-)
  from "1.prems"(1) show ?case
  proof (cases rule: exec_loop_cases)
    case (step h c1 ex1)
    have "P c1 ex1 r ex'"
      by (rule "1.IH" [OF step(1) [symmetric] refl step(2) step(3) [symmetric] refl step(4)])
        (fact rules)+
    with step show ?thesis
      by (rule rules(4))
  qed (auto intro: rules)
qed

text \<open>
  C6. When the loop of \<^verbatim>\<open>run\<close> ends without an error, the cursor has reached the code
  length that the Code attribute holds at that moment, and it never moved backwards.
\<close>

theorem exec_loop_final:
  assumes "exec_loop call ca code c ex = (Inr c', ex')"
  shows "\<exists>h. read_CodeAttribute ca ex' = (Inr h, ex') \<and> unat (code_length h) \<le> c' \<and> c \<le> c'"
proof -
  have "r = Inr c' \<longrightarrow>
        (\<exists>h. read_CodeAttribute ca ex' = (Inr h, ex') \<and> unat (code_length h) \<le> c' \<and> c \<le> c')"
    if "exec_loop call ca code c ex = (r, ex')" for r
    using that
  proof (induction rule: exec_loop_outcome)
    case (step h c ex c1 ex1 r ex')
    with step_cursor [of call code c ex c1 ex1] show ?case by auto
  qed auto
  with assms show ?thesis by simp
qed

theorem exec_loop_final_witness:
  "\<exists>h. read_CodeAttribute (0, 0)
         ((example_running hello_code)\<lparr>action_stack :=
            [StaticAction STATIC ''java/lang/System'' ''out''],
            cout := ''Hi'' @ endl @ ''Return!'' @ endl\<rparr>) =
        (Inr h, (example_running hello_code)\<lparr>action_stack :=
            [StaticAction STATIC ''java/lang/System'' ''out''],
            cout := ''Hi'' @ endl @ ''Return!'' @ endl\<rparr>) \<and>
       unat (code_length h) \<le> 9 \<and> (0 :: nat) \<le> 9"
  by (rule exec_loop_final [where call = "run 0" and code = "(0, 0)" and c = 0 and
        ex = "example_running hello_code"]) code_simp

text \<open>
  The cursor can end beyond the code length. A method whose code is the single
  byte of SIPUSH has code length \<open>1\<close>; the step reads the two operand bytes from what
  follows the code in the attribute and leaves the cursor at \<open>3\<close>, where the loop ends.
\<close>

lemma exec_loop_overshoot:
  "exec_loop (run 0) (0, 0) (0, 0) 0 (example_running [0x11]) =
     (Inr 3, (example_running [0x11])\<lparr>action_stack := [ValueAction CONSTANT 0],
                cout := ''Number is: 0'' @ endl\<rparr>) \<and>
   read_CodeAttribute (0, 0) (example_running [0x11]) =
     (Inr \<lparr>max_stack = 2, max_locals = 1, code_length = 1\<rparr>, example_running [0x11])"
  by code_simp

end
