(* ===== verification/Instructions.thy ===== *)
theory Instructions
  imports Executor
begin

text \<open>
  What a step does at each of the seven opcodes and at an unknown one, with the
  operands read as the big-endian numbers that the class file holds and references
  resolved to the names they stand for; the header of the Code attribute as
  \<^verbatim>\<open>get_code_attribute\<close> leaves it; and an example of a call between two methods, which
  share the action stack.
\<close>

section \<open>The instructions\<close>

text \<open>
  C21. \<^verbatim>\<open>println\<close>, the body of the INVOKEVIRTUAL branch, succeeds exactly when the top
  of the action stack is a constant action whose entry is a String entry and the pool
  has a Utf8 entry at the entry's string index; it then appends that text and a line
  break to the output and pops one action. Nothing else changes.
\<close>

theorem println_iff:
  "println ex = (Inr (), ex') \<longleftrightarrow>
     (\<exists>i e rest si pool text.
        action_stack ex = ConstantAction i e # rest \<and> un e = String_m si \<and>
        const_pool (klass ex) = Some pool \<and> utf8_at pool si = Inr text \<and>
        ex' = ex\<lparr>cout := cout ex @ text @ endl, action_stack := rest\<rparr>)"
  by (auto simp: println_def xbind_eq_Inr ebind_eq_Inr String_of_eq_Inr pool_of_def deref_def
      split: list.splits Action.splits option.splits)

text \<open>
  C33. A byte at the cursor that is none of the seven opcodes ends the run: the step
  prints \<^verbatim>\<open>Unknown instruction: 0x\<close> and the byte in hexadecimal, and fails with
  \<open>UnknownInstruction\<close>; the stack and the class are left as they were.
\<close>

theorem step_unknown:
  assumes "code_byte cp c ex = (Inr op, ex)" and "op \<notin> range opcode_of"
  shows "step call cp c ex =
           (Inl (UnknownInstruction op),
            ex\<lparr>cout := cout ex @ ''Unknown instruction: 0x'' @ show_hex (unat op) @ endl\<rparr>)"
  using assms by (auto simp: step_def dispatch_def do_unknown_def range_opcode_of)

theorem step_unknown_witness:
  "step (run 0) (0, 0) 0 (example_running [0xFF]) =
     (Inl (UnknownInstruction 0xFF),
      (example_running [0xFF])\<lparr>cout := cout (example_running [0xFF]) @
         ''Unknown instruction: 0xff'' @ endl\<rparr>)"
proof -
  have "show_hex (unat (0xFF :: byte)) = ''ff''"
    by code_simp
  moreover have "code_byte (0, 0) 0 (example_running [0xFF]) = (Inr 0xFF, example_running [0xFF])"
    by code_simp
  moreover have "(0xFF :: byte) \<notin> range opcode_of"
    by (simp add: range_opcode_of)
  ultimately show ?thesis
    using step_unknown [of "(0, 0)" 0 "example_running [0xFF]" "0xFF" "run 0"] by simp
qed

text \<open>
  ILOAD_1 is recognised and not implemented: the step prints two lines and fails
  with \<open>NeedLocals\<close>, the \<^verbatim>\<open>exit(1)\<close> of that branch.
\<close>

lemma step_ILOAD_1:
  assumes "code_byte cp c ex = (Inr (opcode_of ILOAD_1), ex)"
  shows "step call cp c ex =
           (Inl NeedLocals,
            ex\<lparr>cout := cout ex @ ''Iload 1!'' @ endl @ ''Need a local variable array!'' @ endl\<rparr>)"
  using assms by (auto simp: step_def dispatch_def do_ILOAD_1_def)

lemma step_ILOAD_1_example:
  "step (run 0) (0, 0) 0 (example_running [0x1b]) =
     (Inl NeedLocals,
      (example_running [0x1b])\<lparr>cout := cout (example_running [0x1b]) @
         ''Iload 1!'' @ endl @ ''Need a local variable array!'' @ endl\<rparr>)"
  by (rule step_ILOAD_1) code_simp

lemma sipush_value_eq: "sipush_value sh1 sh2 = 256 * uint sh1 + uint sh2"
proof -
  have "uint sh2 < 2 ^ 8"
    using uint_bounded [of sh2] by simp
  then have "push_bit 8 (uint sh1) OR uint sh2 = push_bit 8 (uint sh1) + uint sh2"
    by (intro or_push_bit_int) simp_all
  then show ?thesis
    by (simp add: sipush_value_def push_bit_eq_mult)
qed

text \<open>
  The number that SIPUSH builds from its two operand bytes is \<open>256 * sh1 + sh2\<close>,
  the first byte being the more significant one. It lies between \<open>0\<close> and \<open>65535\<close>:
  the operand is never read as a negative number.
\<close>

lemma sipush_value_range:
  "sipush_value sh1 sh2 = 256 * uint sh1 + uint sh2 \<and>
   0 \<le> sipush_value sh1 sh2 \<and> sipush_value sh1 sh2 < 65536"
  using uint_bounded [of sh1] uint_bounded [of sh2] by (simp add: sipush_value_eq)

text \<open>
  C34. A step at a SIPUSH instruction prints \<^verbatim>\<open>Number is: \<close> and the number in
  decimal, pushes the number as a value action and moves the cursor three bytes on.
\<close>

theorem step_SIPUSH:
  assumes "code_byte cp c ex = (Inr (opcode_of SIPUSH), ex)"
    and "code_byte cp (c + 1) ex = (Inr sh1, ex)"
    and "code_byte cp (c + 2) ex = (Inr sh2, ex)"
  shows "step call cp c ex =
           (Inr (c + 3),
            ex\<lparr>cout := cout ex @ ''Number is: '' @ show_nat (256 * unat sh1 + unat sh2) @ endl,
               action_stack := ValueAction CONSTANT (256 * uint sh1 + uint sh2) # action_stack ex\<rparr>)"
proof -
  have "256 * uint sh1 + uint sh2 = int (256 * unat sh1 + unat sh2)"
    by simp
  then have "show_int (256 * uint sh1 + uint sh2) = show_nat (256 * unat sh1 + unat sh2)"
    by (simp only: show_int_nat)
  moreover have "code_byte cp c' (ex\<lparr>cout := s\<rparr>) = (r, ex'\<lparr>cout := s\<rparr>)"
    if "code_byte cp c' ex = (r, ex')" for c' s r ex'
    using that by (auto simp: code_byte_def)
  ultimately show ?thesis
    using assms by (simp add: step_def dispatch_def do_SIPUSH_def sipush_value_eq)
qed

theorem step_SIPUSH_witness:
  "step (run 0) (0, 0) 0 (example_running [0x11, 1, 2]) =
     (Inr 3,
      (example_running [0x11, 1, 2])\<lparr>cout := cout (example_running [0x11, 1, 2]) @
         ''Number is: 258'' @ endl,
         action_stack := [ValueAction CONSTANT 258]\<rparr>)"
proof -
  have "show_nat 258 = ''258''" "action_stack (example_running [0x11, 1, 2]) = []"
    by code_simp+
  moreover have
    "code_byte (0, 0) 0 (example_running [0x11, 1, 2]) =
       (Inr (opcode_of SIPUSH), example_running [0x11, 1, 2])"
    "code_byte (0, 0) (0 + 1) (example_running [0x11, 1, 2]) = (Inr 1, example_running [0x11, 1, 2])"
    "code_byte (0, 0) (0 + 2) (example_running [0x11, 1, 2]) = (Inr 2, example_running [0x11, 1, 2])"
    by code_simp+
  note step_SIPUSH [OF this, of "run 0"]
  ultimately show ?thesis by simp
qed

section \<open>The instructions that use the pool\<close>

lemma code_u16_bytes:
  assumes "code_byte cp i ex = (Inr b1, ex)" and "code_byte cp (i + 1) ex = (Inr b2, ex)"
  shows "code_u16 cp i ex = (Inr (bytes_word [b1, b2]), ex)"
proof -
  from assms obtain a where a: "attr_at (klass ex) cp = Inr a"
    and len: "8 + i + 1 < length (info a)"
    and b: "b1 = info a ! (8 + i)" "b2 = info a ! (8 + i + 1)"
    by (auto simp: code_byte_def subscript_def res_simps split: if_splits)
  from len have "take 2 (drop (8 + i) (info a)) = [info a ! (8 + i), info a ! (8 + i + 1)]"
    by (simp add: take_Suc_conv_app_nth numeral_2_eq_2 add.commute)
  with a len b show ?thesis
    by (simp add: code_u16_def field16_def del: bytes_word.simps)
qed

lemma code_byte_fst: "fst (code_byte cp i ex) = r \<longleftrightarrow> code_byte cp i ex = (r, ex)"
  by (cases "code_byte cp i ex") (auto dest: code_byte_state)

lemma operandE:
  assumes "operand cp c ex = Some idx"
  obtains b1 b2 where "code_byte cp (c + 1) ex = (Inr b1, ex)"
    and "code_byte cp (c + 1 + 1) ex = (Inr b2, ex)" and "idx = be_word [b1, b2]"
  using assms
  by (auto simp: operand_def code_byte_fst [symmetric] split: sum.splits)

lemma operand_u16:
  assumes "operand cp c ex = Some idx"
  obtains w where "code_u16 cp (Suc c) ex = (Inr w, ex)" and "swapEndianness w = idx"
proof -
  from assms obtain b1 b2 where b: "code_byte cp (c + 1) ex = (Inr b1, ex)"
    "code_byte cp (c + 1 + 1) ex = (Inr b2, ex)" and idx: "idx = be_word [b1, b2]"
    by (rule operandE)
  have "code_u16 cp (c + 1) ex = (Inr (bytes_word [b1, b2]), ex)"
    using b by (rule code_u16_bytes)
  moreover have "swapEndianness (bytes_word [b1, b2] :: u16) = idx"
    by (simp add: swapEndianness_bytes idx del: bytes_word.simps)
  ultimately show thesis by (auto intro: that)
qed

lemma operand_cout [simp]: "operand cp c (ex\<lparr>cout := s\<rparr>) = operand cp c ex"
  by (simp add: operand_def code_byte_def xread_def)

lemma opcode_step:
  "code_byte cp c ex = (Inr op, ex) \<Longrightarrow>
   step call cp c ex = xbind (dispatch call cp c op) (\<lambda>c'. xreturn (c' + 1)) ex"
  by (simp add: step_def)

lemma names_resolved:
  assumes "const_pool (klass ex) = Some pool"
  shows "xbind (xresolve idx) f ex = (case resolve pool idx of Inl e \<Rightarrow> (Inl e, ex) | Inr r \<Rightarrow> f r ex)"
  using assms by (simp add: xresolve_def pool_of_def deref_def xbind_def xread_def split: sum.splits)

lemma class_name_ofE:
  assumes "class_name_of pool idx = Inr class_name"
  obtains r where "resolve pool idx = Inr r" and "Utf8_of (r_classname_index r) = Inr class_name"
  using assms by (auto simp: class_name_of_def ebind_eq_Inr)

lemma member_name_resolved:
  "resolve pool idx = Inr r \<Longrightarrow> member_name_of pool idx = Utf8_of (r_name r)"
  by (simp add: member_name_of_def)

lemma code_u16_cout:
  "code_u16 cp c ex = (r, ex) \<Longrightarrow> code_u16 cp c (ex\<lparr>cout := s\<rparr>) = (r, ex\<lparr>cout := s\<rparr>)"
  by (simp add: code_u16_def xread_def)

lemma xbind_print_entry:
  "ConstantPoolEntry_show e = Inr s \<Longrightarrow>
   xbind (print_entry label e) f ex = f () (ex\<lparr>cout := cout ex @ label @ s @ endl\<rparr>)"
  by (simp add: print_entry_def xbind_def xread_def xprint_def)

lemmas step_simps = opcode_step dispatch_def xbind_assoc names_resolved numeral_3_eq_3

text \<open>
  C22. A step at a GETSTATIC instruction whose operand, read with the first byte as
  the more significant one, is the one-based index of a reference in the pool pushes
  a static action with the class name and the member name of that reference, prints
  nothing and moves the cursor three bytes on.
\<close>

theorem step_GETSTATIC:
  assumes "code_byte cp c ex = (Inr (opcode_of GETSTATIC), ex)"
    and "operand cp c ex = Some idx" and "const_pool (klass ex) = Some pool"
    and "class_name_of pool idx = Inr class_name" and "member_name_of pool idx = Inr name"
  shows "step call cp c ex =
           (Inr (c + 3), ex\<lparr>action_stack := StaticAction STATIC class_name name # action_stack ex\<rparr>)"
  using assms
  by (elim operand_u16 class_name_ofE)
    (simp add: step_simps do_GETSTATIC_def member_name_resolved)

theorem step_GETSTATIC_witness:
  "step (run 0) (0, 0) 0 (example_running hello_code) =
     (Inr (0 + 3), (example_running hello_code)\<lparr>action_stack :=
        StaticAction STATIC ''java/lang/System'' ''out'' #
        action_stack (example_running hello_code)\<rparr>)"
  by (rule step_GETSTATIC [where idx = 1 and pool = example_pool]; code_simp)

text \<open>
  C23. A step at an LDC instruction pushes a constant action that holds a copy of the
  pool entry at the one-based index given by the operand byte, whatever the tag of
  that entry is, and moves the cursor two bytes on.
\<close>

theorem step_LDC:
  assumes "code_byte cp c ex = (Inr (opcode_of LDC), ex)"
    and "code_byte cp (c + 1) ex = (Inr idx, ex)"
    and "const_pool (klass ex) = Some pool" and "entry_at pool (uint idx - 1) = Inr entry"
  shows "step call cp c ex =
           (Inr (c + 2), ex\<lparr>action_stack := ConstantAction CONSTANT entry # action_stack ex\<rparr>)"
  using assms by (simp add: opcode_step dispatch_def do_LDC_def pool_of_def deref_def)

theorem step_LDC_witness:
  "step (run 0) (0, 0) 3 (example_running hello_code) =
     (Inr (3 + 2), (example_running hello_code)\<lparr>action_stack :=
        ConstantAction CONSTANT \<lparr>tag = tag_of String, un = String_m 8\<rparr> #
        action_stack (example_running hello_code)\<rparr>)"
  by (rule step_LDC [where idx = 7 and pool = example_pool]; code_simp)

text \<open>
  C24. A step at an INVOKEVIRTUAL instruction does the work of \<^verbatim>\<open>println\<close> exactly when
  the reference names the class \<^verbatim>\<open>java/io/PrintStream\<close> and the member \<^verbatim>\<open>println\<close>; the
  member name is looked at only when the class name matches. Every other reference
  that resolves is skipped without any effect. In both cases the cursor moves three
  bytes on.
\<close>

theorem step_INVOKEVIRTUAL:
  assumes "code_byte cp c ex = (Inr (opcode_of INVOKEVIRTUAL), ex)"
    and "operand cp c ex = Some idx" and "const_pool (klass ex) = Some pool"
    and "class_name_of pool idx = Inr class_name"
    and "class_name = ''java/io/PrintStream'' \<Longrightarrow> member_name_of pool idx = Inr name"
  shows "step call cp c ex =
           (if class_name = ''java/io/PrintStream'' \<and> name = ''println''
            then xbind println (\<lambda>_. xreturn (c + 3)) ex
            else (Inr (c + 3), ex))"
  using assms
  by (elim operand_u16 class_name_ofE)
    (simp add: step_simps do_INVOKEVIRTUAL_def member_name_resolved)

theorem step_INVOKEVIRTUAL_witness:
  "step (run 0) (1, 0) 0 call_running =
     (Inr 3, call_running\<lparr>cout := cout call_running @ ''Hi'' @ endl,
                action_stack := [StaticAction STATIC ''java/lang/System'' ''out'']\<rparr>)"
proof -
  have "code_byte (1, 0) 0 call_running = (Inr (opcode_of INVOKEVIRTUAL), call_running)"
    and "operand (1, 0) 0 call_running = Some 9"
    and "const_pool (klass call_running) = Some call_pool"
    and "class_name_of call_pool 9 = Inr ''java/io/PrintStream''"
    and "member_name_of call_pool 9 = Inr ''println''"
    by code_simp+
  moreover have "println call_running =
     (Inr (), call_running\<lparr>cout := cout call_running @ ''Hi'' @ endl,
                action_stack := [StaticAction STATIC ''java/lang/System'' ''out'']\<rparr>)"
    by code_simp
  ultimately show ?thesis
    using step_INVOKEVIRTUAL [of "(1, 0)" 0 call_running 9 call_pool "''java/io/PrintStream''"
        "''println''" "run 0"]
    by simp
qed

text \<open>
  C25. A step at an INVOKESTATIC instruction prints \<^verbatim>\<open>Invoke static!\<close> and six lines
  about the reference, then runs the method with the member name of the reference
  and, when that run returns, moves the cursor three bytes on. The class name of the
  reference is printed and otherwise ignored, and the callee starts on the action
  stack of the caller: the executor handed to it differs from the caller's only in
  the output.
\<close>

theorem step_INVOKESTATIC:
  assumes "code_byte cp c ex = (Inr (opcode_of INVOKESTATIC), ex)"
    and "operand cp c ex = Some idx" and "const_pool (klass ex) = Some pool"
    and "invoke_report pool idx = Inr report" and "member_name_of pool idx = Inr name"
  shows "step call cp c ex =
           xbind (call name) (\<lambda>_. xreturn (c + 3))
             (ex\<lparr>cout := cout ex @ ''Invoke static!'' @ endl @ report\<rparr>)"
proof -
  from assms(2) obtain w where w: "code_u16 cp (Suc c) ex = (Inr w, ex)" "swapEndianness w = idx"
    by (rule operand_u16)
  from assms(4) obtain r s1 s2 s3 s4 s5 s6 where r: "resolve pool idx = Inr r"
    and s: "ConstantPoolEntry_show (r_entry r) = Inr s1"
      "ConstantPoolEntry_show (r_class_index r) = Inr s2"
      "ConstantPoolEntry_show (r_classname_index r) = Inr s3"
      "ConstantPoolEntry_show (r_name_type_index r) = Inr s4"
      "ConstantPoolEntry_show (r_name r) = Inr s5"
      "ConstantPoolEntry_show (r_descriptor r) = Inr s6"
    and report: "report = ''Class: '' @ s1 @ endl @ ''Class index: '' @ s2 @ endl @
          ''Class name: '' @ s3 @ endl @ ''Name and type: '' @ s4 @ endl @
          ''|- Name: '' @ s5 @ endl @ ''|- Descriptor: '' @ s6 @ endl"
    by (auto simp: invoke_report_def ebind_eq_Inr)
  from r assms(5) have name: "Utf8_of (r_name r) = Inr name"
    by (simp add: member_name_resolved)
  show ?thesis
    using assms(1,3) w r name
    by (simp add: step_simps do_INVOKESTATIC_def code_u16_cout xbind_print_entry [OF s(1)]
        xbind_print_entry [OF s(2)] xbind_print_entry [OF s(3)] xbind_print_entry [OF s(4)]
        xbind_print_entry [OF s(5)] xbind_print_entry [OF s(6)] report)
qed

theorem step_INVOKESTATIC_witness:
  "step (run 1) (0, 0) 5 call_running =
     xbind (run 1 ''greet'') (\<lambda>_. xreturn (5 + 3))
       (call_running\<lparr>cout := cout call_running @ ''Invoke static!'' @ endl @
          ''Class: <ConstantPoolEntry = TAG: 10; Method reference>'' @ endl @
          ''Class index: <ConstantPoolEntry = TAG: 7; Class>'' @ endl @
          ''Class name: <ConstantPoolEntry = TAG: 1; Utf8; Value = \"Hello\">'' @ endl @
          ''Name and type: <ConstantPoolEntry = TAG: 12; Name and type>'' @ endl @
          ''|- Name: <ConstantPoolEntry = TAG: 1; Utf8; Value = \"greet\">'' @ endl @
          ''|- Descriptor: <ConstantPoolEntry = TAG: 1; Utf8; Value = \"()V\">'' @ endl\<rparr>)"
  by (rule step_INVOKESTATIC [where idx = 20 and pool = call_pool]; code_simp)

lemma step_RETURN:
  assumes "code_byte cp c ex = (Inr (opcode_of RETURN), ex)"
  shows "step call cp c ex = (Inr (c + 1), ex\<lparr>cout := cout ex @ ''Return!'' @ endl\<rparr>)"
  using assms by (simp add: opcode_step dispatch_def do_RETURN_def)

section \<open>The header of the Code attribute\<close>

lemma store_swapped_field:
  assumes "off + LENGTH('a) div 8 \<le> length buf" and "8 dvd LENGTH('a)"
  shows "store buf off (word_bytes (swapEndianness (bytes_word (take (LENGTH('a) div 8) (drop off buf)) :: 'a::len word))) =
           take off buf @ rev (take (LENGTH('a) div 8) (drop off buf)) @ drop (off + LENGTH('a) div 8) buf"
  using assms by (simp add: store_def word_bytes_swapEndianness)

lemma CodeAttribute_swap_eq:
  "CodeAttribute_swap buf =
     (if length buf < 8 then Inl (Undefined BufferOverrun)
      else Inr (rev (take 2 buf) @ rev (take 2 (drop 2 buf)) @ rev (take 4 (drop 4 buf)) @ drop 8 buf))"
proof (cases "length buf < 8")
  case True
  then show ?thesis by (simp add: CodeAttribute_swap_def)
next
  case False
  then have "8 \<le> length buf"
    by simp
  then obtain a b c d e f g h rest where buf: "buf = a # b # c # d # e # f # g # h # rest"
    by (auto simp: numeral_eq_Suc Suc_le_length_iff)
  show ?thesis
    by (simp add: buf CodeAttribute_swap_def field16_def field32_def store_def Let_def
        word_bytes_swapEndianness del: bytes_word.simps)
qed

lemma CodeAttribute_swap_length:
  "CodeAttribute_swap buf = Inr buf' \<Longrightarrow> length buf' = length buf \<and> drop 8 buf' = drop 8 buf"
  by (auto simp: CodeAttribute_swap_eq split: if_splits)

lemma CodeAttribute_swap_swap:
  "CodeAttribute_swap buf = Inr buf' \<Longrightarrow> CodeAttribute_swap buf' = Inr buf"
  by (auto simp: CodeAttribute_swap_eq numeral_eq_Suc Suc_le_length_iff not_less split: if_splits)

lemma CodeAttribute_at_swap:
  "CodeAttribute_swap buf = Inr buf' \<Longrightarrow>
   CodeAttribute_at buf' = Inr \<lparr>max_stack = be_word (take 2 buf),
     max_locals = be_word (take 2 (drop 2 buf)), code_length = be_word (take 4 (drop 4 buf))\<rparr>"
  by (auto simp: CodeAttribute_swap_eq CodeAttribute_at_def field16_def field32_def
      bytes_word_rev simp del: bytes_word.simps split: if_splits)

lemma set_info_same:
  "attr_at k r = Inr a \<Longrightarrow> set_info k r (info a) = k"
  by (auto simp: attr_at_def set_info_def subscript_def res_simps split: if_splits)

lemma set_info_set_info:
  "attr_at k r = Inr a \<Longrightarrow> set_info (set_info k r buf) r buf' = set_info k r buf'"
  by (auto simp: attr_at_def set_info_def subscript_def res_simps split: if_splits)

lemma attr_at_set_info:
  "attr_at k r = Inr a \<Longrightarrow> attr_at (set_info k r buf) r = Inr (a\<lparr>info := buf\<rparr>)"
  by (auto simp: attr_at_def set_info_def subscript_def res_simps split: if_splits)

lemma find_Code_state [simp]: "find_Code mi ex = (r, ex') \<Longrightarrow> ex' = ex"
  by (auto simp: find_Code_def xbind_def xread_def split: sum.splits option.splits)

text \<open>
  C26. After \<^verbatim>\<open>get_code_attribute\<close> has returned, the three fields of the Code
  attribute hold the numbers that the class file gives in big-endian order: the first
  two bytes of the buffer for \<^verbatim>\<open>max_stack\<close>, the next two for \<^verbatim>\<open>max_locals\<close>, the next
  four for \<^verbatim>\<open>code_length\<close>.
\<close>

theorem get_code_attribute_header:
  assumes "get_code_attribute (Some mi) n ex = (Inr r, ex1)"
  shows "\<exists>a. attr_at (klass ex) r = Inr a \<and>
           read_CodeAttribute r ex1 =
             (Inr \<lparr>max_stack = be_word (take 2 (info a)),
                   max_locals = be_word (take 2 (drop 2 (info a))),
                   code_length = be_word (take 4 (drop 4 (info a)))\<rparr>, ex1)"
proof -
  from assms obtain a buf where a: "attr_at (klass ex) r = Inr a"
    and buf: "CodeAttribute_swap (info a) = Inr buf"
    and ex1: "ex1 = ex\<lparr>klass := set_info (klass ex) r buf\<rparr>"
    by (auto simp: get_code_attribute_def res_simps dest: find_Code_state)
  then show ?thesis
    by (auto simp: read_CodeAttribute_def attr_at_set_info CodeAttribute_at_swap)
qed

theorem get_code_attribute_header_witness:
  "read_CodeAttribute (0, 0) (example_running hello_code) =
     (Inr \<lparr>max_stack = 2, max_locals = 1, code_length = 9\<rparr>, example_running hello_code)"
proof -
  from get_code_attribute_header [OF get_code_attribute_example] obtain a
    where a: "attr_at (klass (new_JavaExecutor (example_class hello_code))) (0, 0) = Inr a"
      and h: "read_CodeAttribute (0, 0) (example_running hello_code) =
               (Inr \<lparr>max_stack = be_word (take 2 (info a)),
                     max_locals = be_word (take 2 (drop 2 (info a))),
                     code_length = be_word (take 4 (drop 4 (info a)))\<rparr>,
                example_running hello_code)"
    by blast
  from a have "info a = example_info hello_code"
    by (auto simp: new_JavaExecutor_def attr_at_def example_class_def example_method_def
        subscript_def)
  moreover have "example_info hello_code = [0, 2, 0, 1, 0, 0, 0, 9] @ hello_code @ [0, 0, 0, 0]"
    by code_simp
  ultimately show ?thesis
    using h by (simp add: be_word_def)
qed

section \<open>A call between two methods\<close>

text \<open>
  The action stack is one stack for all invocations: an example. In the class with the two
  methods, \<^verbatim>\<open>greet\<close> consists of a call of \<^verbatim>\<open>println\<close> and pushes nothing: run on its
  own it reads the top of an empty stack, and called from \<^verbatim>\<open>main\<close> it prints the
  string that \<^verbatim>\<open>main\<close> has pushed and pops it from the stack of \<^verbatim>\<open>main\<close>.
\<close>

lemma run_call:
  "fst (run 1 ''greet'' (new_JavaExecutor (call_class caller_code greet_code))) =
     Inl (Undefined EmptyStack) \<and>
   fst (run 2 ''main'' (new_JavaExecutor (call_class caller_code greet_code))) = Inr () \<and>
   action_stack (snd (run 2 ''main'' (new_JavaExecutor (call_class caller_code greet_code)))) =
     [StaticAction STATIC ''java/lang/System'' ''out''] \<and>
   suffix (''[greet] Length of LVA: 1'' @ endl @ ''Hi'' @ endl @ ''Return!'' @ endl @
           ''Return!'' @ endl)
     (cout (snd (run 2 ''main'' (new_JavaExecutor (call_class caller_code greet_code)))))"
  by code_simp

end
