(* ===== verification/Last_Words.thy ===== *)
theory Last_Words
  imports Executor
begin

text \<open>
  The message that ends the output of a failed run. \<open>last_words e\<close> is what the
  program prints last before it ends with error \<open>e\<close>: the message of the \<^verbatim>\<open>exit(1)\<close>
  in question, and nothing for the ends that come without a message. \<open>announces m\<close>
  says that \<open>m\<close>, when it fails, has just printed the message of its error; it is
  carried from the primitives to \<open>run\<close> by the collection \<open>announces_intros\<close>.
\<close>

section \<open>Messages\<close>

primrec last_words :: "error \<Rightarrow> string" where
  "last_words (UnknownTag t) = []"
| "last_words (NullMethod n) =
     ''Exception: Trying to get Code Attribute from nullptr method!'' @ endl @
     ''           Method name: '' @ n @ endl"
| "last_words NeedLocals = ''Iload 1!'' @ endl @ ''Need a local variable array!'' @ endl"
| "last_words (UnknownInstruction op) = ''Unknown instruction: 0x'' @ show_hex (unat op) @ endl"
| "last_words BadArrayNewLength = []"
| "last_words StackExhausted = []"
| "last_words (Undefined f) = []"

definition announces :: "'a exec \<Rightarrow> bool" where
  "announces m \<longleftrightarrow> (\<forall>ex e ex'. m ex = (Inl e, ex') \<longrightarrow> suffix (last_words e) (cout ex'))"

section \<open>The last words of a run\<close>

named_theorems announces_intros \<open>operations that fail only behind the message of their error\<close>

lemma only_faults_attr_at [fault_intros]: "only_faults (attr_at k r)"
  unfolding attr_at_def by (intro fault_intros)

lemma only_faults_CodeAttribute [fault_intros]:
  "only_faults (CodeAttribute_swap buf)" "only_faults (CodeAttribute_at buf)"
  by (simp_all add: CodeAttribute_swap_def CodeAttribute_at_def Let_def)

lemma only_faults_pool_of [fault_intros]: "only_faults (pool_of ex)"
  unfolding pool_of_def by (intro fault_intros)

lemma only_faults_resolve [fault_intros]: "only_faults (resolve pool idx)"
  unfolding resolve_def by (intro fault_intros)

lemma announcesD: "announces m \<Longrightarrow> m ex = (Inl e, ex') \<Longrightarrow> suffix (last_words e) (cout ex')"
  by (auto simp: announces_def)

lemma announces_xreturn [announces_intros]: "announces (xreturn x)"
  by (simp add: announces_def)

lemma announces_fault [announces_intros]: "announces (xfail (Undefined f))"
  by (simp add: announces_def)

lemma announces_StackExhausted [announces_intros]: "announces (xfail StackExhausted)"
  by (simp add: announces_def)

lemma announces_xread [announces_intros]:
  assumes "\<And>ex. only_faults (f ex)"
  shows "announces (xread f)"
proof -
  have "last_words e = []" if "f ex = Inl e" for ex e
    using assms [of ex] that by (auto simp: only_faults_Inl)
  then show ?thesis
    by (simp add: announces_def)
qed

lemma announces_xprint [announces_intros]: "announces (xprint s)"
  by (simp add: announces_def)

lemma announces_push [announces_intros]: "announces (push a)"
  by (simp add: announces_def)

lemma announces_top [announces_intros]: "announces top"
  by (auto simp: announces_def top_def xread_def split: list.splits)

lemma announces_pop [announces_intros]: "announces pop"
  by (auto simp: announces_def pop_def split: list.splits)

lemma announces_xbind [announces_intros]:
  "announces m \<Longrightarrow> (\<And>x. announces (f x)) \<Longrightarrow> announces (xbind m f)"
  unfolding announces_def xbind_def
  by (fastforce split: prod.splits sum.splits)

lemma announces_if [announces_intros]:
  "announces m \<Longrightarrow> announces n \<Longrightarrow> announces (if b then m else n)"
  by simp

lemma announces_say:
  "last_words e = s \<Longrightarrow> announces (xbind (xprint s) (\<lambda>_. xfail e))"
  by (auto simp: announces_def xbind_def xprint_def xfail_def suffix_def)

lemma announces_code_byte [announces_intros]: "announces (code_byte cp c)"
  unfolding code_byte_def by (intro announces_intros fault_intros)

lemma announces_code_u16 [announces_intros]: "announces (code_u16 cp c)"
  unfolding code_u16_def by (intro announces_intros fault_intros)

lemma announces_read_CodeAttribute [announces_intros]: "announces (read_CodeAttribute r)"
  unfolding read_CodeAttribute_def by (intro announces_intros fault_intros)

lemma announces_xresolve [announces_intros]: "announces (xresolve i)"
  unfolding xresolve_def by (intro announces_intros fault_intros)

lemma announces_option [announces_intros]:
  "announces m \<Longrightarrow> (\<And>x. announces (f x)) \<Longrightarrow> announces (case p of None \<Rightarrow> m | Some x \<Rightarrow> f x)"
  by (cases p) simp_all

lemma announces_find_Code [announces_intros]: "announces (find_Code mi)"
  unfolding find_Code_def by (intro announces_intros fault_intros)

lemma announces_get_code [announces_intros]: "announces (get_code m)"
  unfolding get_code_def by (intro announces_intros)

lemma announces_JavaExecutor_get_method [announces_intros]:
  "announces (JavaExecutor_get_method n)"
  unfolding JavaExecutor_get_method_def by (intro announces_intros fault_intros)

lemma announces_print_entry [announces_intros]: "announces (print_entry l e)"
  unfolding print_entry_def by (intro announces_intros fault_intros)

lemma announces_println [announces_intros]: "announces println"
  unfolding println_def
  by (intro announces_intros fault_intros) (simp add: announces_intros split: Action.splits)

lemma announces_do_GETSTATIC [announces_intros]: "announces (do_GETSTATIC cp c)"
  unfolding do_GETSTATIC_def by (intro announces_intros fault_intros)

lemma announces_do_LDC [announces_intros]: "announces (do_LDC cp c)"
  unfolding do_LDC_def by (intro announces_intros fault_intros)

lemma announces_do_INVOKEVIRTUAL [announces_intros]: "announces (do_INVOKEVIRTUAL cp c)"
  unfolding do_INVOKEVIRTUAL_def by (intro announces_intros fault_intros)

lemma announces_do_INVOKESTATIC [announces_intros]:
  "(\<And>n. announces (call n)) \<Longrightarrow> announces (do_INVOKESTATIC call cp c)"
  unfolding do_INVOKESTATIC_def by (intro announces_intros fault_intros)

lemma announces_do_SIPUSH [announces_intros]: "announces (do_SIPUSH cp c)"
  unfolding do_SIPUSH_def by (intro announces_intros)

lemma announces_do_ILOAD_1 [announces_intros]: "announces do_ILOAD_1"
  by (auto simp: announces_def do_ILOAD_1_def xbind_def xprint_def xfail_def suffix_def)

lemma announces_do_RETURN [announces_intros]: "announces (do_RETURN c)"
  unfolding do_RETURN_def by (intro announces_intros)

lemma announces_do_unknown [announces_intros]: "announces (do_unknown op)"
  unfolding do_unknown_def by (rule announces_say) simp

lemma announces_step [announces_intros]:
  "(\<And>n. announces (call n)) \<Longrightarrow> announces (step call cp c)"
  unfolding step_def dispatch_def by (intro announces_intros)

lemma announces_get_code_attribute [announces_intros]: "announces (get_code_attribute entry n)"
proof (cases entry)
  case None
  then show ?thesis
    by (auto simp: get_code_attribute_def announces_def xbind_def xprint_def xfail_def suffix_def)
next
  case (Some mi)
  have "announces (\<lambda>ex. (Inr (), ex\<lparr>klass := set_info (klass ex) r buf\<rparr>))" for r buf
    by (simp add: announces_def)
  with Some show ?thesis
    unfolding get_code_attribute_def by (auto intro!: announces_intros fault_intros)
qed

lemma announces_exec_loop [announces_intros]:
  assumes "\<And>n. announces (call n)"
  shows "announces (exec_loop call ca code c)"
proof -
  have st: "announces (step call code c)" for c
    by (intro announces_step assms)
  have "r = Inl e \<longrightarrow> suffix (last_words e) (cout ex')"
    if "exec_loop call ca code c ex = (r, ex')" for ex r ex' e
    using that
  proof (induction rule: exec_loop_outcome)
    case (fail e' c ex)
    then show ?case
      by (auto dest: announcesD [OF announces_read_CodeAttribute])
  qed (use st in \<open>auto dest: announcesD\<close>)
  then show ?thesis
    by (simp add: announces_def)
qed

lemma announces_run [announces_intros]: "announces (run depth n)"
proof (induction depth arbitrary: n)
  case 0
  show ?case by (simp add: announces_intros)
next
  case (Suc depth)
  show ?case
    unfolding run.simps by (intro announces_intros Suc)
qed

text \<open>
  C29. When a run ends with an error, the last thing in the output is the message of
  that error: the two lines about the missing method, the two lines of ILOAD_1, or
  \<^verbatim>\<open>Unknown instruction: 0x\<close> with the byte. Nothing is printed between the message
  and the end of the program, at whatever depth of nested calls the error arises.
\<close>

theorem run_last_words:
  "run depth n ex = (Inl e, ex') \<Longrightarrow> suffix (last_words e) (cout ex')"
  by (rule announcesD [OF announces_run])

theorem run_last_words_witness:
  "suffix (last_words (UnknownInstruction 0xFF))
     (cout ((example_running [0xFF])\<lparr>cout := ''[main] Length of LVA: 1'' @ endl @
        ''Unknown instruction: 0xff'' @ endl\<rparr>))"
  by (rule run_last_words [where depth = 1 and n = "''main''" and
        ex = "new_JavaExecutor (example_class [0xFF])"]) code_simp

end
