(* ===== verification/Machine.thy ===== *)
theory Machine
  imports Instructions Last_Words
begin

text \<open>
  The machine that the interpreter implements, as a specification: a method is a list
  of instructions with their operands, an instruction acts on the action stack and on
  the output, and the constant pool is a parameter that never changes.

  Whatever else the program has as state is a type variable \<open>'s\<close>: only the method
  that INVOKESTATIC calls (the parameter \<open>calls\<close>) can look at it or change it. For
  the interpreter of \<^verbatim>\<open>src/main.cpp\<close> it is the class file, in which a call swaps the
  header of a Code attribute.
\<close>

section \<open>Instructions\<close>

datatype instr =
    Getstatic u16
  | Ldc byte
  | Invokevirtual u16
  | Invokestatic u16
  | Sipush byte byte
  | Iload_1
  | Return
  | Unknown byte

text \<open>The bytes an instruction occupies; the instructions after which nothing runs.\<close>

primrec size_of :: "instr \<Rightarrow> nat" where
  "size_of (Getstatic idx) = 3"
| "size_of (Ldc idx) = 2"
| "size_of (Invokevirtual idx) = 3"
| "size_of (Invokestatic idx) = 3"
| "size_of (Sipush sh1 sh2) = 3"
| "size_of Iload_1 = 1"
| "size_of Return = 1"
| "size_of (Unknown op) = 1"

primrec halts :: "instr \<Rightarrow> bool" where
  "halts (Getstatic idx) = False"
| "halts (Ldc idx) = False"
| "halts (Invokevirtual idx) = False"
| "halts (Invokestatic idx) = False"
| "halts (Sipush sh1 sh2) = False"
| "halts Iload_1 = True"
| "halts Return = False"
| "halts (Unknown op) = True"

primrec call_free :: "instr \<Rightarrow> bool" where
  "call_free (Getstatic idx) = True"
| "call_free (Ldc idx) = True"
| "call_free (Invokevirtual idx) = True"
| "call_free (Invokestatic idx) = False"
| "call_free (Sipush sh1 sh2) = True"
| "call_free Iload_1 = True"
| "call_free Return = True"
| "call_free (Unknown op) = True"

section \<open>State and primitives\<close>

record machine =
  m_stack :: "Action list"
  m_out :: string

type_synonym 's mstate = "machine \<times> 's"
type_synonym 's mexec = "'s mstate \<Rightarrow> (error + unit) \<times> 's mstate"

definition m_ok :: "'s mexec" where
  "m_ok ms = (Inr (), ms)"

definition m_fail :: "error \<Rightarrow> 's mexec" where
  "m_fail e ms = (Inl e, ms)"

definition m_try :: "error + 'a \<Rightarrow> ('a \<Rightarrow> 's mexec) \<Rightarrow> 's mexec" where
  "m_try r f ms = (case r of Inl e \<Rightarrow> (Inl e, ms) | Inr x \<Rightarrow> f x ms)"

definition m_then :: "'s mexec \<Rightarrow> 's mexec \<Rightarrow> 's mexec" where
  "m_then f g ms = (case f ms of (Inl e, ms') \<Rightarrow> (Inl e, ms') | (Inr u, ms') \<Rightarrow> g ms')"

definition m_say :: "string \<Rightarrow> 's mstate \<Rightarrow> 's mstate" where
  "m_say text ms = ((fst ms)\<lparr>m_out := m_out (fst ms) @ text\<rparr>, snd ms)"

definition m_push :: "Action \<Rightarrow> 's mexec" where
  "m_push a ms = (Inr (), ((fst ms)\<lparr>m_stack := a # m_stack (fst ms)\<rparr>, snd ms))"

text \<open>
  \<^verbatim>\<open>println\<close>: the top of the stack must be a constant whose entry is a String entry
  with a Utf8 entry behind it; its text is printed and the constant is popped.
\<close>

definition text_of :: "ConstantPool \<Rightarrow> ConstantPoolEntry \<Rightarrow> error + string" where
  "text_of pool e = ebind (String_of e) (utf8_at pool)"

definition m_println :: "ConstantPool \<Rightarrow> 's mexec" where
  "m_println pool ms =
     (case m_stack (fst ms) of
        [] \<Rightarrow> (Inl (Undefined EmptyStack), ms)
      | ConstantAction i e # rest \<Rightarrow>
          m_try (text_of pool e)
            (\<lambda>text ms. (Inr (), (\<lparr>m_stack = rest, m_out = m_out (fst ms) @ text @ endl\<rparr>, snd ms))) ms
      | StaticAction i c n # rest \<Rightarrow> (Inl (Undefined BadDowncast), ms)
      | ValueAction i v # rest \<Rightarrow> (Inl (Undefined BadDowncast), ms))"

section \<open>The instructions and a method\<close>

primrec exec_instr :: "ConstantPool \<Rightarrow> (string \<Rightarrow> 's mexec) \<Rightarrow> instr \<Rightarrow> 's mexec" where
  "exec_instr pool calls (Getstatic idx) =
     m_try (class_name_of pool idx) (\<lambda>class_name.
     m_try (member_name_of pool idx) (\<lambda>name.
     m_push (StaticAction STATIC class_name name)))"
| "exec_instr pool calls (Ldc idx) =
     m_try (entry_at pool (uint idx - 1)) (\<lambda>entry. m_push (ConstantAction CONSTANT entry))"
| "exec_instr pool calls (Invokevirtual idx) =
     m_try (class_name_of pool idx) (\<lambda>class_name.
       if class_name = ''java/io/PrintStream''
       then m_try (member_name_of pool idx) (\<lambda>name.
              if name = ''println'' then m_println pool else m_ok)
       else m_ok)"
| "exec_instr pool calls (Invokestatic idx) =
     m_try (invoke_report pool idx) (\<lambda>report.
     m_try (member_name_of pool idx) (\<lambda>name ms.
       calls name (m_say (''Invoke static!'' @ endl @ report) ms)))"
| "exec_instr pool calls (Sipush sh1 sh2) = (\<lambda>ms.
     m_push (ValueAction CONSTANT (256 * uint sh1 + uint sh2))
       (m_say (''Number is: '' @ show_int (256 * uint sh1 + uint sh2) @ endl) ms))"
| "exec_instr pool calls Iload_1 = (\<lambda>ms.
     m_fail NeedLocals (m_say (''Iload 1!'' @ endl @ ''Need a local variable array!'' @ endl) ms))"
| "exec_instr pool calls Return = (\<lambda>ms. m_ok (m_say (''Return!'' @ endl) ms))"
| "exec_instr pool calls (Unknown op) = (\<lambda>ms.
     m_fail (UnknownInstruction op)
       (m_say (''Unknown instruction: 0x'' @ show_hex (unat op) @ endl) ms))"

primrec exec_prog :: "ConstantPool \<Rightarrow> (string \<Rightarrow> 's mexec) \<Rightarrow> instr list \<Rightarrow> 's mexec" where
  "exec_prog pool calls [] = m_ok"
| "exec_prog pool calls (i # is) = m_then (exec_instr pool calls i) (exec_prog pool calls is)"

section \<open>A checker for methods without calls\<close>

text \<open>
  What the interpreter never checks, checked before the run: every index names an
  entry of the kind the instruction reads, and \<^verbatim>\<open>println\<close> finds a string constant on
  top of the stack. The checker follows the stack as a list of kinds. It refuses
  INVOKESTATIC, whose effect on the stack is that of another method.
\<close>

datatype kind = Receiver | Text | Other | Number

primrec kind_of :: "ConstantPool \<Rightarrow> Action \<Rightarrow> kind" where
  "kind_of pool (StaticAction i c n) = Receiver"
| "kind_of pool (ConstantAction i e) = (if is_ok (text_of pool e) then Text else Other)"
| "kind_of pool (ValueAction i v) = Number"

definition kinds :: "ConstantPool \<Rightarrow> machine \<Rightarrow> kind list" where
  "kinds pool m = map (kind_of pool) (m_stack m)"

primrec check_instr :: "ConstantPool \<Rightarrow> instr \<Rightarrow> kind list \<Rightarrow> kind list option" where
  "check_instr pool (Getstatic idx) ks =
     (if is_ok (class_name_of pool idx) \<and> is_ok (member_name_of pool idx)
      then Some (Receiver # ks) else None)"
| "check_instr pool (Ldc idx) ks =
     (case entry_at pool (uint idx - 1) of
        Inl e \<Rightarrow> None
      | Inr entry \<Rightarrow> Some (kind_of pool (ConstantAction CONSTANT entry) # ks))"
| "check_instr pool (Invokevirtual idx) ks =
     (case class_name_of pool idx of
        Inl e \<Rightarrow> None
      | Inr class_name \<Rightarrow>
          if class_name = ''java/io/PrintStream''
          then (case member_name_of pool idx of
                  Inl e \<Rightarrow> None
                | Inr name \<Rightarrow>
                    if name = ''println''
                    then (case ks of Text # ks' \<Rightarrow> Some ks' | _ \<Rightarrow> None)
                    else Some ks)
          else Some ks)"
| "check_instr pool (Invokestatic idx) ks = None"
| "check_instr pool (Sipush sh1 sh2) ks = Some (Number # ks)"
| "check_instr pool Iload_1 ks = Some ks"
| "check_instr pool Return ks = Some ks"
| "check_instr pool (Unknown op) ks = Some ks"

primrec check_prog :: "ConstantPool \<Rightarrow> instr list \<Rightarrow> kind list \<Rightarrow> bool" where
  "check_prog pool [] ks = True"
| "check_prog pool (i # is) ks =
     (case check_instr pool i ks of
        None \<Rightarrow> False
      | Some ks' \<Rightarrow> check_prog pool is ks')"

text \<open>A result that is one of the executions without a meaning.\<close>

definition is_fault :: "error + 'a \<Rightarrow> bool" where
  "is_fault r = (case r of Inl (Undefined f) \<Rightarrow> True | _ \<Rightarrow> False)"

section \<open>Rules for the primitives\<close>

lemma size_of_pos [simp]: "0 < size_of i"
  by (cases i) simp_all

lemma m_try_simps [simp]:
  "m_try (Inl e) f ms = (Inl e, ms)" "m_try (Inr x) f ms = f x ms"
  by (simp_all add: m_try_def)

lemma m_then_simps:
  "f ms = (Inl e, ms') \<Longrightarrow> m_then f g ms = (Inl e, ms')"
  "f ms = (Inr u, ms') \<Longrightarrow> m_then f g ms = g ms'"
  by (simp_all add: m_then_def)

lemma is_fault_simps [simp]:
  "is_fault (Inl (Undefined f))" "\<not> is_fault (Inr x)" "\<not> is_fault (Inl NeedLocals)"
  "\<not> is_fault (Inl (UnknownInstruction op))" "\<not> is_fault (Inl StackExhausted)"
  "\<not> is_fault (Inl (NullMethod n))" "\<not> is_fault (Inl (UnknownTag t))"
  "\<not> is_fault (Inl BadArrayNewLength)"
  by (simp_all add: is_fault_def)

lemma is_fault_iff: "is_fault r \<longleftrightarrow> (\<exists>f. r = Inl (Undefined f))"
  by (auto simp: is_fault_def split: sum.splits error.splits)

lemma only_faults_iff: "only_faults r \<longleftrightarrow> is_fault r \<or> is_ok r"
  by (auto simp: only_faults_def is_fault_def is_ok_def split: sum.splits error.splits)

lemmas m_defs = m_ok_def m_fail_def m_say_def m_push_def m_println_def

section \<open>Instructions without calls leave the rest of the state alone\<close>

lemma exec_instr_call_free:
  assumes "call_free i"
  shows "exec_instr pool calls i (m, s) = exec_instr pool calls' i (m, s)"
  using assms by (cases i) simp_all

lemma exec_instr_frame:
  assumes "call_free i" and "exec_instr pool calls i (m, s) = (r, (m', s'))"
  shows "s' = s"
  using assms
  by (cases i)
    (auto simp: m_defs m_try_def split: sum.splits list.splits Action.splits if_splits)

section \<open>Checked methods stay defined\<close>

lemma kind_of_Text:
  "kind_of pool a = Text \<longleftrightarrow> (\<exists>i e text. a = ConstantAction i e \<and> text_of pool e = Inr text)"
  by (cases a) (auto simp: is_ok_iff)

lemma m_println_Text:
  assumes "kinds pool m = Text # ks"
  obtains a rest str where "m_stack m = a # rest" and "kinds pool (m\<lparr>m_stack := rest\<rparr>) = ks"
    and "m_println pool (m, s) = (Inr (), (\<lparr>m_stack = rest, m_out = m_out m @ str @ endl\<rparr>, s))"
  using assms by (auto simp: kinds_def kind_of_Text m_println_def)

lemma check_println_sound:
  assumes "check_instr pool (Invokevirtual idx) (kinds pool m) = Some ks"
    and "exec_instr pool calls (Invokevirtual idx) (m, s) = (r, (m', s'))"
  shows "r = Inr () \<and> s' = s \<and> kinds pool m' = ks"
proof (cases "class_name_of pool idx = Inr ''java/io/PrintStream'' \<and>
              member_name_of pool idx = Inr ''println''")
  case True
  with assms(1) have "kinds pool m = Text # ks"
    by (auto split: list.splits kind.splits)
  then obtain a rest str where "kinds pool (m\<lparr>m_stack := rest\<rparr>) = ks"
    and "m_println pool (m, s) = (Inr (), (\<lparr>m_stack = rest, m_out = m_out m @ str @ endl\<rparr>, s))"
    by (rule m_println_Text)
  with True assms(2) show ?thesis
    by (auto simp: kinds_def)
next
  case False
  with assms show ?thesis
    by (auto simp: m_ok_def split: sum.splits if_splits)
qed

lemma check_instr_sound:
  assumes "check_instr pool i (kinds pool m) = Some ks"
    and "exec_instr pool calls i (m, s) = (r, (m', s'))"
  shows "\<not> is_fault r \<and> s' = s \<and> (if halts i then r \<noteq> Inr () else r = Inr () \<and> kinds pool m' = ks)"
proof (cases i)
  case (Getstatic idx)
  with assms show ?thesis
    by (auto simp: m_push_def kinds_def is_ok_iff split: if_splits)
next
  case (Ldc idx)
  with assms show ?thesis
    by (auto simp: m_push_def kinds_def split: sum.splits)
next
  case (Invokevirtual idx)
  from assms have "r = Inr () \<and> s' = s \<and> kinds pool m' = ks"
    unfolding Invokevirtual by (rule check_println_sound)
  with Invokevirtual show ?thesis
    by simp
qed (use assms in \<open>auto simp: m_defs kinds_def\<close>)

lemma check_prog_sound:
  assumes "check_prog pool prog (kinds pool m)"
    and "exec_prog pool calls prog (m, s) = (r, (m', s'))"
  shows "\<not> is_fault r \<and> s' = s \<and> (r = Inr () \<longleftrightarrow> \<not> list_ex halts prog)"
  using assms
proof (induction prog arbitrary: m)
  case Nil
  then show ?case by (auto simp: m_ok_def)
next
  case (Cons i prog)
  from Cons.prems(1) obtain ks where ks: "check_instr pool i (kinds pool m) = Some ks"
    and rest: "check_prog pool prog ks"
    by (auto split: option.splits)
  obtain r1 m1 s1 where step: "exec_instr pool calls i (m, s) = (r1, (m1, s1))"
    by (cases "exec_instr pool calls i (m, s)") auto
  note sound = check_instr_sound [OF ks step]
  show ?case
  proof (cases "halts i")
    case True
    with sound step Cons.prems(2) show ?thesis
      by (cases r1) (auto simp: m_then_def)
  next
    case False
    with sound have r1: "r1 = Inr ()" and m1: "kinds pool m1 = ks" and s1: "s1 = s"
      by simp_all
    from rest m1 have "check_prog pool prog (kinds pool m1)"
      by simp
    moreover from step r1 s1 Cons.prems(2)
    have "exec_prog pool calls prog (m1, s) = (r, (m', s'))"
      by (simp add: m_then_def)
    ultimately have "\<not> is_fault r \<and> s' = s \<and> (r = Inr () \<longleftrightarrow> \<not> list_ex halts prog)"
      by (rule Cons.IH)
    with False show ?thesis
      by simp
  qed
qed

lemma check_prog_call_free: "check_prog pool prog ks \<Longrightarrow> list_all call_free prog"
proof (induction prog arbitrary: ks)
  case (Cons i prog)
  then show ?case
    by (cases i) (auto split: option.splits)
qed simp

section \<open>Methods without calls need no further frame\<close>

lemma only_faults_names [fault_intros]:
  "only_faults (class_name_of pool idx)" "only_faults (member_name_of pool idx)"
  "only_faults (text_of pool e)"
  unfolding class_name_of_def member_name_of_def text_of_def by (intro fault_intros)+

lemma m_try_result:
  assumes "only_faults r" and "m_try r f ms = (Inl e, ms')"
  shows "(\<exists>fl. e = Undefined fl) \<or> (\<exists>x. r = Inr x \<and> f x ms = (Inl e, ms'))"
  using assms by (cases r) (auto simp: only_faults_Inl)

lemma exec_instr_error:
  assumes "call_free i" and "exec_instr pool calls i ms = (Inl e, ms')"
  shows "(\<exists>fl. e = Undefined fl) \<or> e = NeedLocals \<or> (\<exists>op. e = UnknownInstruction op)"
proof (cases i)
  case (Getstatic idx)
  with assms(2) show ?thesis
    by (auto simp: m_push_def dest!: m_try_result [rotated] intro: fault_intros)
next
  case (Ldc idx)
  with assms(2) show ?thesis
    by (auto simp: m_push_def dest!: m_try_result [rotated] intro: fault_intros)
next
  case (Invokevirtual idx)
  with assms(2) show ?thesis
    by (auto simp: m_ok_def m_println_def only_faults_names dest!: m_try_result [rotated]
        split: if_splits list.splits Action.splits)
qed (use assms in \<open>auto simp: m_defs\<close>)

lemma exec_prog_error:
  assumes "list_all call_free prog" and "exec_prog pool calls prog ms = (Inl e, ms')"
  shows "(\<exists>fl. e = Undefined fl) \<or> e = NeedLocals \<or> (\<exists>op. e = UnknownInstruction op)"
  using assms
proof (induction prog arbitrary: ms)
  case Nil
  then show ?case by (simp add: m_ok_def)
next
  case (Cons i prog)
  obtain r1 ms1 where step: "exec_instr pool calls i ms = (r1, ms1)"
    by (cases "exec_instr pool calls i ms") auto
  show ?case
  proof (cases r1)
    case (Inl e1)
    with step Cons.prems show ?thesis
      by (auto simp: m_then_def dest: exec_instr_error)
  next
    case (Inr u)
    with step Cons.prems have "exec_prog pool calls prog ms1 = (Inl e, ms')"
      by (simp add: m_then_def)
    with Cons.prems(1) show ?thesis
      by (intro Cons.IH) simp_all
  qed
qed

lemma exec_prog_call_free:
  assumes "list_all call_free prog"
  shows "exec_prog pool calls prog ms = exec_prog pool calls' prog ms"
  using assms
  by (induction prog arbitrary: ms)
    (auto simp: m_then_def exec_instr_call_free [of _ _ calls _ _ calls']
      split: prod.splits sum.splits)

lemma exec_prog_result:
  assumes "list_all call_free prog"
  shows "fst (exec_prog pool calls prog ms) \<in>
           {Inr (), Inl NeedLocals} \<union> range (\<lambda>op. Inl (UnknownInstruction op)) \<union>
           range (\<lambda>f. Inl (Undefined f))"
proof -
  obtain r ms' where x: "exec_prog pool calls prog ms = (r, ms')"
    by (cases "exec_prog pool calls prog ms") auto
  show ?thesis
  proof (cases r)
    case (Inl e)
    with x exec_prog_error [OF assms, of pool calls ms e ms'] show ?thesis
      by auto
  next
    case (Inr u)
    with x show ?thesis by simp
  qed
qed

lemma check_prog_defined:
  assumes "check_prog pool prog (kinds pool (fst ms))"
  shows "\<not> is_fault (fst (exec_prog pool calls prog ms))"
proof -
  obtain m s r m' s' where "ms = (m, s)" and "exec_prog pool calls prog (m, s) = (r, (m', s'))"
    by (cases ms; cases "exec_prog pool calls prog ms") auto
  with assms check_prog_sound [of pool prog m calls s r m' s'] show ?thesis
    by simp
qed

end
