(* ===== verification/Step_Refinement.thy ===== *)
theory Step_Refinement
  imports Machine
begin

text \<open>
  One step of the interpreter implements one instruction of the machine of theory
  \<open>Machine\<close>: the bytes at the cursor are decoded to an instruction, the executor is
  read as a state of the machine, and what \<^verbatim>\<open>step\<close> does with these bytes is what the
  machine does with that instruction.
\<close>

section \<open>Decoding\<close>

text \<open>
  The instruction that starts at byte \<open>c\<close> of the code, with two-byte operands read
  with the first byte as the more significant one; \<open>None\<close> when the opcode or an
  operand byte lies outside the buffer of the attribute.
\<close>

definition wide :: "byte list \<Rightarrow> nat \<Rightarrow> u16 option" where
  "wide code c =
     (if c + 2 < length code then Some (be_word [code ! (c + 1), code ! (c + 2)]) else None)"

definition fetch :: "byte list \<Rightarrow> nat \<Rightarrow> instr option" where
  "fetch code c =
     (if length code \<le> c then None
      else if code ! c = opcode_of GETSTATIC then map_option Getstatic (wide code c)
      else if code ! c = opcode_of LDC then
        (if c + 1 < length code then Some (Ldc (code ! (c + 1))) else None)
      else if code ! c = opcode_of INVOKEVIRTUAL then map_option Invokevirtual (wide code c)
      else if code ! c = opcode_of INVOKESTATIC then map_option Invokestatic (wide code c)
      else if code ! c = opcode_of SIPUSH then
        (if c + 2 < length code then Some (Sipush (code ! (c + 1)) (code ! (c + 2))) else None)
      else if code ! c = opcode_of ILOAD_1 then Some Iload_1
      else if code ! c = opcode_of RETURN then Some Return
      else Some (Unknown (code ! c)))"

text \<open>
  The instructions that the loop of \<^verbatim>\<open>run\<close> meets from cursor \<open>c\<close> on, for code
  length \<open>n\<close>: decoding stops where the cursor has reached \<open>n\<close>, and behind an
  instruction that ends the program.
\<close>

function decode :: "nat \<Rightarrow> byte list \<Rightarrow> nat \<Rightarrow> instr list option" where
  "decode n code c =
     (if c < n then
        (case fetch code c of
           None \<Rightarrow> None
         | Some i \<Rightarrow>
             if halts i then Some [i]
             else map_option ((#) i) (decode n code (c + size_of i)))
      else Some [])"
  by pat_completeness auto
termination
  by (relation "measure (\<lambda>(n, code, c). n - c)") (auto intro!: diff_less_mono2)

declare decode.simps [simp del]

definition prog_size :: "instr list \<Rightarrow> nat" where
  "prog_size prog = sum_list (map size_of prog)"

section \<open>The executor as a state of the machine\<close>

definition to_machine :: "JavaExecutor \<Rightarrow> JavaClassFile mstate" where
  "to_machine ex = (\<lparr>m_stack = action_stack ex, m_out = cout ex\<rparr>, klass ex)"

definition of_machine :: "JavaClassFile mstate \<Rightarrow> JavaExecutor" where
  "of_machine ms = \<lparr>klass = snd ms, action_stack = m_stack (fst ms), cout = m_out (fst ms)\<rparr>"

definition lift_exec :: "unit exec \<Rightarrow> JavaClassFile mexec" where
  "lift_exec m ms = (case m (of_machine ms) of (r, ex') \<Rightarrow> (r, to_machine ex'))"

text \<open>
  The result of the machine as a result of \<^verbatim>\<open>step\<close> or of the loop, which return the
  cursor.
\<close>

definition as_step :: "nat \<Rightarrow> (error + unit) \<times> JavaClassFile mstate \<Rightarrow> (error + nat) \<times> JavaExecutor" where
  "as_step c x = (case fst x of Inl e \<Rightarrow> Inl e | Inr u \<Rightarrow> Inr c, of_machine (snd x))"

text \<open>
  What is compared: the result, and the state unless the result is one of the
  executions without a meaning.
\<close>

definition observe :: "(error + 'a) \<times> 'st \<Rightarrow> (error + 'a) \<times> 'st option" where
  "observe x = (fst x, if is_fault (fst x) then None else Some (snd x))"

definition code_of :: "attr_ref \<Rightarrow> JavaExecutor \<Rightarrow> error + byte list" where
  "code_of cp ex = ebind (attr_at (klass ex) cp) (\<lambda>a. Inr (drop 8 (info a)))"

section \<open>Conversions\<close>

lemma of_to_machine [simp]: "of_machine (to_machine ex) = ex"
  by (simp add: of_machine_def to_machine_def)

lemma to_of_machine [simp]: "to_machine (of_machine ms) = ms"
  by (cases ms) (simp add: of_machine_def to_machine_def)

lemma of_machine_simps [simp]:
  "klass (of_machine ms) = snd ms" "action_stack (of_machine ms) = m_stack (fst ms)"
  "cout (of_machine ms) = m_out (fst ms)"
  by (simp_all add: of_machine_def)

lemma to_machine_simps [simp]:
  "snd (to_machine ex) = klass ex" "m_stack (fst (to_machine ex)) = action_stack ex"
  "m_out (fst (to_machine ex)) = cout ex"
  by (simp_all add: to_machine_def)

lemma of_machine_say [simp]:
  "of_machine (m_say s (to_machine ex)) = ex\<lparr>cout := cout ex @ s\<rparr>"
  by (simp add: of_machine_def to_machine_def m_say_def)

lemma of_machine_push:
  "of_machine ((fst (to_machine ex))\<lparr>m_stack := a # action_stack ex\<rparr>, klass ex) =
     ex\<lparr>action_stack := a # action_stack ex\<rparr>"
  by (simp add: of_machine_def to_machine_def)

lemma observe_eq [simp]: "\<not> is_fault (fst x) \<Longrightarrow> observe x = observe y \<longleftrightarrow> x = y"
  by (cases x; cases y) (auto simp: observe_def split: if_splits)

lemma observe_eq' [simp]: "\<not> is_fault (fst y) \<Longrightarrow> observe x = observe y \<longleftrightarrow> x = y"
  by (cases x; cases y) (auto simp: observe_def split: if_splits)

lemma observe_fault: "is_fault r \<Longrightarrow> observe (r, s) = observe (r, s')"
  by (simp add: observe_def)

section \<open>Reading the code\<close>

lemma code_byte_code:
  assumes "code_of cp ex = Inr code"
  shows "code_byte cp c ex = (subscript code c, ex)"
proof -
  from assms obtain a where "attr_at (klass ex) cp = Inr a" and "code = drop 8 (info a)"
    by (auto simp: code_of_def res_simps)
  then show ?thesis
    by (auto simp: code_byte_def subscript_def xread_def add.commute)
qed

lemma operand_wide:
  assumes "code_of cp ex = Inr code"
  shows "operand cp c ex = wide code c"
  using assms
  by (simp add: operand_def wide_def code_byte_code subscript_def)

section \<open>One step\<close>

lemma fetch_opcode:
  assumes "fetch code c = Some i"
  shows "c < length code"
    and "i = Getstatic idx \<Longrightarrow> code ! c = opcode_of GETSTATIC \<and> wide code c = Some idx"
    and "i = Ldc b \<Longrightarrow> code ! c = opcode_of LDC \<and> c + 1 < length code \<and> b = code ! (c + 1)"
    and "i = Invokevirtual idx \<Longrightarrow> code ! c = opcode_of INVOKEVIRTUAL \<and> wide code c = Some idx"
    and "i = Invokestatic idx \<Longrightarrow> code ! c = opcode_of INVOKESTATIC \<and> wide code c = Some idx"
    and "i = Sipush sh1 sh2 \<Longrightarrow> code ! c = opcode_of SIPUSH \<and> c + 2 < length code \<and>
           sh1 = code ! (c + 1) \<and> sh2 = code ! (c + 2)"
    and "i = Iload_1 \<Longrightarrow> code ! c = opcode_of ILOAD_1"
    and "i = Return \<Longrightarrow> code ! c = opcode_of RETURN"
    and "i = Unknown op \<Longrightarrow> code ! c = op \<and> op \<notin> range opcode_of"
  using assms by (auto simp: fetch_def range_opcode_of split: if_splits)

lemma step_fetched:
  assumes "code_of cp ex = Inr code" and "fetch code c = Some i"
  shows "step call cp c ex = xbind (dispatch call cp c (code ! c)) (\<lambda>c'. xreturn (c' + 1)) ex"
  using assms fetch_opcode(1) [OF assms(2)]
  by (intro opcode_step) (simp add: code_byte_code subscript_def)

lemma step_Getstatic:
  assumes "code_of cp ex = Inr code" and "const_pool (klass ex) = Some pool"
    and "fetch code c = Some (Getstatic idx)"
  shows "step call cp c ex =
           as_step (c + size_of (Getstatic idx)) (exec_instr pool calls (Getstatic idx) (to_machine ex))"
proof -
  from fetch_opcode(2) [OF assms(3) refl] assms(1) have "operand cp c ex = Some idx"
    and op: "code ! c = opcode_of GETSTATIC"
    by (simp_all add: operand_wide)
  then obtain w where "code_u16 cp (Suc c) ex = (Inr w, ex)" and "swapEndianness w = idx"
    by (elim operand_u16)
  with assms op show ?thesis
    by (cases "resolve pool idx")
      (simp_all add: step_fetched dispatch_def do_GETSTATIC_def xbind_assoc names_resolved
        class_name_of_def member_name_of_def as_step_def m_push_def of_machine_def m_try_def
        numeral_3_eq_3 split: sum.splits)
qed

lemma step_Ldc:
  assumes "code_of cp ex = Inr code" and "const_pool (klass ex) = Some pool"
    and "fetch code c = Some (Ldc idx)"
  shows "step call cp c ex = as_step (c + size_of (Ldc idx)) (exec_instr pool calls (Ldc idx) (to_machine ex))"
  using assms fetch_opcode(3) [OF assms(3) refl]
  by (simp add: step_fetched dispatch_def do_LDC_def xbind_assoc code_byte_code subscript_def
      pool_of_def deref_def as_step_def m_push_def of_machine_def m_try_def split: sum.splits)

lemma println_machine:
  assumes "const_pool (klass ex) = Some pool"
  shows "xbind println f ex =
           (case m_println pool (to_machine ex) of
              (Inl e, ms) \<Rightarrow> (Inl e, ex)
            | (Inr u, ms) \<Rightarrow> f () (of_machine ms))"
  using assms
  by (cases ex)
    (auto simp: println_def m_println_def xbind_def top_def pop_def xread_def xprint_def
      xreturn_def xfail_def pool_of_def deref_def text_of_def m_try_def of_machine_def
      to_machine_def split: list.splits Action.splits sum.splits)

lemma m_println_fail: "m_println pool ms = (Inl e, ms') \<Longrightarrow> ms' = ms"
  by (auto simp: m_println_def m_try_def split: list.splits Action.splits sum.splits)

lemma step_Invokevirtual:
  assumes "code_of cp ex = Inr code" and "const_pool (klass ex) = Some pool"
    and "fetch code c = Some (Invokevirtual idx)"
  shows "step call cp c ex =
           as_step (c + size_of (Invokevirtual idx))
             (exec_instr pool calls (Invokevirtual idx) (to_machine ex))"
proof -
  from fetch_opcode(4) [OF assms(3) refl] assms(1) have "operand cp c ex = Some idx"
    and op: "code ! c = opcode_of INVOKEVIRTUAL"
    by (simp_all add: operand_wide)
  then obtain w where "code_u16 cp (Suc c) ex = (Inr w, ex)" and "swapEndianness w = idx"
    by (elim operand_u16)
  with assms op show ?thesis
    by (cases "resolve pool idx")
      (auto simp: step_fetched dispatch_def do_INVOKEVIRTUAL_def xbind_assoc names_resolved
        class_name_of_def member_name_of_def as_step_def m_ok_def m_try_def println_machine
        numeral_3_eq_3 split: sum.splits prod.splits dest: m_println_fail)
qed

lemma step_Sipush:
  assumes "code_of cp ex = Inr code" and "fetch code c = Some (Sipush sh1 sh2)"
  shows "step call cp c ex =
           as_step (c + size_of (Sipush sh1 sh2))
             (exec_instr pool calls (Sipush sh1 sh2) (to_machine ex))"
  using assms fetch_opcode(6) [OF assms(2) refl]
  by (simp add: step_fetched dispatch_def do_SIPUSH_def xbind_assoc code_byte_code
      subscript_def sipush_value_eq as_step_def m_push_def m_say_def of_machine_def
      to_machine_def numeral_3_eq_3 xbind_def xprint_def push_def xreturn_def)

lemma step_halts:
  assumes "code_of cp ex = Inr code" and "fetch code c = Some i" and "halts i"
  shows "step call cp c ex = as_step (c + size_of i) (exec_instr pool calls i (to_machine ex))"
  using assms fetch_opcode(7,9) [OF assms(2)]
  by (cases i)
    (auto simp: step_fetched dispatch_def do_ILOAD_1_def do_unknown_def as_step_def m_fail_def
      m_say_def of_machine_def to_machine_def xbind_def xprint_def xfail_def range_opcode_of)

lemma step_Return:
  assumes "code_of cp ex = Inr code" and "fetch code c = Some Return"
  shows "step call cp c ex = as_step (c + size_of Return) (exec_instr pool calls Return (to_machine ex))"
  using assms fetch_opcode(8) [OF assms(2) refl]
  by (simp add: step_fetched dispatch_def do_RETURN_def as_step_def m_ok_def m_say_def
      of_machine_def to_machine_def xbind_def xprint_def xreturn_def)

lemma step_call_free:
  assumes "code_of cp ex = Inr code" and "const_pool (klass ex) = Some pool"
    and "fetch code c = Some i" and "call_free i"
  shows "step call cp c ex = as_step (c + size_of i) (exec_instr pool calls i (to_machine ex))"
proof (cases i)
  case (Getstatic idx)
  from assms(1-3) show ?thesis unfolding Getstatic by (rule step_Getstatic)
next
  case (Ldc idx)
  from assms(1-3) show ?thesis unfolding Ldc by (rule step_Ldc)
next
  case (Invokevirtual idx)
  from assms(1-3) show ?thesis unfolding Invokevirtual by (rule step_Invokevirtual)
next
  case (Invokestatic idx)
  with assms(4) show ?thesis by simp
next
  case (Sipush sh1 sh2)
  from assms(1,3) show ?thesis unfolding Sipush by (rule step_Sipush)
next
  case Iload_1
  with assms(1,3) show ?thesis by (intro step_halts) simp_all
next
  case Return
  from assms(1,3) show ?thesis unfolding Return by (rule step_Return)
next
  case (Unknown op)
  with assms(1,3) show ?thesis by (intro step_halts) simp_all
qed

section \<open>A step that calls\<close>

lemma fault_Inl: "only_faults (Inl e :: error + 'a) \<Longrightarrow> is_fault (Inl e :: error + 'b)"
  by (auto simp: only_faults_Inl)

lemma lookup_faults:
  "ConstantPoolEntry_show e = Inl err \<Longrightarrow> is_fault (Inl err :: error + 'b)"
  "resolve pool idx = Inl err \<Longrightarrow> is_fault (Inl err :: error + 'b)"
  "Utf8_of e = Inl err \<Longrightarrow> is_fault (Inl err :: error + 'b)"
  using only_faults_show [of e] only_faults_resolve [of pool idx] only_faults_accessors(5) [of e]
  by (auto intro: fault_Inl)

lemma xbind_print_entry_cases:
  "xbind (print_entry label e) f ex =
     (case ConstantPoolEntry_show e of
        Inl err \<Rightarrow> (Inl err, ex)
      | Inr s \<Rightarrow> f () (ex\<lparr>cout := cout ex @ label @ s @ endl\<rparr>))"
  by (simp add: print_entry_def xbind_def xread_def xprint_def split: sum.splits)

lemma m_try_ebind: "m_try (ebind r h) k = m_try r (\<lambda>x. m_try (h x) k)"
  by (rule ext) (cases r; simp)

lemma xbind_xread_const:
  "xbind (xread (\<lambda>_. r)) f ex = (case r of Inl e \<Rightarrow> (Inl e, ex) | Inr x \<Rightarrow> f x ex)"
  by (simp add: xbind_def xread_def split: sum.splits)

lemma observe_try:
  assumes "only_faults r"
    and "\<And>x. r = Inr x \<Longrightarrow> observe (F x) = observe (as_step c (G x ms))"
  shows "observe (case r of Inl e \<Rightarrow> (Inl e, st) | Inr x \<Rightarrow> F x) =
         observe (as_step c (m_try r G ms))"
  using assms by (cases r) (auto simp: only_faults_Inl as_step_def observe_def)

lemma observe_print_entry:
  assumes "\<And>s. ConstantPoolEntry_show e = Inr s \<Longrightarrow>
             observe (f () (ex\<lparr>cout := cout ex @ label @ s @ endl\<rparr>)) = observe (as_step c (G s ms))"
  shows "observe (xbind (print_entry label e) f ex) =
         observe (as_step c (m_try (ConstantPoolEntry_show e) G ms))"
  unfolding xbind_print_entry_cases using assms by (intro observe_try fault_intros)

lemma observe_resolve:
  assumes "const_pool (klass ex) = Some pool"
    and "\<And>r. resolve pool idx = Inr r \<Longrightarrow> observe (f r ex) = observe (as_step c (G r ms))"
  shows "observe (xbind (xresolve idx) f ex) = observe (as_step c (m_try (resolve pool idx) G ms))"
  unfolding names_resolved [OF assms(1)] using assms(2) by (intro observe_try fault_intros)

lemma step_Invokestatic:
  assumes "code_of cp ex = Inr code" and "const_pool (klass ex) = Some pool"
    and "fetch code c = Some (Invokestatic idx)"
  shows "observe (step call cp c ex) =
           observe (as_step (c + size_of (Invokestatic idx))
             (exec_instr pool (\<lambda>n. lift_exec (call n)) (Invokestatic idx) (to_machine ex)))"
proof -
  from fetch_opcode(5) [OF assms(3) refl] assms(1) have "operand cp c ex = Some idx"
    and op: "code ! c = opcode_of INVOKESTATIC"
    by (simp_all add: operand_wide)
  then obtain w where w: "code_u16 cp (Suc c) ex = (Inr w, ex)" "swapEndianness w = idx"
    by (elim operand_u16)
  have "step call cp c ex = xbind (do_INVOKESTATIC call cp c) (\<lambda>c'. xreturn (c' + 1)) ex"
    using assms(1,3) op by (simp add: step_fetched dispatch_def)
  also have "observe \<dots> =
           observe (as_step (c + size_of (Invokestatic idx))
             (exec_instr pool (\<lambda>n. lift_exec (call n)) (Invokestatic idx) (to_machine ex)))"
    using w
    apply (simp add: do_INVOKESTATIC_def xbind_assoc code_u16_cout invoke_report_def
        member_name_of_def m_try_ebind)
    apply (intro observe_resolve observe_print_entry)
    subgoal by (simp add: assms(2))
    subgoal for r s1 s2 s3 s4 s5 s6
      by (cases "Utf8_of (r_name r)"; cases "call (projr (Utf8_of (r_name r)))
            (ex\<lparr>cout := cout ex @ ''Invoke static!'' @ endl @ ''Class: '' @ s1 @ endl @
               ''Class index: '' @ s2 @ endl @ ''Class name: '' @ s3 @ endl @
               ''Name and type: '' @ s4 @ endl @ ''|- Name: '' @ s5 @ endl @
               ''|- Descriptor: '' @ s6 @ endl\<rparr>)")
        (auto simp: xread_def lift_exec_def as_step_def observe_def xbind_def
          xreturn_def dest: lookup_faults split: sum.splits)
    done
  finally show ?thesis .
qed

section \<open>Every step\<close>

lemma step_refines:
  assumes "code_of cp ex = Inr code" and "const_pool (klass ex) = Some pool"
    and "fetch code c = Some i"
  shows "observe (step call cp c ex) =
           observe (as_step (c + size_of i)
             (exec_instr pool (\<lambda>n. lift_exec (call n)) i (to_machine ex)))"
proof (cases "call_free i")
  case True
  with assms have "step call cp c ex =
      as_step (c + size_of i) (exec_instr pool (\<lambda>n. lift_exec (call n)) i (to_machine ex))"
    by (rule step_call_free)
  then show ?thesis
    by simp
next
  case False
  then obtain idx where i: "i = Invokestatic idx"
    by (cases i) simp_all
  from assms show ?thesis
    unfolding i by (rule step_Invokestatic)
qed

lemma code_u16_truncated:
  assumes "code_of cp ex = Inr code" and "wide code c = None" and "klass ex' = klass ex"
  shows "code_u16 cp (Suc c) ex' = (Inl (Undefined BufferOverrun), ex')"
proof -
  from assms(1) obtain a where "attr_at (klass ex) cp = Inr a" and "code = drop 8 (info a)"
    by (auto simp: code_of_def res_simps)
  with assms(2,3) show ?thesis
    by (auto simp: wide_def code_u16_def xread_def split: if_splits)
qed

lemma step_truncated:
  assumes "code_of cp ex = Inr code" and "fetch code c = None"
  shows "fst (step call cp c ex) = Inl (Undefined BufferOverrun)"
proof (cases "c < length code")
  case False
  with assms(1) show ?thesis
    by (simp add: step_def xbind_def code_byte_code subscript_def)
next
  case True
  with assms have op: "code_byte cp c ex = (Inr (code ! c), ex)"
    by (simp add: code_byte_code subscript_def)
  note wide = code_u16_truncated [OF assms(1)]
  from assms(2) True show ?thesis
    by (auto simp: opcode_step [OF op] fetch_def dispatch_def xbind_def do_GETSTATIC_def
        do_LDC_def do_INVOKEVIRTUAL_def do_INVOKESTATIC_def do_SIPUSH_def xprint_def wide
        code_byte_code [OF assms(1)] subscript_def wide_def
        split: if_splits)
qed

end
