(* ===== verification/Class_Changes.thy ===== *)
theory Class_Changes
  imports Instructions
begin

text \<open>
  What a run can change in the class it executes. \<open>evolves ex ex'\<close> relates two states
  of the executor of which the second one has the class of the first one except for
  the first eight bytes of attribute buffers of methods, and an output that extends
  the output of the first one. \<open>tracks m\<close> says that operation \<open>m\<close> only makes such
  changes. It is proved for the primitives of the state monad and carried to \<open>step\<close>,
  the loop and \<open>run\<close> by the collection \<open>tracks_intros\<close>. A second call of
  \<^verbatim>\<open>get_code_attribute\<close> for a method undoes the swap of the first one.
\<close>

section \<open>What a run may change\<close>

definition same_attr :: "AttributeInfo \<Rightarrow> AttributeInfo \<Rightarrow> bool" where
  "same_attr a a' \<longleftrightarrow>
     attribute_name_index a = attribute_name_index a' \<and>
     attribute_length a = attribute_length a' \<and>
     length (info a) = length (info a') \<and> drop 8 (info a) = drop 8 (info a')"

definition same_method :: "MethodEntry \<Rightarrow> MethodEntry \<Rightarrow> bool" where
  "same_method m m' \<longleftrightarrow>
     m' = m\<lparr>MethodEntry.attributes := MethodEntry.attributes m'\<rparr> \<and>
     list_all2 same_attr (MethodEntry.attributes m) (MethodEntry.attributes m')"

definition same_class :: "JavaClassFile \<Rightarrow> JavaClassFile \<Rightarrow> bool" where
  "same_class k k' \<longleftrightarrow>
     k' = k\<lparr>methods := methods k'\<rparr> \<and> list_all2 same_method (methods k) (methods k')"

definition evolves :: "JavaExecutor \<Rightarrow> JavaExecutor \<Rightarrow> bool" where
  "evolves ex ex' \<longleftrightarrow> same_class (klass ex) (klass ex') \<and> prefix (cout ex) (cout ex')"

definition tracks :: "'a exec \<Rightarrow> bool" where
  "tracks m \<longleftrightarrow> (\<forall>ex r ex'. m ex = (r, ex') \<longrightarrow> evolves ex ex')"

section \<open>Changes of the class during a run\<close>

lemma same_attr_refl [simp]: "same_attr a a"
  by (simp add: same_attr_def)

lemma same_attr_trans: "same_attr a b \<Longrightarrow> same_attr b c \<Longrightarrow> same_attr a c"
  by (simp add: same_attr_def)

lemma same_method_refl [simp]: "same_method m m"
  by (simp add: same_method_def list_all2_refl)

lemma same_method_trans: "same_method a b \<Longrightarrow> same_method b c \<Longrightarrow> same_method a c"
  by (cases a; cases b; cases c)
    (auto simp: same_method_def intro: list_all2_trans [OF same_attr_trans])

lemma same_class_refl [simp]: "same_class k k"
  by (simp add: same_class_def list_all2_refl)

lemma same_class_trans: "same_class a b \<Longrightarrow> same_class b c \<Longrightarrow> same_class a c"
  by (cases a; cases b; cases c)
    (auto simp: same_class_def intro: list_all2_trans [OF same_method_trans])

lemma evolves_refl [simp]: "evolves ex ex"
  by (simp add: evolves_def)

lemma evolves_trans [trans]: "evolves a b \<Longrightarrow> evolves b c \<Longrightarrow> evolves a c"
  by (auto simp: evolves_def intro: same_class_trans)

lemma same_class_set_info:
  assumes "attr_at k r = Inr a" and "length buf = length (info a)" and "drop 8 buf = drop 8 (info a)"
  shows "same_class k (set_info k r buf)"
  using assms
  by (auto simp: attr_at_def subscript_def res_simps same_class_def set_info_def same_method_def
      same_attr_def intro!: list_all2_update_right split: if_splits)

named_theorems tracks_intros \<open>operations that change the state as \<open>evolves\<close> allows\<close>

lemma tracksD: "tracks m \<Longrightarrow> m ex = (r, ex') \<Longrightarrow> evolves ex ex'"
  by (auto simp: tracks_def)

lemma tracks_xreturn [tracks_intros]: "tracks (xreturn x)"
  by (simp add: tracks_def)

lemma tracks_xfail [tracks_intros]: "tracks (xfail e)"
  by (simp add: tracks_def)

lemma tracks_xread [tracks_intros]: "tracks (xread f)"
  by (simp add: tracks_def)

lemma tracks_xprint [tracks_intros]: "tracks (xprint s)"
  by (simp add: tracks_def evolves_def)

lemma tracks_push [tracks_intros]: "tracks (push a)"
  by (simp add: tracks_def evolves_def)

lemma tracks_top [tracks_intros]: "tracks top"
  by (simp add: tracks_def)

lemma tracks_pop [tracks_intros]: "tracks pop"
  by (auto simp: tracks_def pop_def evolves_def split: list.splits)

lemma tracks_xbind [tracks_intros]: "tracks m \<Longrightarrow> (\<And>x. tracks (f x)) \<Longrightarrow> tracks (xbind m f)"
  unfolding tracks_def xbind_def
  by (fastforce split: prod.splits sum.splits intro: evolves_trans)

lemma tracks_if [tracks_intros]: "tracks m \<Longrightarrow> tracks n \<Longrightarrow> tracks (if b then m else n)"
  by simp

lemma tracks_code_byte [tracks_intros]: "tracks (code_byte cp c)"
  by (simp add: code_byte_def tracks_intros)

lemma tracks_code_u16 [tracks_intros]: "tracks (code_u16 cp c)"
  by (simp add: code_u16_def tracks_intros)

lemma tracks_read_CodeAttribute [tracks_intros]: "tracks (read_CodeAttribute r)"
  by (simp add: read_CodeAttribute_def tracks_intros)

lemma tracks_xresolve [tracks_intros]: "tracks (xresolve i)"
  by (simp add: xresolve_def tracks_intros)

lemma tracks_find_Code [tracks_intros]: "tracks (find_Code mi)"
  unfolding find_Code_def by (intro tracks_intros) (simp add: tracks_intros split: option.splits)

lemma tracks_get_code [tracks_intros]: "tracks (get_code m)"
  by (simp add: get_code_def tracks_intros split: option.splits)

lemma tracks_JavaExecutor_get_method [tracks_intros]: "tracks (JavaExecutor_get_method n)"
  by (simp add: JavaExecutor_get_method_def tracks_intros)

lemma tracks_print_entry [tracks_intros]: "tracks (print_entry l e)"
  unfolding print_entry_def by (intro tracks_intros)

lemma tracks_println [tracks_intros]: "tracks println"
  unfolding println_def by (intro tracks_intros) (simp add: tracks_intros split: Action.splits)

lemma tracks_do_GETSTATIC [tracks_intros]: "tracks (do_GETSTATIC cp c)"
  unfolding do_GETSTATIC_def by (intro tracks_intros)

lemma tracks_do_LDC [tracks_intros]: "tracks (do_LDC cp c)"
  unfolding do_LDC_def by (intro tracks_intros)

lemma tracks_do_INVOKEVIRTUAL [tracks_intros]: "tracks (do_INVOKEVIRTUAL cp c)"
  unfolding do_INVOKEVIRTUAL_def by (intro tracks_intros)

lemma tracks_do_INVOKESTATIC [tracks_intros]:
  "(\<And>n. tracks (call n)) \<Longrightarrow> tracks (do_INVOKESTATIC call cp c)"
  unfolding do_INVOKESTATIC_def by (intro tracks_intros)

lemma tracks_do_SIPUSH [tracks_intros]: "tracks (do_SIPUSH cp c)"
  unfolding do_SIPUSH_def by (intro tracks_intros)

lemma tracks_do_ILOAD_1 [tracks_intros]: "tracks do_ILOAD_1"
  unfolding do_ILOAD_1_def by (intro tracks_intros)

lemma tracks_do_RETURN [tracks_intros]: "tracks (do_RETURN c)"
  unfolding do_RETURN_def by (intro tracks_intros)

lemma tracks_do_unknown [tracks_intros]: "tracks (do_unknown op)"
  unfolding do_unknown_def by (intro tracks_intros)

lemma tracks_step [tracks_intros]: "(\<And>n. tracks (call n)) \<Longrightarrow> tracks (step call cp c)"
  unfolding step_def dispatch_def by (intro tracks_intros)

lemma tracks_get_code_attribute [tracks_intros]: "tracks (get_code_attribute entry n)"
proof (cases entry)
  case None
  then show ?thesis
    by (simp add: get_code_attribute_def tracks_intros)
next
  case (Some mi)
  have "evolves ex (ex\<lparr>klass := set_info (klass ex) r buf\<rparr>)"
    if "attr_at (klass ex) r = Inr a" and "CodeAttribute_swap (info a) = Inr buf" for ex r a buf
    using that by (auto simp: evolves_def dest: CodeAttribute_swap_length intro!: same_class_set_info)
  with Some show ?thesis
    unfolding tracks_def get_code_attribute_def
    by (auto simp: xbind_def res_simps split: prod.splits sum.splits dest!: find_Code_state)
qed

lemma tracks_exec_loop [tracks_intros]:
  assumes "\<And>n. tracks (call n)"
  shows "tracks (exec_loop call ca code c)"
proof -
  have st: "tracks (step call code c)" for c
    by (intro tracks_step assms)
  have "evolves ex ex'" if "exec_loop call ca code c ex = (r, ex')" for ex r ex'
    using that
  proof (induction rule: exec_loop_outcome)
    case (step h c ex c1 ex1 r ex')
    with st show ?case
      by (auto dest: tracksD intro: evolves_trans)
  qed (use st in \<open>auto dest: tracksD\<close>)
  then show ?thesis
    by (simp add: tracks_def)
qed

lemma tracks_run [tracks_intros]: "tracks (run depth n)"
proof (induction depth arbitrary: n)
  case 0
  show ?case by (simp add: tracks_intros)
next
  case (Suc depth)
  show ?case
    unfolding run.simps by (intro tracks_intros Suc)
qed

text \<open>
  C7. Whatever a run does, and however it ends, it leaves the constant pool, the
  method table, the names and lengths of all attributes and every byte of an attribute
  buffer from the ninth on as they were, and what had been printed before stays printed:
  the only writes into the class are the swaps of the headers of Code attributes.
\<close>

theorem run_evolves: "run depth n ex = (r, ex') \<Longrightarrow> evolves ex ex'"
  by (rule tracksD [OF tracks_run])

theorem run_evolves_witness:
  "evolves (new_JavaExecutor (example_class hello_code)) hello_final"
  by (rule run_evolves [OF run_hello])

section \<open>The first line of a run\<close>

lemma get_code_attribute_cout:
  "get_code_attribute m n ex = (Inr r, ex1) \<Longrightarrow> cout ex1 = cout ex"
  by (auto simp: get_code_attribute_def res_simps split: option.splits dest: find_Code_state)

lemma get_code_state [simp]: "get_code m ex = (r, ex') \<Longrightarrow> ex' = ex"
  by (auto simp: get_code_def split: option.splits dest: find_Code_state)

lemma run_prints_header:
  assumes "run (Suc d) n ex = (Inr u, ex')"
  shows "\<exists>k rest. cout ex' = cout ex @ ''['' @ n @ ''] Length of LVA: '' @ show_nat k @ endl @ rest"
proof -
  from assms obtain m ca ex1 code c and h :: CodeAttribute
    where g: "get_code_attribute m n ex = (Inr ca, ex1)"
    and loop: "exec_loop (run d) ca code 0
           (ex1\<lparr>cout := cout ex1 @ ''['' @ n @ ''] Length of LVA: '' @
              show_nat (unat (max_locals h)) @ endl\<rparr>) = (Inr c, ex')"
    by (auto simp: res_simps JavaExecutor_get_method_def
        dest!: get_code_state read_CodeAttribute_state)
  from tracksD [OF tracks_exec_loop loop] obtain rest
    where "cout ex' = (cout ex1 @ ''['' @ n @ ''] Length of LVA: '' @
              show_nat (unat (max_locals h)) @ endl) @ rest"
    by (auto simp: evolves_def prefix_def tracks_run)
  with get_code_attribute_cout [OF g] show ?thesis
    by auto
qed

section \<open>Calling a method twice\<close>

lemma same_method_count:
  "same_method m m' \<Longrightarrow> MethodEntry.attributes_count m' = MethodEntry.attributes_count m"
  by (cases m; cases m') (simp add: same_method_def)

lemma same_method_subscript:
  assumes "same_method m m'"
  shows "ebind (subscript (MethodEntry.attributes m') i) (\<lambda>a. f (attribute_name_index a)) =
         ebind (subscript (MethodEntry.attributes m) i) (\<lambda>a. f (attribute_name_index a))"
proof -
  from assms have all: "list_all2 same_attr (MethodEntry.attributes m) (MethodEntry.attributes m')"
    by (simp add: same_method_def)
  then show ?thesis
    by (auto simp: subscript_def same_attr_def dest: list_all2_lengthD list_all2_nthD)
qed

lemma get_attribute_from_same_method:
  assumes "same_method m m'"
  shows "get_attribute_from m' pool name i = get_attribute_from m pool name i"
proof (induction "unat (MethodEntry.attributes_count m) - i" arbitrary: i)
  case 0
  with same_method_count [OF assms] show ?case
    by (simp add: get_attribute_from.simps [of _ _ _ i])
next
  case (Suc k)
  define f where "f m idx = ebind (deref pool) (\<lambda>p. ebind (utf8_at p idx) (\<lambda>aname.
    if aname = name then Inr (Some i) else get_attribute_from m pool name (Suc i)))" for m idx
  have "get_attribute_from m' pool name (Suc i) = get_attribute_from m pool name (Suc i)"
    using Suc.hyps(2) by (intro Suc.hyps(1)) simp
  then have "f m' = f m"
    unfolding f_def by (simp only:)
  moreover have "get_attribute_from m pool name i =
      (if i < unat (MethodEntry.attributes_count m)
       then ebind (subscript (MethodEntry.attributes m) i) (\<lambda>a. f m (attribute_name_index a))
       else Inr None)" for m
    by (subst get_attribute_from.simps) (simp add: f_def)
  ultimately show ?case
    by (simp add: same_method_count [OF assms] same_method_subscript [OF assms])
qed

lemma find_Code_same_class:
  assumes "same_class (klass ex) (klass ex')"
  shows "fst (find_Code mi ex') = fst (find_Code mi ex)"
proof -
  from assms have pool: "const_pool (klass ex') = const_pool (klass ex)"
    and all: "list_all2 same_method (methods (klass ex)) (methods (klass ex'))"
    by (cases "klass ex"; cases "klass ex'"; simp add: same_class_def)+
  have "ebind (subscript (methods (klass ex')) mi) (\<lambda>m. get_attribute m pool ''Code'') =
        ebind (subscript (methods (klass ex)) mi) (\<lambda>m. get_attribute m pool ''Code'')" for pool
    using all
    by (auto simp: subscript_def get_attribute_def get_attribute_from_same_method
        dest: list_all2_lengthD list_all2_nthD)
  then show ?thesis
    by (simp add: find_Code_def xbind_def xread_def xfail_def xreturn_def pool
        split: sum.splits option.splits)
qed

text \<open>
  C8. \<^verbatim>\<open>get_code_attribute\<close> swaps the header of the Code attribute in place each time
  it is called. A second call for the same method undoes the first one: it returns the
  same attribute and leaves the class exactly as it was before the first call, with the
  header fields in the byte order of the file again. A method that is run a second
  time therefore sees its \<^verbatim>\<open>max_locals\<close> and \<^verbatim>\<open>code_length\<close> with their bytes reversed.
\<close>

theorem get_code_attribute_twice:
  assumes "get_code_attribute (Some mi) n ex = (Inr r, ex1)"
  shows "get_code_attribute (Some mi) n ex1 = (Inr r, ex)"
proof -
  from assms obtain a buf where fc: "find_Code mi ex = (Inr r, ex)"
    and a: "attr_at (klass ex) r = Inr a" and buf: "CodeAttribute_swap (info a) = Inr buf"
    and ex1: "ex1 = ex\<lparr>klass := set_info (klass ex) r buf\<rparr>"
    by (auto simp: get_code_attribute_def res_simps dest: find_Code_state)
  have "same_class (klass ex) (klass ex1)"
    using a buf by (auto simp: ex1 dest: CodeAttribute_swap_length intro!: same_class_set_info)
  from find_Code_same_class [OF this, of mi] fc have "find_Code mi ex1 = (Inr r, ex1)"
    by (cases "find_Code mi ex1") auto
  moreover have "attr_at (klass ex1) r = Inr (a\<lparr>info := buf\<rparr>)"
    by (simp add: ex1 attr_at_set_info [OF a])
  moreover have "set_info (klass ex1) r (info a) = klass ex"
    by (simp add: ex1 set_info_set_info [OF a] set_info_same [OF a])
  ultimately show ?thesis
    by (simp add: get_code_attribute_def CodeAttribute_swap_swap [OF buf] ex1)
qed

theorem get_code_attribute_twice_witness:
  "get_code_attribute (Some 0) ''main'' (example_running hello_code) =
     (Inr (0, 0), new_JavaExecutor (example_class hello_code))"
  by (rule get_code_attribute_twice [OF get_code_attribute_example])

end
