(* ===== verification/Stack_Depth.thy ===== *)
theory Stack_Depth
  imports Executor
begin

text \<open>
  The depth of the native stack. \<open>run\<close> takes the number of nested calls for which
  the stack has room; \<open>deepens m m'\<close> says that \<open>m'\<close> behaves as \<open>m\<close> does wherever \<open>m\<close>
  does not exhaust the stack. A run that ends otherwise than by exhaustion ends the
  same way for every larger depth.
\<close>

section \<open>Runs that agree\<close>

definition deepens :: "'a exec \<Rightarrow> 'a exec \<Rightarrow> bool" where
  "deepens m m' \<longleftrightarrow>
     (\<forall>ex r ex'. m ex = (r, ex') \<longrightarrow> r \<noteq> Inl StackExhausted \<longrightarrow> m' ex = (r, ex'))"

section \<open>The depth of the native stack\<close>

lemma deepensD: "deepens m m' \<Longrightarrow> m ex = (r, ex') \<Longrightarrow> r \<noteq> Inl StackExhausted \<Longrightarrow> m' ex = (r, ex')"
  by (simp add: deepens_def)

lemma deepens_refl [simp]: "deepens m m"
  by (simp add: deepens_def)

lemma deepens_trans: "deepens a b \<Longrightarrow> deepens b c \<Longrightarrow> deepens a c"
  by (simp add: deepens_def)

lemma deepens_xbind:
  assumes "deepens m m'" and "\<And>x. deepens (f x) (f' x)"
  shows "deepens (xbind m f) (xbind m' f')"
  unfolding deepens_def
proof (intro allI impI)
  fix ex r ex'
  assume run: "xbind m f ex = (r, ex')" and r: "r \<noteq> Inl StackExhausted"
  obtain r1 ex1 where m: "m ex = (r1, ex1)"
    by (cases "m ex") auto
  show "xbind m' f' ex = (r, ex')"
  proof (cases r1)
    case (Inl e)
    with m run have "r = Inl e" "ex' = ex1"
      by (auto simp: xbind_def)
    with Inl r deepensD [OF assms(1) m] show ?thesis
      by (simp add: xbind_def)
  next
    case (Inr x)
    with m run have "f x ex1 = (r, ex')"
      by (simp add: xbind_def)
    from deepensD [OF assms(2) this r] deepensD [OF assms(1) m] Inr show ?thesis
      by (simp add: xbind_def)
  qed
qed

lemma deepens_do_INVOKESTATIC:
  assumes "\<And>n. deepens (call n) (call' n)"
  shows "deepens (do_INVOKESTATIC call cp c) (do_INVOKESTATIC call' cp c)"
  unfolding do_INVOKESTATIC_def by (intro deepens_xbind deepens_refl assms)

lemma deepens_step:
  assumes "\<And>n. deepens (call n) (call' n)"
  shows "deepens (step call cp c) (step call' cp c)"
proof -
  have "deepens (dispatch call cp c op) (dispatch call' cp c op)" for op
    by (simp add: dispatch_def deepens_do_INVOKESTATIC [OF assms])
  then show ?thesis
    unfolding step_def by (intro deepens_xbind deepens_refl)
qed

lemma deepens_exec_loop:
  assumes "\<And>n. deepens (call n) (call' n)"
  shows "deepens (exec_loop call ca code c) (exec_loop call' ca code c)"
proof -
  note st = deepensD [OF deepens_step [OF assms]]
  have "r \<noteq> Inl StackExhausted \<longrightarrow> exec_loop call' ca code c ex = (r, ex')"
    if "exec_loop call ca code c ex = (r, ex')" for ex r ex'
    using that
  proof (induction rule: exec_loop_outcome)
    case (fail e c ex)
    then show ?case by (simp add: exec_loop_fail)
  next
    case (stop h c ex)
    then show ?case by (simp add: exec_loop_unfold)
  next
    case (error h c ex e ex1)
    with st [OF error(3)] show ?case by (simp add: exec_loop_unfold)
  next
    case (step h c ex c1 ex1 r ex')
    with st [OF step(3)] show ?case by (simp add: exec_loop_unfold)
  qed
  then show ?thesis
    by (simp add: deepens_def)
qed

lemma deepens_run: "deepens (run d n) (run (Suc d) n)"
proof (induction d arbitrary: n)
  case 0
  show ?case by (simp add: deepens_def)
next
  case (Suc d)
  show ?case
    unfolding run.simps(2)
    by (intro deepens_xbind deepens_refl deepens_exec_loop Suc [unfolded run.simps(2)])
qed

lemma deepens_run_add: "deepens (run d n) (run (d + k) n)"
proof (induction k)
  case 0
  show ?case by simp
next
  case (Suc k)
  from Suc deepens_run [of "d + k" n] show ?case
    by (simp only: add_Suc_right) (rule deepens_trans)
qed

text \<open>
  The bound on the depth of nested calls, which the program does not have, only matters
  when it is hit: a run that ends in any other way than by exhausting the stack ends in
  the same way, with the same state, for every larger bound.
\<close>

lemma run_deeper:
  assumes "run d n ex = (r, ex')" and "r \<noteq> Inl StackExhausted"
  shows "run (d + k) n ex = (r, ex')"
  using assms by (rule deepensD [OF deepens_run_add])

end
