(* ===== verification/Teardown.thy ===== *)
theory Teardown
  imports Class_File
begin

text \<open>
  The destructors of \<^verbatim>\<open>src/main.cpp\<close>: \<^verbatim>\<open>~ConstantPoolEntry\<close> (lines 155 to 159),
  \<^verbatim>\<open>~ConstantPool\<close> (181 to 185), \<^verbatim>\<open>~AttributeInfo\<close> (211 to 213), \<^verbatim>\<open>~FieldEntry\<close>
  (247 to 249), \<^verbatim>\<open>~MethodEntry\<close> (297 to 299) and \<^verbatim>\<open>~JavaClassFile\<close> (380 to 391).

  The records of the other theories hold the contents of the arrays and not the
  pointers to them. What a destructor needs to know of a pointer is how it got its
  value (\<open>storage\<close>): it is null, or it comes from \<^verbatim>\<open>new\<close>, or from \<^verbatim>\<open>new[]\<close>. Which of
  these holds for a member is fixed by the line of the constructor that assigns it.
  \<^verbatim>\<open>delete\<close> on a pointer that \<^verbatim>\<open>new[]\<close> returned, and \<^verbatim>\<open>delete[]\<close> on one that \<^verbatim>\<open>new\<close>
  returned, have no defined behaviour (\<open>MismatchedDelete\<close>); both do nothing on a
  null pointer.
\<close>

section \<open>Pointers and their release\<close>

datatype storage = Null | Single | Array

definition delete_single :: "storage \<Rightarrow> error + unit" where
  "delete_single p =
     (case p of Null \<Rightarrow> Inr () | Single \<Rightarrow> Inr () | Array \<Rightarrow> Inl (Undefined MismatchedDelete))"

definition delete_array :: "storage \<Rightarrow> error + unit" where
  "delete_array p =
     (case p of Null \<Rightarrow> Inr () | Array \<Rightarrow> Inr () | Single \<Rightarrow> Inl (Undefined MismatchedDelete))"

text \<open>The destructors of the elements of an array, in the order they are given.\<close>

primrec destroy_each :: "('a \<Rightarrow> error + unit) \<Rightarrow> 'a list \<Rightarrow> error + unit" where
  "destroy_each d [] = Inr ()"
| "destroy_each d (x # xs) = ebind (d x) (\<lambda>_. destroy_each d xs)"

section \<open>The destructors\<close>

text \<open>
  \<^verbatim>\<open>~ConstantPoolEntry\<close> tests the tag for \<^verbatim>\<open>String\<close> and deletes \<^verbatim>\<open>Utf8.bytes\<close>, which
  \<^verbatim>\<open>read\<close> assigns from \<^verbatim>\<open>new string\<close> (line 112) in the branch of tag \<^verbatim>\<open>Utf8\<close>.
\<close>

definition destroy_ConstantPoolEntry :: "ConstantPoolEntry \<Rightarrow> error + unit" where
  "destroy_ConstantPoolEntry e =
     (if tag e = tag_of String then ebind (Utf8_of e) (\<lambda>bytes. delete_single Single)
      else Inr ())"

text \<open>
  \<^verbatim>\<open>~ConstantPool\<close>: \<^verbatim>\<open>entries\<close> is what \<^verbatim>\<open>new ConstantPoolEntry[n]\<close> returned (line 168),
  which is not null, also for \<open>n = 0\<close>.
\<close>

definition destroy_ConstantPool :: "ConstantPool \<Rightarrow> error + unit" where
  "destroy_ConstantPool pool = delete_single Array"

text \<open>
  \<^verbatim>\<open>~AttributeInfo\<close>, \<^verbatim>\<open>~FieldEntry\<close>, \<^verbatim>\<open>~MethodEntry\<close>: \<^verbatim>\<open>delete[]\<close> of what \<^verbatim>\<open>new[]\<close>
  returned in \<^verbatim>\<open>read\<close> (lines 206, 240, 270), which destroys the elements, the last
  one first, and releases the array.
\<close>

definition destroy_AttributeInfo :: "AttributeInfo \<Rightarrow> error + unit" where
  "destroy_AttributeInfo a = delete_array Array"

definition destroy_FieldEntry :: "FieldEntry \<Rightarrow> error + unit" where
  "destroy_FieldEntry f =
     ebind (destroy_each destroy_AttributeInfo (rev (FieldEntry.attributes f))) (\<lambda>_.
     delete_array Array)"

definition destroy_MethodEntry :: "MethodEntry \<Rightarrow> error + unit" where
  "destroy_MethodEntry m =
     ebind (destroy_each destroy_AttributeInfo (rev (MethodEntry.attributes m))) (\<lambda>_.
     delete_array Array)"

text \<open>
  The members \<^verbatim>\<open>interfaces\<close>, \<^verbatim>\<open>fields\<close>, \<^verbatim>\<open>methods\<close> and \<^verbatim>\<open>attributes\<close> of a class file
  are null until the constructor has passed the test of the magic number and
  assigned \<^verbatim>\<open>const_pool\<close>; from there on it assigns each of them from \<^verbatim>\<open>new[]\<close> (lines
  334, 344, 352, 360) or ends the program. \<^verbatim>\<open>interfaces\<close> is assigned only under the
  test that also guards its deletion.
\<close>

definition arrays_of :: "JavaClassFile \<Rightarrow> storage" where
  "arrays_of cf = (case const_pool cf of None \<Rightarrow> Null | Some pool \<Rightarrow> Array)"

text \<open>
  \<^verbatim>\<open>~JavaClassFile\<close>: six deletions. \<^verbatim>\<open>stream\<close> comes from \<^verbatim>\<open>new\<close> (line 305) and so does
  \<^verbatim>\<open>const_pool\<close> (line 324), whose deletion runs \<^verbatim>\<open>~ConstantPool\<close> first. The test of
  \<^verbatim>\<open>header2.interfaces_count\<close> reads a member that has no value when the constructor
  has returned before reading the second header.
\<close>

definition destroy_JavaClassFile :: "JavaClassFile \<Rightarrow> error + unit" where
  "destroy_JavaClassFile cf =
     ebind (delete_single Single) (\<lambda>_.
     ebind (case const_pool cf of
              None \<Rightarrow> delete_single Null
            | Some pool \<Rightarrow> ebind (destroy_ConstantPool pool) (\<lambda>_. delete_single Single)) (\<lambda>_.
     ebind (case header2 cf of
              None \<Rightarrow> Inl (Undefined IndeterminateRead)
            | Some h2 \<Rightarrow> Inr (interfaces_count h2)) (\<lambda>count.
     ebind (if count \<noteq> 0 then delete_single (arrays_of cf) else Inr ()) (\<lambda>_.
     ebind (delete_single (arrays_of cf)) (\<lambda>_.
     ebind (delete_single (arrays_of cf)) (\<lambda>_.
     delete_single (arrays_of cf)))))))"

section \<open>The destructors that are defined\<close>

lemma get_method_pool:
  "get_method cf name = Inr (Some k) \<Longrightarrow> \<exists>pool. const_pool cf = Some pool"
  by (auto simp: get_method_def get_method_from_first_match first_match_Some method_name_at_def
      deref_def res_simps split: option.splits)


lemma destroy_each_ok: "(\<And>x. x \<in> set xs \<Longrightarrow> d x = Inr ()) \<Longrightarrow> destroy_each d xs = Inr ()"
  by (induction xs) simp_all

lemma destroy_AttributeInfo_ok [simp]: "destroy_AttributeInfo a = Inr ()"
  by (simp add: destroy_AttributeInfo_def delete_array_def)

lemma destroy_FieldEntry_ok [simp]: "destroy_FieldEntry f = Inr ()"
  by (simp add: destroy_FieldEntry_def destroy_each_ok delete_array_def)

lemma destroy_MethodEntry_ok [simp]: "destroy_MethodEntry m = Inr ()"
  by (simp add: destroy_MethodEntry_def destroy_each_ok delete_array_def)

section \<open>The destructors that are not\<close>

lemma destroy_wf_entry:
  assumes "wf_entry e"
  shows "destroy_ConstantPoolEntry e =
           (if tag e = tag_of String then Inl (Undefined InactiveMember) else Inr ())"
  using assms
  by (auto simp: destroy_ConstantPoolEntry_def wf_entry_def Utf8_of_def split: cp_union.splits)

lemma destroy_read_entry:
  assumes "ConstantPoolEntry_read s = Inr (e, s')"
  shows "destroy_ConstantPoolEntry e =
           (if tag e = tag_of String then Inl (Undefined InactiveMember) else Inr ())"
  using assms by (intro destroy_wf_entry) (simp add: read_entry_sound)

lemma destroy_ConstantPool_undefined [simp]:
  "destroy_ConstantPool pool = Inl (Undefined MismatchedDelete)"
  by (simp add: destroy_ConstantPool_def delete_single_def)

lemma destroy_JavaClassFile_built:
  "const_pool cf = Some pool \<Longrightarrow> destroy_JavaClassFile cf = Inl (Undefined MismatchedDelete)"
  by (simp add: destroy_JavaClassFile_def delete_single_def)

lemma destroy_JavaClassFile_unbuilt:
  "const_pool cf = None \<Longrightarrow> header2 cf = None \<Longrightarrow>
   destroy_JavaClassFile cf = Inl (Undefined IndeterminateRead)"
  by (simp add: destroy_JavaClassFile_def delete_single_def)

lemma destroy_JavaClassFile_ctor:
  assumes "JavaClassFile_ctor fname s = Inr (cf, out)"
  shows "destroy_JavaClassFile cf =
           Inl (Undefined (if ok cf then MismatchedDelete else IndeterminateRead))"
proof (cases "ok cf")
  case True
  with assms have "wf_class cf"
    by (auto dest: JavaClassFile_ctor_sound)
  then obtain pool where "const_pool cf = Some pool"
    by (auto simp: wf_class_def split: option.splits)
  with True show ?thesis
    by (simp add: destroy_JavaClassFile_built)
next
  case False
  with assms have "const_pool cf = None \<and> header2 cf = None"
    by (auto simp: JavaClassFile_ctor_def res_simps new_JavaClassFile_def split: if_splits
        dest: read_class_body_sound)
  with False show ?thesis
    by (simp add: destroy_JavaClassFile_unbuilt)
qed

end
