(* ===== verification/Scopes.thy ===== *)
theory Scopes
  imports Machine Teardown
begin

text \<open>
  The destructors that run where a branch of \<^verbatim>\<open>step\<close> ends. Four branches declare
  local objects of type \<^verbatim>\<open>ConstantPoolEntry\<close>, each a copy of an entry of the pool: six
  of them in the branches of GETSTATIC, INVOKEVIRTUAL and INVOKESTATIC (lines 514 to
  521, 563 to 570, 601 to 608) and one in the branch of LDC (line 543). At the closing
  brace of the branch \<^verbatim>\<open>~ConstantPoolEntry\<close> runs for each copy, the last one first.

  The definitions of theory \<open>Executor\<close> follow the execution in which these
  destructors delete nothing. This theory says when that is the case: when no copy
  has the tag of a String entry. For a copy of a String entry the destructor deletes
  \<^verbatim>\<open>Utf8.bytes\<close>, a member of the union that such an entry never wrote, which has no
  defined behaviour. Such a copy is what
  LDC must make before \<^verbatim>\<open>println\<close> can print anything.
\<close>

section \<open>The local copies and their destruction\<close>

primrec locals_of :: "ConstantPool \<Rightarrow> instr \<Rightarrow> error + ConstantPoolEntry list" where
  "locals_of pool (Getstatic idx) =
     ebind (resolve pool idx) (\<lambda>r. Inr [r_entry r, r_class_index r, r_classname_index r,
                                         r_name_type_index r, r_name r, r_descriptor r])"
| "locals_of pool (Ldc idx) = ebind (entry_at pool (uint idx - 1)) (\<lambda>entry. Inr [entry])"
| "locals_of pool (Invokevirtual idx) =
     ebind (resolve pool idx) (\<lambda>r. Inr [r_entry r, r_class_index r, r_classname_index r,
                                         r_name_type_index r, r_name r, r_descriptor r])"
| "locals_of pool (Invokestatic idx) =
     ebind (resolve pool idx) (\<lambda>r. Inr [r_entry r, r_class_index r, r_classname_index r,
                                         r_name_type_index r, r_name r, r_descriptor r])"
| "locals_of pool (Sipush sh1 sh2) = Inr []"
| "locals_of pool Iload_1 = Inr []"
| "locals_of pool Return = Inr []"
| "locals_of pool (Unknown op) = Inr []"

definition scope_exit :: "ConstantPool \<Rightarrow> instr \<Rightarrow> error + unit" where
  "scope_exit pool i =
     ebind (locals_of pool i) (\<lambda>copies. destroy_each destroy_ConstantPoolEntry (rev copies))"

text \<open>The ends of the branches that a list of instructions goes through, in order.\<close>

definition scope_exits :: "ConstantPool \<Rightarrow> instr list \<Rightarrow> error + unit" where
  "scope_exits pool prog = destroy_each (scope_exit pool) prog"

text \<open>
  The static condition: the copies that the instruction makes can be made, and none
  of them has the tag of a String entry.
\<close>

definition frees_nothing :: "ConstantPool \<Rightarrow> instr \<Rightarrow> bool" where
  "frees_nothing pool i =
     (case locals_of pool i of
        Inl e \<Rightarrow> False
      | Inr copies \<Rightarrow> list_all (\<lambda>e. tag e \<noteq> tag_of String) copies)"

section \<open>Copies that are destroyed without harm\<close>

lemma destroy_other_tag [simp]:
  "tag e \<noteq> tag_of String \<Longrightarrow> destroy_ConstantPoolEntry e = Inr ()"
  by (simp add: destroy_ConstantPoolEntry_def)

lemma frees_nothing_scope_exit:
  assumes "frees_nothing pool i"
  shows "scope_exit pool i = Inr ()"
proof -
  from assms obtain copies where "locals_of pool i = Inr copies"
    and "list_all (\<lambda>e. tag e \<noteq> tag_of String) copies"
    by (auto simp: frees_nothing_def split: sum.splits)
  then show ?thesis
    by (auto simp: scope_exit_def list_all_iff intro!: destroy_each_ok)
qed

lemma frees_nothing_scope_exits:
  "list_all (frees_nothing pool) prog \<Longrightarrow> scope_exits pool prog = Inr ()"
  by (auto simp: scope_exits_def list_all_iff intro!: destroy_each_ok frees_nothing_scope_exit)

section \<open>The copy of a String entry\<close>

lemma scope_exit_Ldc_String:
  assumes "entry_at pool (uint idx - 1) = Inr e" and "wf_entry e" and "tag e = tag_of String"
  shows "scope_exit pool (Ldc idx) = Inl (Undefined InactiveMember)"
  using assms by (simp add: scope_exit_def destroy_wf_entry)

text \<open>
  A constant that \<^verbatim>\<open>println\<close> accepts is a String entry: whatever has put it on the
  action stack, LDC or a method that was called, has destroyed a copy of it.
\<close>

lemma Text_is_String:
  assumes "kind_of pool (ConstantAction i e) = Text" and "wf_entry e"
  shows "tag e = tag_of String"
  using assms
  by (auto simp: text_of_def String_of_def wf_entry_def is_ok_def split: cp_union.splits if_splits)

lemma check_Ldc_Text:
  assumes "check_instr pool (Ldc idx) ks = Some (Text # ks')" and "wf_pool pool"
  obtains e where "entry_at pool (uint idx - 1) = Inr e" and "wf_entry e"
    and "tag e = tag_of String"
proof -
  from assms(1) obtain e where e: "entry_at pool (uint idx - 1) = Inr e"
    and top: "kind_of pool (ConstantAction CONSTANT e) = Text"
    by (auto split: sum.splits)
  from e assms(2) have wf: "wf_entry e"
    by (auto simp: entry_at_def wf_pool_def list_all_length split: if_splits)
  with top have "tag e = tag_of String"
    by (rule Text_is_String)
  with e wf show ?thesis
    by (rule that)
qed

text \<open>
  C19. Nothing can be printed without an undefined destructor call. The only constant
  that \<^verbatim>\<open>println\<close> prints is a String entry with the index of its text, and an LDC that
  loads such an entry from a well-formed pool makes a local copy of it; at the end of
  the branch \<^verbatim>\<open>~ConstantPoolEntry\<close> finds the tag \<^verbatim>\<open>String\<close> and deletes \<^verbatim>\<open>Utf8.bytes\<close>,
  which is not the member that the entry holds.
\<close>

theorem ldc_text_scope_undefined:
  assumes "check_instr pool (Ldc idx) ks = Some (Text # ks')" and "wf_pool pool"
  shows "scope_exit pool (Ldc idx) = Inl (Undefined InactiveMember)"
proof -
  from assms obtain e where "entry_at pool (uint idx - 1) = Inr e" and "wf_entry e"
    and "tag e = tag_of String"
    by (rule check_Ldc_Text)
  then show ?thesis
    by (rule scope_exit_Ldc_String)
qed

theorem ldc_text_scope_undefined_witness:
  "scope_exit example_pool (Ldc 7) = Inl (Undefined InactiveMember)"
  by (rule ldc_text_scope_undefined [where ks = "[]" and ks' = "[]"]) code_simp+

end
