(* ===== verification/Refinement.thy ===== *)
theory Refinement
  imports Step_Refinement Class_Changes Stack_Depth Scopes
begin

text \<open>
  The interpreter implements the machine of theory \<open>Machine\<close>: the loop of \<^verbatim>\<open>run\<close>
  executes the list of instructions that the code of the method decodes to, each step
  as theory \<open>Step_Refinement\<close> relates it to its instruction, and a method that passes
  the checker of the machine and makes no local copy of a String entry runs without an
  execution that has no meaning, the destructors at the end of each branch included.
\<close>

section \<open>Methods and what a call must leave alone\<close>


text \<open>
  While the loop of \<^verbatim>\<open>run\<close> works on a method, the Code attribute \<open>a\<close> of that
  method must stay what it is, and the class must stay the class \<open>K\<close> it was up to
  the headers of Code attributes, as every run leaves it. The instructions other than
  INVOKESTATIC never touch the class; a method that is called must leave this one
  attribute alone (\<open>keeps\<close>), which a method that calls itself does not: its second
  \<^verbatim>\<open>get_code_attribute\<close> swaps the header back.
\<close>

definition settled :: "JavaClassFile \<Rightarrow> attr_ref \<Rightarrow> AttributeInfo \<Rightarrow> JavaExecutor \<Rightarrow> bool" where
  "settled K ca a ex \<longleftrightarrow> same_class K (klass ex) \<and> attr_at (klass ex) ca = Inr a"

definition keeps :: "JavaClassFile \<Rightarrow> attr_ref \<Rightarrow> AttributeInfo \<Rightarrow> unit exec \<Rightarrow> bool" where
  "keeps K ca a m \<longleftrightarrow>
     (\<forall>ex ex'. settled K ca a ex \<longrightarrow> m ex = (Inr (), ex') \<longrightarrow> settled K ca a ex')"

text \<open>
  What \<^verbatim>\<open>run\<close> finds for a method name before its loop starts: the Code attribute of
  the first method of that name, and the buffer of that attribute with the header
  swapped, which is what \<^verbatim>\<open>get_code_attribute\<close> leaves in the class.
\<close>

definition method_code :: "JavaClassFile \<Rightarrow> string \<Rightarrow> error + (attr_ref \<times> AttributeInfo)" where
  "method_code k n =
     ebind (get_method k n) (\<lambda>m.
       case m of
         None \<Rightarrow> Inl (NullMethod n)
       | Some mi \<Rightarrow>
           ebind (subscript (methods k) mi) (\<lambda>me.
           ebind (get_attribute me (const_pool k) ''Code'') (\<lambda>found.
             case found of
               None \<Rightarrow> Inl (Undefined NullPointer)
             | Some ai \<Rightarrow>
                 ebind (subscript (MethodEntry.attributes me) ai) (\<lambda>a.
                 ebind (CodeAttribute_swap (info a)) (\<lambda>buf.
                 Inr ((mi, ai), a\<lparr>info := buf\<rparr>))))))"

definition as_run :: "(error + unit) \<times> JavaClassFile mstate \<Rightarrow> (error + unit) \<times> JavaExecutor" where
  "as_run x = (fst x, of_machine (snd x))"

definition entered :: "string \<Rightarrow> attr_ref \<Rightarrow> AttributeInfo \<Rightarrow> CodeAttribute \<Rightarrow> JavaExecutor \<Rightarrow> JavaExecutor" where
  "entered n ca a h ex =
     ex\<lparr>klass := set_info (klass ex) ca (info a),
        cout := cout ex @ ''['' @ n @ ''] Length of LVA: '' @ show_nat (unat (max_locals h)) @ endl\<rparr>"

text \<open>
  The check of a method before it runs: the method and its Code attribute are found,
  the code decodes, the instructions pass the checker of theory \<open>Machine\<close> for the
  action stack that the method starts on, and none of them makes a local copy of a
  String entry (theory \<open>Scopes\<close>). \<open>method_scopes\<close> is what the destructors of the
  local copies do, for all instructions of the method in their order.
\<close>

definition method_program :: "JavaClassFile \<Rightarrow> string \<Rightarrow> (attr_ref \<times> AttributeInfo \<times> CodeAttribute \<times> instr list) option" where
  "method_program k n =
     (case method_code k n of
        Inl e \<Rightarrow> None
      | Inr (ca, a) \<Rightarrow>
          (case CodeAttribute_at (info a) of
             Inl e \<Rightarrow> None
           | Inr h \<Rightarrow> map_option (\<lambda>prog. (ca, a, h, prog))
                       (decode (unat (code_length h)) (drop 8 (info a)) 0)))"

definition checked_method :: "JavaExecutor \<Rightarrow> string \<Rightarrow> bool" where
  "checked_method ex n =
     (case (method_program (klass ex) n, const_pool (klass ex)) of
        (Some (ca, a, h, prog), Some pool) \<Rightarrow>
          check_prog pool prog (map (kind_of pool) (action_stack ex)) \<and>
          list_all (frees_nothing pool) prog
      | _ \<Rightarrow> False)"

definition method_scopes :: "JavaClassFile \<Rightarrow> string \<Rightarrow> error + unit" where
  "method_scopes k n =
     (case (method_program k n, const_pool k) of
        (Some (ca, a, h, prog), Some pool) \<Rightarrow> scope_exits pool prog
      | _ \<Rightarrow> Inr ())"

text \<open>
  The method \<^verbatim>\<open>main\<close> of the example class as \<^verbatim>\<open>run\<close> finds it: the Code attribute with
  its header swapped, the header, and the four instructions.
\<close>

definition hello_attr :: AttributeInfo where
  "hello_attr = \<lparr>attribute_name_index = 17, attribute_length = 21,
                  info = [2, 0, 1, 0, 9, 0, 0, 0] @ hello_code @ [0, 0, 0, 0]\<rparr>"

definition hello_header :: CodeAttribute where
  "hello_header = \<lparr>max_stack = 2, max_locals = 1, code_length = 9\<rparr>"

definition hello_prog :: "instr list" where
  "hello_prog = [Getstatic 1, Ldc 7, Invokevirtual 9, Return]"

text \<open>
  A method that passes the check: it pushes the stream and a number and returns. The
  entry that its LDC loads is the Utf8 entry of the text, not the String entry.
\<close>

definition quiet_code :: "byte list" where
  "quiet_code = [0xB2, 0, 1, 0x12, 8, 0x11, 1, 2, 0xB1]"

text \<open>
  The Code attribute that a method name stands for, and the classes in which no
  reference of the constant pool names the method whose Code attribute is \<open>ca\<close>:
  INVOKESTATIC takes the name of the method it calls from such a reference, so that
  no run can enter that method through a call.
\<close>
definition code_ref :: "JavaClassFile \<Rightarrow> string \<Rightarrow> attr_ref option" where
  "code_ref k n = (case method_code k n of Inl e \<Rightarrow> None | Inr (ca, a) \<Rightarrow> Some ca)"

definition uncalled :: "JavaClassFile \<Rightarrow> attr_ref \<Rightarrow> bool" where
  "uncalled k ca =
     (case const_pool k of
        None \<Rightarrow> True
      | Some pool \<Rightarrow>
          list_all (\<lambda>i. case member_name_of pool (word_of_nat i) of
                          Inl e \<Rightarrow> True
                        | Inr n \<Rightarrow> code_ref k n \<noteq> Some ca)
            [1..<Suc (length (entries pool))])"

text \<open>
  The method \<^verbatim>\<open>main\<close> of the class with two methods, as \<^verbatim>\<open>run\<close> finds it.
\<close>

definition call_attr :: AttributeInfo where
  "call_attr = \<lparr>attribute_name_index = 17, attribute_length = 21,
                 info = [2, 0, 1, 0, 9, 0, 0, 0] @ caller_code @ [0, 0, 0, 0]\<rparr>"

definition call_prog :: "instr list" where
  "call_prog = [Getstatic 1, Ldc 7, Invokestatic 20, Return]"

section \<open>The loop\<close>

lemma decode_Nil: "decode n code c = Some [] \<longleftrightarrow> n \<le> c"
  by (subst decode.simps) (auto split: option.splits)

lemma decode_Cons:
  "decode n code c = Some (i # rest) \<longleftrightarrow>
     c < n \<and> fetch code c = Some i \<and>
     (if halts i then rest = [] else decode n code (c + size_of i) = Some rest)"
  by (subst decode.simps) (auto split: option.splits)

lemma exec_instr_halts: "halts i \<Longrightarrow> fst (exec_instr pool calls i ms) \<noteq> Inr ()"
  by (cases i) (simp_all add: m_fail_def)

lemma settled_code: "settled K ca a ex \<Longrightarrow> code_of ca ex = Inr (drop 8 (info a))"
  by (simp add: settled_def code_of_def)

lemma settled_header:
  "settled K ca a ex \<Longrightarrow> read_CodeAttribute ca ex = (CodeAttribute_at (info a), ex)"
  by (simp add: settled_def read_CodeAttribute_def xread_def)

lemma settled_pool: "settled K ca a ex \<Longrightarrow> const_pool (klass ex) = const_pool K"
  by (cases K; cases "klass ex") (auto simp: settled_def same_class_def)

lemma settled_cout [simp]: "settled K ca a (ex\<lparr>cout := s\<rparr>) = settled K ca a ex"
  by (simp add: settled_def)

lemma settled_exec_instr:
  assumes "settled K ca a ex" and "const_pool K = Some pool"
    and "exec_instr pool (\<lambda>n. lift_exec (call n)) i (to_machine ex) = (Inr (), ms)"
    and "\<And>idx n. i = Invokestatic idx \<Longrightarrow> member_name_of pool idx = Inr n \<Longrightarrow>
           keeps K ca a (call n)"
  shows "settled K ca a (of_machine ms)"
proof (cases "call_free i")
  case True
  with assms(3) have "snd ms = klass ex"
    by (cases ms) (auto simp: to_machine_def dest: exec_instr_frame)
  with assms(1) show ?thesis
    by (simp add: settled_def)
next
  case False
  then obtain idx where i: "i = Invokestatic idx"
    by (cases i) simp_all
  with assms(3) obtain report n where n: "member_name_of pool idx = Inr n"
    and call: "lift_exec (call n) (m_say (''Invoke static!'' @ endl @ report) (to_machine ex)) =
                 (Inr (), ms)"
    by (auto simp: m_try_def split: sum.splits)
  from call have "call n (ex\<lparr>cout := cout ex @ ''Invoke static!'' @ endl @ report\<rparr>) =
      (Inr (), of_machine ms)"
    by (auto simp: lift_exec_def split: prod.splits)
  moreover have "settled K ca a (ex\<lparr>cout := cout ex @ ''Invoke static!'' @ endl @ report\<rparr>)"
    using assms(1) by simp
  ultimately show ?thesis
    using assms(4) [OF i n] unfolding keeps_def by blast
qed

lemma observe_then:
  assumes "observe (m ex) = observe (as_step c1 (x ms))"
    and "\<And>ms1. x ms = (Inr (), ms1) \<Longrightarrow>
           observe (k c1 (of_machine ms1)) = observe (as_step c2 (y ms1))"
  shows "observe (xbind m k ex) = observe (as_step c2 (m_then x y ms))"
proof -
  obtain r1 ms1 where x: "x ms = (r1, ms1)"
    by (cases "x ms") auto
  show ?thesis
  proof (cases r1)
    case (Inl e)
    with assms(1) x obtain ex1 where m: "m ex = (Inl e, ex1)"
      by (cases "m ex") (auto simp: observe_def as_step_def)
    show ?thesis
    proof (cases "\<exists>f. e = Undefined f")
      case True
      with m x Inl show ?thesis
        by (auto simp: observe_def as_step_def m_then_def)
    next
      case False
      with assms(1) m x Inl have "ex1 = of_machine ms1"
        by (auto simp: observe_def as_step_def is_fault_iff)
      with m x Inl show ?thesis
        by (simp add: as_step_def m_then_def)
    qed
  next
    case (Inr u)
    with assms(1) x have "m ex = (Inr c1, of_machine ms1)"
      by (simp add: as_step_def)
    with assms(2) [of ms1] x Inr show ?thesis
      by (simp add: m_then_def)
  qed
qed

lemma exec_loop_refines:
  assumes "settled K ca a ex" and "const_pool K = Some pool"
    and "CodeAttribute_at (info a) = Inr h"
    and "decode (unat (code_length h)) (drop 8 (info a)) c = Some prog"
    and "\<And>idx n. Invokestatic idx \<in> set prog \<Longrightarrow> member_name_of pool idx = Inr n \<Longrightarrow>
           keeps K ca a (call n)"
  shows "observe (exec_loop call ca ca c ex) =
           observe (as_step (c + prog_size prog)
             (exec_prog pool (\<lambda>n. lift_exec (call n)) prog (to_machine ex)))"
  using assms(1,4,5)
proof (induction prog arbitrary: c ex)
  case Nil
  with assms(3) show ?case
    by (simp add: decode_Nil exec_loop_unfold [where h = h] settled_header as_step_def m_ok_def
        prog_size_def)
next
  case (Cons i prog)
  let ?calls = "\<lambda>n. lift_exec (call n)"
  from Cons.prems(2) have c: "c < unat (code_length h)"
    and i: "fetch (drop 8 (info a)) c = Some i"
    and rest: "if halts i then prog = []
               else decode (unat (code_length h)) (drop 8 (info a)) (c + size_of i) = Some prog"
    by (simp_all add: decode_Cons)
  have loop: "exec_loop call ca ca c ex = xbind (step call ca c) (exec_loop call ca ca) ex"
    using Cons.prems(1) assms(3) c by (simp add: exec_loop_unfold [where h = h] settled_header)
  have "code_of ca ex = Inr (drop 8 (info a))" and "const_pool (klass ex) = Some pool"
    using Cons.prems(1) assms(2) by (simp_all add: settled_code settled_pool)
  then have "observe (step call ca c ex) =
      observe (as_step (c + size_of i) (exec_instr pool ?calls i (to_machine ex)))"
    using i by (rule step_refines)
  then have "observe (xbind (step call ca c) (exec_loop call ca ca) ex) =
      observe (as_step (c + size_of i + prog_size prog)
        (m_then (exec_instr pool ?calls i) (exec_prog pool ?calls prog) (to_machine ex)))"
  proof (rule observe_then)
    fix ms1
    assume m: "exec_instr pool ?calls i (to_machine ex) = (Inr (), ms1)"
    then have "\<not> halts i"
      using exec_instr_halts [of i pool ?calls "to_machine ex"] by auto
    with rest have "decode (unat (code_length h)) (drop 8 (info a)) (c + size_of i) = Some prog"
      by simp
    moreover have "settled K ca a (of_machine ms1)"
      using Cons.prems(1) assms(2) m Cons.prems(3)
      by (intro settled_exec_instr [where i = i and ex = ex and call = call and pool = pool])
        auto
    ultimately have
      "observe (exec_loop call ca ca (c + size_of i) (of_machine ms1)) =
       observe (as_step (c + size_of i + prog_size prog)
         (exec_prog pool ?calls prog (to_machine (of_machine ms1))))"
      using Cons.prems(3) by (intro Cons.IH) auto
    then show "observe (exec_loop call ca ca (c + size_of i) (of_machine ms1)) =
       observe (as_step (c + size_of i + prog_size prog) (exec_prog pool ?calls prog ms1))"
      by simp
  qed
  then show ?case
    unfolding loop by (simp add: prog_size_def add.assoc)
qed

section \<open>A run\<close>

lemma method_codeE:
  assumes "method_code (klass ex) n = Inr (ca, a)"
  obtains mi a0 where "get_method (klass ex) n = Inr (Some mi)"
    and "find_Code mi ex = (Inr ca, ex)" and "attr_at (klass ex) ca = Inr a0"
    and "CodeAttribute_swap (info a0) = Inr (info a)" and "a = a0\<lparr>info := info a\<rparr>"
  using assms
  by (auto simp: method_code_def find_Code_def attr_at_def xbind_def xread_def xreturn_def
      res_simps split: option.splits)

lemma run_enters:
  assumes "method_code (klass ex) n = Inr (ca, a)" and "CodeAttribute_at (info a) = Inr h"
  shows "run (Suc d) n ex =
           xbind (exec_loop (run d) ca ca 0) (\<lambda>_. xreturn ()) (entered n ca a h ex)"
    and "attr_at (klass (entered n ca a h ex)) ca = Inr a"
    and "same_class (klass ex) (klass (entered n ca a h ex))"
proof -
  from assms(1) obtain mi a0 where m: "get_method (klass ex) n = Inr (Some mi)"
    and fc: "find_Code mi ex = (Inr ca, ex)" and a0: "attr_at (klass ex) ca = Inr a0"
    and swap: "CodeAttribute_swap (info a0) = Inr (info a)" and a: "a = a0\<lparr>info := info a\<rparr>"
    by (rule method_codeE)
  define ex1 where "ex1 = ex\<lparr>klass := set_info (klass ex) ca (info a)\<rparr>"
  have g: "get_code_attribute (Some mi) n ex = (Inr ca, ex1)"
    using fc a0 swap by (simp add: get_code_attribute_def ex1_def xbind_def xread_def xreturn_def)
  have at: "attr_at (klass ex1) ca = Inr a"
    using attr_at_set_info [OF a0, of "info a"] a by (simp add: ex1_def)
  then show "attr_at (klass (entered n ca a h ex)) ca = Inr a"
    by (simp add: entered_def ex1_def)
  have "same_class (klass ex) (klass ex1)"
    using a0 swap by (auto simp: ex1_def dest: CodeAttribute_swap_length intro!: same_class_set_info)
  then show same: "same_class (klass ex) (klass (entered n ca a h ex))"
    by (simp add: entered_def ex1_def)
  from find_Code_same_class [OF same, of mi] fc
  have "find_Code mi (entered n ca a h ex) = (Inr ca, entered n ca a h ex)"
    by (cases "find_Code mi (entered n ca a h ex)") auto
  moreover have "read_CodeAttribute ca ex1 = (Inr h, ex1)"
    using at assms(2) by (simp add: read_CodeAttribute_def xread_def)
  moreover have "entered n ca a h ex = ex1\<lparr>cout := cout ex1 @ ''['' @ n @
      ''] Length of LVA: '' @ show_nat (unat (max_locals h)) @ endl\<rparr>"
    by (simp add: entered_def ex1_def)
  ultimately show "run (Suc d) n ex =
      xbind (exec_loop (run d) ca ca 0) (\<lambda>_. xreturn ()) (entered n ca a h ex)"
    using m g by (simp add: JavaExecutor_get_method_def get_code_def xbind_def xread_def
        xprint_def)
qed

lemma observe_as_run:
  assumes "observe (m ex) = observe (as_step c x)"
  shows "observe (xbind m (\<lambda>_. xreturn ()) ex) = observe (as_run x)"
proof (cases "is_fault (fst x)")
  case True
  with assms have "fst (m ex) = fst (as_step c x)" and "is_fault (fst (m ex))"
    by (auto simp: observe_def as_step_def is_fault_iff split: sum.splits)
  with True show ?thesis
    by (cases "m ex"; cases x)
      (auto simp: observe_def as_step_def as_run_def xbind_def is_fault_iff split: sum.splits)
next
  case False
  then have "\<not> is_fault (fst (as_step c x))"
    by (auto simp: as_step_def is_fault_iff split: sum.splits)
  with assms have "m ex = as_step c x"
    by simp
  then show ?thesis
    by (cases x) (auto simp: as_step_def as_run_def xbind_def xreturn_def split: sum.splits)
qed

lemma method_programE:
  assumes "method_program (klass ex) n = Some (ca, a, h, prog)"
  obtains "method_code (klass ex) n = Inr (ca, a)" and "CodeAttribute_at (info a) = Inr h"
    and "decode (unat (code_length h)) (drop 8 (info a)) 0 = Some prog"
  using assms by (auto simp: method_program_def split: sum.splits)

lemma run_refines:
  assumes "method_program (klass ex) n = Some (ca, a, h, prog)"
    and "const_pool (klass ex) = Some pool"
    and "\<And>idx n'. Invokestatic idx \<in> set prog \<Longrightarrow> member_name_of pool idx = Inr n' \<Longrightarrow>
           keeps (klass ex) ca a (run d n')"
  shows "observe (run (Suc d) n ex) =
           observe (as_run (exec_prog pool (\<lambda>n. lift_exec (run d n)) prog
             (to_machine (entered n ca a h ex))))"
proof -
  from assms(1) have code: "method_code (klass ex) n = Inr (ca, a)"
    and h: "CodeAttribute_at (info a) = Inr h"
    and prog: "decode (unat (code_length h)) (drop 8 (info a)) 0 = Some prog"
    by (auto elim: method_programE)
  note enter = run_enters [OF code h]
  from enter(2,3) have "settled (klass ex) ca a (entered n ca a h ex)"
    by (simp add: settled_def)
  from exec_loop_refines [OF this assms(2) h prog assms(3)] show ?thesis
    unfolding enter(1) by (intro observe_as_run) simp
qed

lemma run_call_free:
  assumes "method_program (klass ex) n = Some (ca, a, h, prog)"
    and "const_pool (klass ex) = Some pool" and "list_all call_free prog"
  shows "observe (run (Suc d) n ex) =
           observe (as_run (exec_prog pool calls prog (to_machine (entered n ca a h ex))))"
proof -
  have "Invokestatic idx \<notin> set prog" for idx
    using assms(3) by (auto simp: list_all_iff)
  with assms(1,2) have "observe (run (Suc d) n ex) =
      observe (as_run (exec_prog pool (\<lambda>n. lift_exec (run d n)) prog
        (to_machine (entered n ca a h ex))))"
    by (intro run_refines) auto
  then show ?thesis
    by (simp only: exec_prog_call_free [OF assms(3), of pool "\<lambda>n. lift_exec (run d n)" _ calls])
qed

lemma run_call_free_result:
  assumes "method_program (klass ex) n = Some (ca, a, h, prog)"
    and "const_pool (klass ex) = Some pool" and "list_all call_free prog"
  shows "fst (run (Suc d) n ex) \<in>
           {Inr (), Inl NeedLocals} \<union> range (\<lambda>op. Inl (UnknownInstruction op)) \<union>
           range (\<lambda>f. Inl (Undefined f))"
proof -
  let ?x = "exec_prog pool (\<lambda>n. m_fail StackExhausted) prog (to_machine (entered n ca a h ex))"
  from run_call_free [OF assms, of d] have "fst (run (Suc d) n ex) = fst ?x"
    by (auto simp: observe_def as_run_def)
  moreover from assms(3) have "fst ?x \<in> {Inr (), Inl NeedLocals} \<union>
      range (\<lambda>op. Inl (UnknownInstruction op)) \<union> range (\<lambda>f. Inl (Undefined f))"
    by (rule exec_prog_result)
  ultimately show ?thesis
    by simp
qed

lemma checked_methodE:
  assumes "checked_method ex n"
  obtains ca a h prog pool where "method_program (klass ex) n = Some (ca, a, h, prog)"
    and "const_pool (klass ex) = Some pool"
    and "check_prog pool prog (map (kind_of pool) (action_stack ex))"
    and "list_all (frees_nothing pool) prog"
  using assms by (auto simp: checked_method_def split: option.splits)

section \<open>The method that a name stands for\<close>

lemma same_class_fields:
  assumes "same_class k k'"
  shows "const_pool k' = const_pool k" and "methods_count k' = methods_count k"
    and "list_all2 same_method (methods k) (methods k')"
  using assms by (cases k; cases k'; simp add: same_class_def)+

lemma same_method_name:
  "same_method m m' \<Longrightarrow> MethodEntry.name_index m' = MethodEntry.name_index m"
  by (cases m; cases m') (simp add: same_method_def)

lemma method_name_at_same_class:
  assumes "same_class k k'"
  shows "method_name_at k' i = method_name_at k i"
proof (cases "i < length (methods k)")
  case True
  with same_class_fields(3) [OF assms] have "same_method (methods k ! i) (methods k' ! i)"
    by (rule list_all2_nthD)
  then have "MethodEntry.name_index (methods k' ! i) = MethodEntry.name_index (methods k ! i)"
    by (rule same_method_name)
  with same_class_fields [OF assms] True show ?thesis
    by (auto simp: method_name_at_def subscript_def dest: list_all2_lengthD)
next
  case False
  with same_class_fields [OF assms] show ?thesis
    by (auto simp: method_name_at_def subscript_def dest: list_all2_lengthD)
qed

lemma get_method_same_class:
  assumes "same_class k k'"
  shows "get_method k' n = get_method k n"
proof -
  have "method_name_at k' = method_name_at k"
    using assms by (auto simp: method_name_at_same_class)
  then show ?thesis
    by (simp add: get_method_def get_method_from_first_match same_class_fields(2) [OF assms])
qed

lemma attr_at_same_class:
  assumes "same_class k k'" and "attr_at k' r = Inr a'"
  obtains a where "attr_at k r = Inr a" and "same_attr a a'"
proof -
  from assms(1) have ms: "list_all2 same_method (methods k) (methods k')"
    by (rule same_class_fields)
  from assms(2) have i: "fst r < length (methods k')"
    and j: "snd r < length (MethodEntry.attributes (methods k' ! fst r))"
    and a': "a' = MethodEntry.attributes (methods k' ! fst r) ! snd r"
    by (auto simp: attr_at_def subscript_def res_simps split: if_splits)
  from ms i have "same_method (methods k ! fst r) (methods k' ! fst r)"
    by (auto dest: list_all2_nthD2)
  then have as: "list_all2 same_attr (MethodEntry.attributes (methods k ! fst r))
      (MethodEntry.attributes (methods k' ! fst r))"
    by (simp add: same_method_def)
  with j have "same_attr (MethodEntry.attributes (methods k ! fst r) ! snd r) a'"
    unfolding a' by (auto dest: list_all2_nthD2)
  moreover have "attr_at k r = Inr (MethodEntry.attributes (methods k ! fst r) ! snd r)"
    using ms as i j by (auto simp: attr_at_def subscript_def dest: list_all2_lengthD)
  ultimately show ?thesis
    by (rule that [rotated])
qed

lemma method_codeI:
  assumes "get_method (klass ex) n = Inr (Some mi)" and "find_Code mi ex = (Inr ca, ex)"
    and "attr_at (klass ex) ca = Inr a0" and "CodeAttribute_swap (info a0) = Inr buf"
  shows "method_code (klass ex) n = Inr (ca, a0\<lparr>info := buf\<rparr>)"
  using assms
  by (auto simp: method_code_def find_Code_def attr_at_def xbind_def xread_def xreturn_def
      xfail_def res_simps split: option.splits sum.splits)

lemma code_ref_same_class:
  assumes "same_class k k'" and "code_ref k' n = Some ca"
  shows "code_ref k n = Some ca"
proof -
  define ex where "ex = new_JavaExecutor k"
  define ex' where "ex' = new_JavaExecutor k'"
  have k: "klass ex = k" "klass ex' = k'"
    by (simp_all add: ex_def ex'_def new_JavaExecutor_def)
  from assms(2) obtain a' where "method_code (klass ex') n = Inr (ca, a')"
    by (auto simp: code_ref_def k split: sum.splits)
  then obtain mi a0' where m: "get_method k' n = Inr (Some mi)"
    and fc: "find_Code mi ex' = (Inr ca, ex')" and a0': "attr_at k' ca = Inr a0'"
    and swap: "CodeAttribute_swap (info a0') = Inr (info a')"
    by (rule method_codeE) (simp add: k)
  from assms(1) a0' obtain a0 where a0: "attr_at k ca = Inr a0" and same: "same_attr a0 a0'"
    by (rule attr_at_same_class)
  from find_Code_same_class [of ex ex' mi] assms(1) fc
  have "find_Code mi ex = (Inr ca, ex)"
    by (cases "find_Code mi ex") (auto simp: k)
  moreover from swap same obtain buf where "CodeAttribute_swap (info a0) = Inr buf"
    by (auto simp: CodeAttribute_swap_def same_attr_def Let_def split: if_splits)
  moreover have "get_method (klass ex) n = Inr (Some mi)"
    using m assms(1) by (simp add: k get_method_same_class)
  ultimately have "method_code (klass ex) n = Inr (ca, a0\<lparr>info := buf\<rparr>)"
    using a0 by (intro method_codeI) (simp_all add: k)
  then show ?thesis
    by (simp add: code_ref_def k)
qed

lemma uncalledD:
  assumes "uncalled k ca" and "const_pool k = Some pool" and "member_name_of pool idx = Inr n"
  shows "code_ref k n \<noteq> Some ca"
proof -
  from assms(3) obtain r where "resolve pool idx = Inr r"
    by (cases "resolve pool idx") (auto simp: member_name_of_def)
  then obtain e where "entry_at pool (uint idx - 1) = Inr e"
    by (cases "entry_at pool (uint idx - 1)") (auto simp: resolve_def)
  then have "0 \<le> uint idx - 1 \<and> uint idx - 1 < int (length (entries pool))"
    by (auto simp: entry_at_def split: if_splits)
  then have "1 \<le> unat idx \<and> unat idx < Suc (length (entries pool))"
    unfolding unat_eq_nat_uint by linarith
  then have "unat idx \<in> set [1..<Suc (length (entries pool))]"
    by (simp del: upt_Suc)
  moreover from assms(1,2) have "\<forall>i\<in>set [1..<Suc (length (entries pool))].
      (case member_name_of pool (word_of_nat i) of
         Inl e \<Rightarrow> True | Inr n \<Rightarrow> code_ref k n \<noteq> Some ca)"
    by (simp add: uncalled_def list_all_iff del: upt_Suc)
  ultimately have "(case member_name_of pool (word_of_nat (unat idx)) of
      Inl e \<Rightarrow> True | Inr n \<Rightarrow> code_ref k n \<noteq> Some ca)"
    by blast
  with assms(3) show ?thesis
    by simp
qed

section \<open>What a step leaves alone\<close>

lemma attr_at_set_info_other:
  "r \<noteq> r' \<Longrightarrow> attr_at (set_info k r' buf) r = attr_at k r"
  by (cases r; cases r'; cases "fst r = fst r'"; cases "fst r' < length (methods k)")
    (auto simp: attr_at_def set_info_def subscript_def ebind_def)

lemma step_no_code:
  "code_of cp ex = Inl e \<Longrightarrow> fst (step call cp c ex) = Inl e"
  by (auto simp: code_of_def step_def code_byte_def xbind_def xread_def ebind_def
      split: sum.splits)

lemma step_settled:
  assumes "settled K ca a ex" and "const_pool K = Some pool"
    and "\<And>idx n. member_name_of pool idx = Inr n \<Longrightarrow> keeps K ca a (call n)"
    and "step call cp c ex = (Inr c', ex')"
  shows "settled K ca a ex'"
proof -
  from assms(4) obtain code where code: "code_of cp ex = Inr code"
    using step_no_code [of cp ex _ call c] by (cases "code_of cp ex") auto
  with assms(4) obtain i where i: "fetch code c = Some i"
    using step_truncated [of cp ex code c call] by (cases "fetch code c") auto
  let ?x = "exec_instr pool (\<lambda>n. lift_exec (call n)) i (to_machine ex)"
  from assms(1,2) have "const_pool (klass ex) = Some pool"
    by (simp add: settled_pool)
  with code have "observe (step call cp c ex) = observe (as_step (c + size_of i) ?x)"
    using i by (rule step_refines)
  with assms(4) have "as_step (c + size_of i) ?x = (Inr c', ex')"
    by (simp add: is_fault_iff)
  then have "?x = (Inr (), to_machine ex')"
    by (cases ?x) (auto simp: as_step_def split: sum.splits)
  with assms(1,2) have "settled K ca a (of_machine (to_machine ex'))"
    by (rule settled_exec_instr) (rule assms(3))
  then show ?thesis
    by simp
qed

lemma exec_loop_settled:
  assumes "exec_loop call cp code c ex = (Inr c', ex')" and "settled K ca a ex"
    and "const_pool K = Some pool"
    and "\<And>idx n. member_name_of pool idx = Inr n \<Longrightarrow> keeps K ca a (call n)"
  shows "settled K ca a ex'"
proof -
  have "r = Inr c' \<longrightarrow> settled K ca a ex \<longrightarrow> settled K ca a ex'"
    if "exec_loop call cp code c ex = (r, ex')" for r
    using that
  proof (induction rule: exec_loop_outcome)
    case (step h c ex c1 ex1 r ex')
    then show ?case
      using step_settled [OF _ assms(3,4), where ex = ex and cp = code and c = c and c' = c1
          and ex' = ex1] by auto
  qed auto
  with assms(1,2) show ?thesis
    by blast
qed

section \<open>What a called method leaves alone\<close>

lemma run_succeeds:
  assumes "run (Suc d) n ex = (Inr (), ex')"
  obtains ca a h c' where "method_code (klass ex) n = Inr (ca, a)"
    and "CodeAttribute_at (info a) = Inr h"
    and "exec_loop (run d) ca ca 0 (entered n ca a h ex) = (Inr c', ex')"
proof -
  from assms obtain m ca ex1 h ex2 where m: "get_method (klass ex) n = Inr m"
    and g: "get_code_attribute m n ex = (Inr ca, ex1)"
    and h: "read_CodeAttribute ca ex1 = (Inr h, ex2)"
    by (auto simp: res_simps JavaExecutor_get_method_def)
  from g obtain mi where mi: "m = Some mi"
    by (cases m) (auto simp: get_code_attribute_def res_simps)
  with g obtain ex0 a0 buf where fc0: "find_Code mi ex = (Inr ca, ex0)"
    and a00: "attr_at (klass ex0) ca = Inr a0" and swap: "CodeAttribute_swap (info a0) = Inr buf"
    and ex10: "ex1 = ex0\<lparr>klass := set_info (klass ex0) ca buf\<rparr>"
    by (auto simp: get_code_attribute_def res_simps)
  from fc0 have "ex0 = ex"
    by (rule find_Code_state)
  with fc0 a00 ex10 have fc: "find_Code mi ex = (Inr ca, ex)"
    and a0: "attr_at (klass ex) ca = Inr a0"
    and ex1: "ex1 = ex\<lparr>klass := set_info (klass ex) ca buf\<rparr>"
    by simp_all
  from m mi fc a0 swap have code: "method_code (klass ex) n = Inr (ca, a0\<lparr>info := buf\<rparr>)"
    by (intro method_codeI) simp_all
  from h have at: "CodeAttribute_at (info (a0\<lparr>info := buf\<rparr>)) = Inr h"
    by (simp add: read_CodeAttribute_def ex1 attr_at_set_info [OF a0])
  from assms obtain c' where
    "exec_loop (run d) ca ca 0 (entered n ca (a0\<lparr>info := buf\<rparr>) h ex) = (Inr c', ex')"
    unfolding run_enters(1) [OF code at] by (auto simp: res_simps)
  with code at show ?thesis
    by (rule that)
qed

lemma settled_entered:
  assumes "settled K ca a ex" and "method_code (klass ex) n = Inr (ca', a')"
    and "CodeAttribute_at (info a') = Inr h" and "code_ref K n \<noteq> Some ca"
  shows "settled K ca a (entered n ca' a' h ex)"
proof -
  from assms(1) have same: "same_class K (klass ex)" and a: "attr_at (klass ex) ca = Inr a"
    by (simp_all add: settled_def)
  from assms(2) have "code_ref (klass ex) n = Some ca'"
    by (simp add: code_ref_def)
  with same have "code_ref K n = Some ca'"
    by (rule code_ref_same_class)
  with assms(4) have "ca \<noteq> ca'"
    by auto
  with a have "attr_at (klass (entered n ca' a' h ex)) ca = Inr a"
    by (simp add: entered_def attr_at_set_info_other)
  moreover from same run_enters(3) [OF assms(2,3)]
  have "same_class K (klass (entered n ca' a' h ex))"
    by (rule same_class_trans)
  ultimately show ?thesis
    by (simp add: settled_def)
qed

lemma run_keeps:
  assumes "const_pool K = Some pool" and "uncalled K ca"
  shows "code_ref K n \<noteq> Some ca \<Longrightarrow> keeps K ca a (run d n)"
proof (induction d arbitrary: n)
  case 0
  show ?case
    by (simp add: keeps_def)
next
  case (Suc d)
  show ?case
    unfolding keeps_def
  proof (intro allI impI)
    fix ex ex'
    assume s: "settled K ca a ex" and r: "run (Suc d) n ex = (Inr (), ex')"
    from r obtain ca' a' h c' where code: "method_code (klass ex) n = Inr (ca', a')"
      and h: "CodeAttribute_at (info a') = Inr h"
      and loop: "exec_loop (run d) ca' ca' 0 (entered n ca' a' h ex) = (Inr c', ex')"
      by (rule run_succeeds)
    from s code h Suc.prems have "settled K ca a (entered n ca' a' h ex)"
      by (rule settled_entered)
    with loop show "settled K ca a ex'"
      using assms(1)
    proof (rule exec_loop_settled)
      fix idx n'
      assume "member_name_of pool idx = Inr n'"
      with assms(2,1) have "code_ref K n' \<noteq> Some ca"
        by (rule uncalledD)
      then show "keeps K ca a (run d n')"
        by (rule Suc.IH)
    qed
  qed
qed

lemma run_uncalled:
  assumes "method_program (klass ex) n = Some (ca, a, h, prog)"
    and "const_pool (klass ex) = Some pool" and "uncalled (klass ex) ca"
  shows "observe (run (Suc d) n ex) =
           observe (as_run (exec_prog pool (\<lambda>n. lift_exec (run d n)) prog
             (to_machine (entered n ca a h ex))))"
  using assms(1,2)
proof (rule run_refines)
  fix idx n'
  assume "member_name_of pool idx = Inr n'"
  with assms(3,2) have "code_ref (klass ex) n' \<noteq> Some ca"
    by (rule uncalledD)
  with assms(2,3) show "keeps (klass ex) ca a (run d n')"
    by (rule run_keeps)
qed

text \<open>
  C3. The loop of \<^verbatim>\<open>run\<close> implements the machine. When the code of the method decodes
  to a list of instructions, a run of the method prints its first line and then does
  what the machine does with that list, the methods it calls being further runs: the
  result is the same, and so are the action stack, the output and the class, unless
  the result is one of the executions without a meaning. The called methods must
  leave the Code attribute of the running method as it is.
\<close>

theorem run_implements_machine:
  assumes "method_program (klass ex) n = Some (ca, a, h, prog)"
    and "const_pool (klass ex) = Some pool"
    and "\<And>idx n'. Invokestatic idx \<in> set prog \<Longrightarrow> member_name_of pool idx = Inr n' \<Longrightarrow>
           keeps (klass ex) ca a (run d n')"
  shows "observe (run (Suc d) n ex) =
           observe (as_run (exec_prog pool (\<lambda>n. lift_exec (run d n)) prog
             (to_machine (entered n ca a h ex))))"
  using assms by (rule run_refines)

theorem run_implements_machine_witness:
  "observe (run (Suc 1) ''main'' (new_JavaExecutor (call_class caller_code greet_code))) =
     observe (as_run (exec_prog call_pool (\<lambda>n. lift_exec (run 1 n)) call_prog
       (to_machine (entered ''main'' (0, 0) call_attr hello_header
          (new_JavaExecutor (call_class caller_code greet_code))))))"
proof (rule run_implements_machine)
  let ?K = "klass (new_JavaExecutor (call_class caller_code greet_code))"
  show "method_program ?K ''main'' = Some ((0, 0), call_attr, hello_header, call_prog)"
    by code_simp
  show pool: "const_pool ?K = Some call_pool"
    by code_simp
  have main: "uncalled ?K (0, 0)"
    by code_simp
  show "keeps ?K (0, 0) call_attr (run 1 n')" if "member_name_of call_pool idx = Inr n'" for idx n'
    using pool main uncalledD [OF main pool that] by (rule run_keeps)
qed

text \<open>
  C14. A method that no reference of the constant pool names is never entered through
  a call, and the header of its Code attribute is swapped only when the method itself
  is run: a successful run of any other method, to any depth of calls, leaves that
  attribute as it found it. This is what the loop of a running method needs from the
  methods it calls.
\<close>

theorem uncalled_kept:
  assumes "const_pool K = Some pool" and "uncalled K ca" and "code_ref K n \<noteq> Some ca"
    and "same_class K (klass ex)" and "attr_at (klass ex) ca = Inr a"
    and "run d n ex = (Inr (), ex')"
  shows "attr_at (klass ex') ca = Inr a"
proof -
  from assms(4,5) have "settled K ca a ex"
    by (simp add: settled_def)
  with run_keeps [OF assms(1-3), of a d] assms(6) have "settled K ca a ex'"
    unfolding keeps_def by blast
  then show ?thesis
    by (simp add: settled_def)
qed

theorem uncalled_kept_witness:
  "attr_at (klass (snd (run 1 ''greet'' call_running))) (0, 0) = Inr call_attr"
  by (rule uncalled_kept [where K = "call_class caller_code greet_code" and pool = call_pool
        and n = "''greet''" and ex = call_running and d = 1]) code_simp+

text \<open>
  C13. One step implements one instruction. When the bytes at the cursor decode to an
  instruction, \<^verbatim>\<open>step\<close> does to the action stack, the output and the class what the
  machine does for that instruction, and leaves the cursor behind the instruction.
\<close>

theorem step_implements_instr:
  assumes "code_of cp ex = Inr code" and "const_pool (klass ex) = Some pool"
    and "fetch code c = Some i"
  shows "observe (step call cp c ex) =
           observe (as_step (c + size_of i)
             (exec_instr pool (\<lambda>n. lift_exec (call n)) i (to_machine ex)))"
  using assms by (rule step_refines)

theorem step_implements_instr_witness:
  "observe (step (run 0) (0, 0) 0 (example_running hello_code)) =
     observe (as_step (0 + size_of (Getstatic 1))
       (exec_instr example_pool (\<lambda>n. lift_exec (run 0 n)) (Getstatic 1)
          (to_machine (example_running hello_code))))"
  by (rule step_implements_instr [where code = "hello_code @ [0, 0, 0, 0]"]; code_simp)

lemma checked_run:
  assumes "checked_method ex n"
  shows "fst (run (Suc d) n ex) \<in>
           {Inr (), Inl NeedLocals} \<union> range (\<lambda>op. Inl (UnknownInstruction op))"
proof -
  from assms obtain ca a h prog pool
    where mp: "method_program (klass ex) n = Some (ca, a, h, prog)"
      and pool: "const_pool (klass ex) = Some pool"
      and check: "check_prog pool prog (map (kind_of pool) (action_stack ex))"
    by (rule checked_methodE)
  let ?ms = "to_machine (entered n ca a h ex)"
  let ?x = "exec_prog pool (\<lambda>n. m_fail StackExhausted) prog ?ms"
  from check have free: "list_all call_free prog"
    by (rule check_prog_call_free)
  from check have "check_prog pool prog (kinds pool (fst ?ms))"
    by (simp add: kinds_def entered_def)
  then have "\<not> is_fault (fst ?x)"
    by (rule check_prog_defined)
  moreover from run_call_free [OF mp pool free, of d] have "fst (run (Suc d) n ex) = fst ?x"
    by (auto simp: observe_def as_run_def)
  ultimately show ?thesis
    using run_call_free_result [OF mp pool free, of d] by (auto simp: is_fault_iff)
qed

lemma checked_scopes:
  assumes "checked_method ex n"
  shows "method_scopes (klass ex) n = Inr ()"
proof -
  from assms obtain ca a h prog pool
    where "method_program (klass ex) n = Some (ca, a, h, prog)"
      and "const_pool (klass ex) = Some pool" and "list_all (frees_nothing pool) prog"
    by (rule checked_methodE)
  then show ?thesis
    by (simp add: method_scopes_def frees_nothing_scope_exits)
qed

lemma hello_scopes:
  "method_scopes (example_class hello_code) ''main'' = Inl (Undefined InactiveMember)"
  by code_simp

text \<open>
  C4. A method that passes the check meets none of the faults of the model. Its run
  returns, or it ends at ILOAD_1 or at an unknown opcode through the \<^verbatim>\<open>exit(1)\<close> of that
  branch: no pool index is out of range, no entry is read as a member it does not
  hold, the stack is never empty or of the wrong kind where \<^verbatim>\<open>println\<close> reads it, and no
  byte is read outside the attribute. The destructors of the local copies of pool
  entries, which run where a branch of \<^verbatim>\<open>step\<close> ends and which \<open>run\<close> leaves out, delete
  nothing. The check refuses every LDC of a String entry: a method that passes can
  print only a text that was on the action stack before it ran, and the method of the
  example class, which loads the text it prints, does not pass (\<open>hello_scopes\<close>).
\<close>

theorem checked_method_defined:
  assumes "checked_method ex n"
  shows "fst (run (Suc d) n ex) \<in>
           {Inr (), Inl NeedLocals} \<union> range (\<lambda>op. Inl (UnknownInstruction op)) \<and>
         method_scopes (klass ex) n = Inr ()"
  using checked_run [OF assms, of d] checked_scopes [OF assms] by (rule conjI)

theorem checked_method_defined_witness:
  "fst (run (Suc 0) ''main'' (new_JavaExecutor (example_class quiet_code))) \<in>
     {Inr (), Inl NeedLocals} \<union> range (\<lambda>op. Inl (UnknownInstruction op)) \<and>
   method_scopes (klass (new_JavaExecutor (example_class quiet_code))) ''main'' = Inr ()"
  by (rule checked_method_defined) code_simp

text \<open>
  C16. A method without INVOKESTATIC needs one frame of the native stack: its run
  never ends for lack of stack, and it ends in the same way, with the same state, at
  every depth.
\<close>

theorem call_free_one_frame:
  assumes "method_program (klass ex) n = Some (ca, a, h, prog)"
    and "const_pool (klass ex) = Some pool" and "list_all call_free prog"
  shows "fst (run 1 n ex) \<noteq> Inl StackExhausted \<and> run (Suc d) n ex = run 1 n ex"
proof -
  from run_call_free_result [OF assms, of 0] have ne: "fst (run 1 n ex) \<noteq> Inl StackExhausted"
    by auto
  with deepensD [OF deepens_run_add [of 1 n d], of ex "fst (run 1 n ex)" "snd (run 1 n ex)"]
  show ?thesis
    by simp
qed

theorem call_free_one_frame_witness:
  "fst (run 1 ''main'' (new_JavaExecutor (example_class hello_code))) \<noteq> Inl StackExhausted \<and>
   run (Suc 3) ''main'' (new_JavaExecutor (example_class hello_code)) =
     run 1 ''main'' (new_JavaExecutor (example_class hello_code))"
  by (rule call_free_one_frame [where ca = "(0, 0)" and a = hello_attr and h = hello_header and
        prog = hello_prog and pool = example_pool]; code_simp)

end
