(* ===== verification/Transitions.thy ===== *)
theory Transitions
  imports Refinement
begin

text \<open>
  The loop of \<^verbatim>\<open>run\<close> as a transition system. A configuration is the loop with its
  cursor at some byte of the code, or the loop left with the cursor where it stopped,
  or the program ended by an error. One transition is one test of the loop condition
  and, when it holds, one call of \<^verbatim>\<open>step\<close>. The relation is the vehicle for what holds
  of every configuration along a run: the number of steps is bounded, because each one
  moves the cursor forward below a 32-bit code length, and the cursor only ever stands
  where an instruction begins (\<open>boundary\<close>), whatever the methods that are called do
  to the class.
\<close>

section \<open>Configurations and transitions\<close>

datatype config =
    Running nat JavaExecutor
  | Halted nat JavaExecutor
  | Faulted error JavaExecutor

primrec terminal :: "config \<Rightarrow> bool" where
  "terminal (Running c ex) = False"
| "terminal (Halted c ex) = True"
| "terminal (Faulted e ex) = True"

primrec state_of :: "config \<Rightarrow> JavaExecutor" where
  "state_of (Running c ex) = ex"
| "state_of (Halted c ex) = ex"
| "state_of (Faulted e ex) = ex"

definition ended :: "(error + nat) \<times> JavaExecutor \<Rightarrow> config" where
  "ended x = (case fst x of Inl e \<Rightarrow> Faulted e (snd x) | Inr c \<Rightarrow> Halted c (snd x))"

inductive transition ::
  "(string \<Rightarrow> unit exec) \<Rightarrow> attr_ref \<Rightarrow> attr_ref \<Rightarrow> config \<Rightarrow> config \<Rightarrow> bool"
  for call ca code where
  advance: "read_CodeAttribute ca ex = (Inr h, ex) \<Longrightarrow> c < unat (code_length h) \<Longrightarrow>
            step call code c ex = (Inr c', ex') \<Longrightarrow>
            transition call ca code (Running c ex) (Running c' ex')"
| fail: "read_CodeAttribute ca ex = (Inr h, ex) \<Longrightarrow> c < unat (code_length h) \<Longrightarrow>
         step call code c ex = (Inl e, ex') \<Longrightarrow>
         transition call ca code (Running c ex) (Faulted e ex')"
| leave: "read_CodeAttribute ca ex = (Inr h, ex) \<Longrightarrow> unat (code_length h) \<le> c \<Longrightarrow>
          transition call ca code (Running c ex) (Halted c ex)"
| lost: "read_CodeAttribute ca ex = (Inl e, ex) \<Longrightarrow>
         transition call ca code (Running c ex) (Faulted e ex)"

inductive reaches ::
  "(string \<Rightarrow> unit exec) \<Rightarrow> attr_ref \<Rightarrow> attr_ref \<Rightarrow> config \<Rightarrow> config \<Rightarrow> bool"
  for call ca code where
  here: "reaches call ca code s s"
| later: "transition call ca code s t \<Longrightarrow> reaches call ca code t u \<Longrightarrow> reaches call ca code s u"

text \<open>The offsets of a code buffer at which an instruction begins.\<close>

inductive boundary :: "byte list \<Rightarrow> nat \<Rightarrow> bool" for code where
  first: "boundary code 0"
| after: "boundary code c \<Longrightarrow> fetch code c = Some i \<Longrightarrow> boundary code (c + size_of i)"

text \<open>What the cursor invariant says of a configuration.\<close>

primrec on_boundary :: "byte list \<Rightarrow> attr_ref \<Rightarrow> ConstantPool \<Rightarrow> config \<Rightarrow> bool" where
  "on_boundary code cp pool (Running c ex) \<longleftrightarrow>
     boundary code c \<and> code_of cp ex = Inr code \<and> const_pool (klass ex) = Some pool"
| "on_boundary code cp pool (Halted c ex) \<longleftrightarrow> boundary code c"
| "on_boundary code cp pool (Faulted e ex) \<longleftrightarrow> True"

text \<open>
  The executor after the loop has run the method whose code is the single byte of
  SIPUSH: the operand bytes are the two bytes that follow the code in the attribute.
\<close>

definition sipush_done :: JavaExecutor where
  "sipush_done = (example_running [0x11])\<lparr>action_stack := [ValueAction CONSTANT 0],
                    cout := ''Number is: 0'' @ endl\<rparr>"

definition sipush_attr :: AttributeInfo where
  "sipush_attr = \<lparr>attribute_name_index = 17, attribute_length = 13,
                   info = [2, 0, 1, 0, 1, 0, 0, 0, 0x11, 0, 0, 0, 0]\<rparr>"

inductive_cases transition_RunningE: "transition call ca code (Running c ex) t"
inductive_cases transition_HaltedE [elim!]: "transition call ca code (Halted c ex) t"
inductive_cases transition_FaultedE [elim!]: "transition call ca code (Faulted e ex) t"

text \<open>The configuration in which the function \<open>exec_loop\<close> ends when started in a configuration.\<close>

primrec result :: "(string \<Rightarrow> unit exec) \<Rightarrow> attr_ref \<Rightarrow> attr_ref \<Rightarrow> config \<Rightarrow> config" where
  "result call ca code (Running c ex) = ended (exec_loop call ca code c ex)"
| "result call ca code (Halted c ex) = Halted c ex"
| "result call ca code (Faulted e ex) = Faulted e ex"

section \<open>Single transitions\<close>

lemma terminal_ended [simp]: "terminal (ended x)"
  by (simp add: ended_def split: sum.splits)

lemma terminal_stuck: "terminal s \<Longrightarrow> \<not> transition call ca code s t"
  by (cases s) auto

lemma transition_deterministic:
  assumes "transition call ca code s t" and "transition call ca code s u"
  shows "t = u"
  using assms by (auto elim!: transition.cases)

lemma transition_progress:
  assumes "\<not> terminal s"
  shows "\<exists>t. transition call ca code s t"
proof -
  from assms obtain c ex where s: "s = Running c ex"
    by (cases s) auto
  obtain rh where rh: "read_CodeAttribute ca ex = (rh, ex)"
    by (cases "read_CodeAttribute ca ex") auto
  obtain rs ex' where st: "step call code c ex = (rs, ex')"
    by (cases "step call code c ex") auto
  show ?thesis
  proof (cases rh)
    case (Inl e)
    with rh s show ?thesis by (auto intro: transition.lost)
  next
    case (Inr h)
    show ?thesis
    proof (cases "c < unat (code_length h)")
      case True
      with rh s st Inr show ?thesis
        by (cases rs) (auto intro: transition.advance transition.fail)
    next
      case False
      then have "unat (code_length h) \<le> c" by simp
      with rh s Inr show ?thesis by (auto intro: transition.leave)
    qed
  qed
qed

lemma transition_result:
  assumes "transition call ca code s t"
  shows "result call ca code t = result call ca code s"
  using assms
  by (induction rule: transition.induct)
    (simp_all add: exec_loop_unfold exec_loop_fail ended_def)

section \<open>Runs\<close>

lemma reaches_trans:
  "reaches call ca code s t \<Longrightarrow> reaches call ca code t u \<Longrightarrow> reaches call ca code s u"
  by (induction rule: reaches.induct) (auto intro: reaches.later)

lemma reaches_result:
  "reaches call ca code s t \<Longrightarrow> result call ca code t = result call ca code s"
  by (induction rule: reaches.induct) (simp_all add: transition_result)

lemma result_terminal [simp]: "terminal t \<Longrightarrow> result call ca code t = t"
  by (cases t) simp_all

lemma exec_loop_reaches:
  "reaches call ca code (Running c ex) (ended (exec_loop call ca code c ex))"
proof -
  have "reaches call ca code (Running c ex) (ended (r, ex'))"
    if "exec_loop call ca code c ex = (r, ex')" for r ex'
    using that
  proof (induction rule: exec_loop_outcome)
    case (fail e c ex)
    then show ?case
      by (auto simp: ended_def intro: reaches.intros transition.lost)
  next
    case (stop h c ex)
    then show ?case
      by (auto simp: ended_def intro: reaches.intros transition.leave)
  next
    case (error h c ex e ex1)
    then show ?case
      by (auto simp: ended_def intro: reaches.intros transition.fail)
  next
    case (step h c ex c1 ex1 r ex')
    then show ?case
      by (auto intro: reaches.later transition.advance)
  qed
  then show ?thesis
    by (cases "exec_loop call ca code c ex") auto
qed

text \<open>
  From every cursor and every state exactly one final configuration can be reached,
  and it is the one that \<open>exec_loop\<close> returns.
\<close>

lemma exec_loop_iff_reaches:
  "reaches call ca code (Running c ex) t \<and> terminal t \<longleftrightarrow>
     t = ended (exec_loop call ca code c ex)"
  using reaches_result [of call ca code "Running c ex" t]
  by (auto simp: exec_loop_reaches)

section \<open>Invariants of the reachable configurations\<close>

lemma transition_evolves:
  assumes "transition call ca code s t" and "\<And>n. tracks (call n)"
  shows "evolves (state_of s) (state_of t)"
  using assms
  by (induction rule: transition.induct) (auto dest: tracksD [OF tracks_step, rotated])

lemma reaches_evolves:
  assumes "reaches call ca code s t" and calls: "\<And>n. tracks (call n)"
  shows "evolves (state_of s) (state_of t)"
  using assms(1)
proof (induction rule: reaches.induct)
  case (later s t u)
  from later.hyps(1) calls have "evolves (state_of s) (state_of t)"
    by (rule transition_evolves)
  then show ?case using later.IH by (rule evolves_trans)
qed simp

lemma reaches_terminal:
  "reaches call ca code s t \<Longrightarrow> terminal s \<Longrightarrow> t = s"
  by (induction rule: reaches.induct) (auto dest: terminal_stuck)

lemma reaches_cursor:
  assumes "reaches call ca code (Running c ex) (Running c' ex')"
  shows "c \<le> c'"
proof -
  have "\<forall>c ex c' ex'. s = Running c ex \<longrightarrow> t = Running c' ex' \<longrightarrow> c \<le> c'"
    if "reaches call ca code s t" for s t
    using that
  proof (induction rule: reaches.induct)
    case (later s t u)
    then show ?case
      by (cases t) (auto elim!: transition.cases dest!: step_cursor reaches_terminal)
  qed simp
  with assms show ?thesis by blast
qed

section \<open>The number of steps\<close>

lemma below_u32: "c < unat (w :: u32) \<Longrightarrow> c < 2 ^ 32"
  using unat_u32_less [of w] by (simp del: unat_u32_less)

lemma transition_measure:
  assumes "transition call ca code (Running c ex) (Running c' ex')"
  shows "c < c' \<and> c < 2 ^ 32"
  using assms by (auto elim!: transition_RunningE dest: step_cursor below_u32)

lemma terminal_no_steps: "terminal s \<Longrightarrow> (transition call ca code ^^ k) s t \<Longrightarrow> k = 0"
  by (cases k; cases s) (auto dest!: relpowp_Suc_D2 simp del: relpowp.simps)

text \<open>
  C39. The loop of \<^verbatim>\<open>run\<close> ends. Every step that succeeds moves the cursor forward, and
  the loop goes on only while the cursor is below a code length of 32 bits: from cursor
  \<open>c\<close> there are at most \<open>2 ^ 32 - c\<close> steps and one last test, whatever the code is and
  whatever the methods that are called do.
\<close>

theorem loop_steps_bounded:
  "(transition call ca code ^^ k) (Running c ex) t \<Longrightarrow> k \<le> Suc (2 ^ 32 - c)"
proof (induction k arbitrary: c ex)
  case 0
  show ?case by simp
next
  case (Suc k)
  from Suc.prems obtain s where first: "transition call ca code (Running c ex) s"
    and rest: "(transition call ca code ^^ k) s t"
    by (rule relpowp_Suc_E2)
  show ?case
  proof (cases s)
    case (Running c1 ex1)
    with first have "c < c1" and "c < 2 ^ 32"
      by (auto dest: transition_measure)
    moreover from rest have "k \<le> Suc (2 ^ 32 - c1)"
      unfolding Running by (rule Suc.IH)
    ultimately show ?thesis
      by simp
  qed (use rest in \<open>auto dest: terminal_no_steps [rotated]\<close>)
qed

theorem loop_steps_bounded_witness:
  "(transition (run 0) (0, 0) (0, 0) ^^ 2) (Running 0 (example_running [0x11]))
     (Halted 3 sipush_done) \<and> (2 :: nat) \<le> Suc (2 ^ 32 - 0)"
proof -
  let ?h = "\<lparr>max_stack = 2, max_locals = 1, code_length = 1\<rparr>"
  have "transition (run 0) (0, 0) (0, 0) (Running 0 (example_running [0x11])) (Running 3 sipush_done)"
    by (rule transition.advance [where h = ?h]) code_simp+
  moreover have "transition (run 0) (0, 0) (0, 0) (Running 3 sipush_done) (Halted 3 sipush_done)"
    by (rule transition.leave [where h = ?h]) code_simp+
  ultimately have steps: "(transition (run 0) (0, 0) (0, 0) ^^ 2) (Running 0 (example_running [0x11]))
      (Halted 3 sipush_done)"
    by (auto simp: numeral_2_eq_2)
  from steps loop_steps_bounded [OF steps] show ?thesis
    by (rule conjI)
qed

section \<open>Where the cursor stands\<close>

lemma same_attr_sym: "same_attr a b \<Longrightarrow> same_attr b a"
  by (simp add: same_attr_def)

lemma same_method_sym: "same_method a b \<Longrightarrow> same_method b a"
  by (cases a; cases b)
    (auto simp: same_method_def list_all2_conv_all_nth intro: same_attr_sym)

lemma same_class_sym: "same_class a b \<Longrightarrow> same_class b a"
  by (cases a; cases b)
    (auto simp: same_class_def list_all2_conv_all_nth intro: same_method_sym)

lemma code_of_evolves:
  assumes "evolves ex ex'" and "code_of cp ex = Inr code"
  shows "code_of cp ex' = Inr code"
proof -
  from assms(2) obtain a where a: "attr_at (klass ex) cp = Inr a" and code: "code = drop 8 (info a)"
    by (auto simp: code_of_def res_simps)
  from assms(1) have "same_class (klass ex') (klass ex)"
    by (auto simp: evolves_def intro: same_class_sym)
  then obtain a' where "attr_at (klass ex') cp = Inr a'" and "same_attr a' a"
    using a by (rule attr_at_same_class)
  with code show ?thesis
    by (simp add: code_of_def same_attr_def)
qed

lemma step_fetches:
  assumes "step call cp c ex = (Inr c', ex')" and "code_of cp ex = Inr code"
    and "const_pool (klass ex) = Some pool"
  obtains i where "fetch code c = Some i" and "c' = c + size_of i"
proof -
  from assms(1,2) obtain i where i: "fetch code c = Some i"
    using step_truncated [of cp ex code c call] by (cases "fetch code c") auto
  with assms(2,3) have "observe (step call cp c ex) =
      observe (as_step (c + size_of i) (exec_instr pool (\<lambda>n. lift_exec (call n)) i (to_machine ex)))"
    by (intro step_refines)
  with assms(1) have "c' = c + size_of i"
    by (auto simp: is_fault_iff as_step_def split: sum.splits)
  with i show ?thesis
    by (rule that)
qed

lemma transition_boundary:
  assumes "transition call ca cp s t" and "\<And>n. tracks (call n)" and "on_boundary code cp pool s"
  shows "on_boundary code cp pool t"
  using assms(1,3)
proof (induction rule: transition.induct)
  case (advance ex h c c' ex')
  then obtain i where "fetch code c = Some i" and "c' = c + size_of i"
    by (auto elim: step_fetches)
  moreover from advance(3) assms(2) have ev: "evolves ex ex'"
    by (auto dest: tracksD [OF tracks_step, rotated])
  moreover from ev have "const_pool (klass ex') = const_pool (klass ex)"
    by (auto simp: evolves_def dest: same_class_fields(1))
  ultimately show ?case
    using advance(4) by (auto intro: boundary.after code_of_evolves)
qed auto

lemma reaches_boundary:
  assumes "reaches call ca cp s t" and "\<And>n. tracks (call n)" and "on_boundary code cp pool s"
  shows "on_boundary code cp pool t"
  using assms(1,3)
  by (induction rule: reaches.induct) (auto intro: transition_boundary assms(2))

text \<open>
  C15. The loop of \<^verbatim>\<open>run\<close> never takes an operand for an opcode. Along every run of the
  loop the cursor stands where an instruction of the code begins: each step moves it
  by the length of the instruction it has executed, and the methods that are called in
  between swap headers of Code attributes but leave every byte of code as it is.
\<close>

theorem cursor_on_boundary:
  assumes "reaches (run d) ca cp (Running c ex) (Running c' ex')"
    and "code_of cp ex = Inr code" and "const_pool (klass ex) = Some pool"
    and "boundary code c"
  shows "boundary code c' \<and> code_of cp ex' = Inr code"
  using reaches_boundary [OF assms(1) tracks_run, of code pool] assms(2-4) by simp

theorem cursor_on_boundary_witness:
  "boundary (hello_code @ [0, 0, 0, 0]) 3 \<and>
   code_of (0, 0) ((example_running hello_code)\<lparr>action_stack :=
     [StaticAction STATIC ''java/lang/System'' ''out'']\<rparr>) = Inr (hello_code @ [0, 0, 0, 0])"
proof (rule cursor_on_boundary [where d = 0 and ca = "(0, 0)" and c = 0
      and ex = "example_running hello_code" and pool = example_pool])
  show "reaches (run 0) (0, 0) (0, 0) (Running 0 (example_running hello_code))
     (Running 3 ((example_running hello_code)\<lparr>action_stack :=
        [StaticAction STATIC ''java/lang/System'' ''out'']\<rparr>))"
    by (rule reaches.later [OF transition.advance [where h = hello_header] reaches.here])
      code_simp+
  show "boundary (hello_code @ [0, 0, 0, 0]) 0"
    by (rule boundary.first)
qed code_simp+

section \<open>Where the loop ends\<close>

lemma exec_loop_within:
  assumes "exec_loop call ca cp c ex = (Inr c', ex')" and "settled K ca a ex"
    and "const_pool K = Some pool"
    and "\<And>idx n. member_name_of pool idx = Inr n \<Longrightarrow> keeps K ca a (call n)"
    and "CodeAttribute_at (info a) = Inr h" and "c \<le> unat (code_length h) + 2"
  shows "unat (code_length h) \<le> c' \<and> c' \<le> unat (code_length h) + 2"
proof -
  let ?n = "unat (code_length h)"
  have "r = Inr c' \<longrightarrow> settled K ca a ex \<longrightarrow> c \<le> ?n + 2 \<longrightarrow> ?n \<le> c' \<and> c' \<le> ?n + 2"
    if "exec_loop call ca cp c ex = (r, ex')" for r
    using that
  proof (induction rule: exec_loop_outcome)
    case (stop h' c ex)
    with assms(5) show ?case
      by (auto simp: settled_header)
  next
    case (step h' c ex c1 ex1 r ex')
    show ?case
    proof (intro impI)
      assume r: "r = Inr c'" and ex: "settled K ca a ex"
      with step(1) assms(5) have "h' = h"
        by (simp add: settled_header)
      with step(2,3) have "c1 \<le> ?n + 2"
        by (auto dest: step_cursor)
      moreover from ex assms(3,4) step(3) have "settled K ca a ex1"
        by (rule step_settled)
      ultimately show "?n \<le> c' \<and> c' \<le> ?n + 2"
        using step.IH r by simp
    qed
  qed auto
  with assms(1,2,6) show ?thesis
    by blast
qed

text \<open>
  C18. The loop of \<^verbatim>\<open>run\<close> ends at most two bytes beyond the code. When no reference of
  the constant pool names the running method, the header of its Code attribute stays
  as it is while the loop runs, and a loop that ends without an error ends with the
  cursor at the code length or one or two bytes behind it: the last instruction may
  have taken its operand from the bytes that follow the code in the attribute.
\<close>

theorem loop_ends_near_code_length:
  assumes "exec_loop (run d) ca cp c ex = (Inr c', ex')"
    and "attr_at (klass ex) ca = Inr a" and "CodeAttribute_at (info a) = Inr h"
    and "const_pool (klass ex) = Some pool" and "uncalled (klass ex) ca"
    and "c \<le> unat (code_length h)"
  shows "unat (code_length h) \<le> c' \<and> c' \<le> unat (code_length h) + 2"
proof (rule exec_loop_within [OF assms(1) _ assms(4) _ assms(3)])
  show "settled (klass ex) ca a ex"
    using assms(2) by (simp add: settled_def same_class_refl)
  show "keeps (klass ex) ca a (run d n)" if "member_name_of pool idx = Inr n" for idx n
    using assms(4,5) uncalledD [OF assms(5,4) that] by (rule run_keeps)
  show "c \<le> unat (code_length h) + 2"
    using assms(6) by simp
qed

theorem loop_ends_near_code_length_witness:
  "unat (code_length \<lparr>max_stack = 2, max_locals = 1, code_length = 1\<rparr>) \<le> (3 :: nat) \<and>
   (3 :: nat) \<le> unat (code_length \<lparr>max_stack = 2, max_locals = 1, code_length = 1\<rparr>) + 2"
  by (rule loop_ends_near_code_length [where d = 0 and ca = "(0, 0)" and cp = "(0, 0)" and c = 0
        and ex = "example_running [0x11]" and ex' = sipush_done and a = sipush_attr
        and pool = example_pool]) code_simp+

end
