(* ===== verification/Printing.thy ===== *)
theory Printing
  imports Class_File
begin

text \<open>
  The two output operators of \<^verbatim>\<open>src/main.cpp\<close> that the program defines and never calls:
  \<^verbatim>\<open>operator<<\<close> of \<^verbatim>\<open>AttributeInfo\<close> (lines 215 to 219) and of \<^verbatim>\<open>MethodEntry\<close> (lines 289
  to 295). The first one prints the address of the buffer; the text that the stream
  writes for a pointer is a parameter. Integers of 16 and 32 bits are written in
  decimal. The lemmas say that the text determines the numbers it was made from.
\<close>

section \<open>The operators\<close>

definition AttributeInfo_show :: "string \<Rightarrow> AttributeInfo \<Rightarrow> string" where
  "AttributeInfo_show address info' =
     ''===='' @ [CHR 0x0A] @ ''NAME INDEX: '' @ show_nat (unat (attribute_name_index info')) @
     [CHR 0x0A] @ ''LEN: '' @ show_nat (unat (attribute_length info')) @
     [CHR 0x0A] @ ''DATA: @'' @ address"

definition MethodEntry_show :: "MethodEntry \<Rightarrow> string" where
  "MethodEntry_show info' =
     ''<Method = AccessFlags: '' @ show_nat (unat (MethodEntry.access_flags info')) @
     ''; NameIndex: '' @ show_nat (unat (MethodEntry.name_index info')) @
     ''; DescriptorIndex: '' @ show_nat (unat (MethodEntry.descriptor_index info')) @
     ''; AttributesCount: '' @ show_nat (unat (MethodEntry.attributes_count info')) @ ''>''"

section \<open>Numbers between separators\<close>

lemma digit_char_decimal:
  assumes "d < 10"
  shows "digit_char d \<in> set ''0123456789''"
proof -
  have "\<forall>d\<in>set [0..<10]. digit_char d \<in> set ''0123456789''"
    by code_simp
  moreover from assms have "d \<in> set [0..<10]"
    by simp
  ultimately show ?thesis
    by (rule bspec)
qed

lemma split_at_separator:
  "c \<notin> set xs \<Longrightarrow> c \<notin> set ys \<Longrightarrow> xs @ c # r = ys @ c # r' \<longleftrightarrow> xs = ys \<and> r = r'"
proof (induction xs arbitrary: ys)
  case Nil
  then show ?case by (cases ys) auto
next
  case (Cons x xs)
  then show ?case by (cases ys) auto
qed

lemma show_nat_decimal: "set (show_nat n) \<subseteq> set ''0123456789''"
proof (induction n rule: show_nat.induct)
  case (1 n)
  show ?case
  proof (cases "n < 10")
    case True
    then show ?thesis
      using digit_char_decimal [of n] by (simp add: show_nat_digit)
  next
    case False
    with "1.IH" show ?thesis
      using digit_char_decimal [of "n mod 10"] by (simp add: show_nat_step)
  qed
qed

lemma show_nat_separated [simp]:
  assumes "c \<notin> set ''0123456789''"
  shows "show_nat a @ c # r = show_nat b @ c # r' \<longleftrightarrow> a = b \<and> r = r'"
proof -
  from assms have "c \<notin> set (show_nat a)" and "c \<notin> set (show_nat b)"
    using show_nat_decimal by blast+
  then have "show_nat a @ c # r = show_nat b @ c # r' \<longleftrightarrow> show_nat a = show_nat b \<and> r = r'"
    by (rule split_at_separator)
  then show ?thesis
    by (auto dest: show_nat_inj)
qed

lemma show_nat_eq_iff [simp]: "show_nat m = show_nat n \<longleftrightarrow> m = n"
  by (auto dest: show_nat_inj)

section \<open>What the text determines\<close>

lemma MethodEntry_show_eq_iff:
  "MethodEntry_show m = MethodEntry_show m' \<longleftrightarrow>
     MethodEntry.access_flags m = MethodEntry.access_flags m' \<and>
     MethodEntry.name_index m = MethodEntry.name_index m' \<and>
     MethodEntry.descriptor_index m = MethodEntry.descriptor_index m' \<and>
     MethodEntry.attributes_count m = MethodEntry.attributes_count m'"
  by (simp add: MethodEntry_show_def) (simp add: word_unat_eq_iff)

lemma AttributeInfo_show_eq_iff:
  "AttributeInfo_show p a = AttributeInfo_show p' a' \<longleftrightarrow>
     attribute_name_index a = attribute_name_index a' \<and>
     attribute_length a = attribute_length a' \<and> p = p'"
  by (simp add: AttributeInfo_show_def) (simp add: word_unat_eq_iff)

lemma MethodEntry_show_example:
  "MethodEntry_show (example_method hello_code) =
     ''<Method = AccessFlags: 9; NameIndex: 15; DescriptorIndex: 16; AttributesCount: 1>''"
  by code_simp

end
