(* ===== verification/Spec2Isabelle.thy ===== *)
theory Spec2Isabelle
  imports Refinement Transitions Teardown Printing
begin

text \<open>
  \<^bold>\<open>ZeraVM: a class-file reader and a small bytecode interpreter\<close>

  The program is one C++ file, \<^verbatim>\<open>src/main.cpp\<close>. It opens the Java class file named
  by its first argument, decodes it in one forward pass into an object of class
  \<^verbatim>\<open>JavaClassFile\<close>, and runs the method \<^verbatim>\<open>main\<close> of that class on a stack machine,
  \<^verbatim>\<open>JavaExecutor\<close>, that knows seven opcodes. What it writes to standard output and to
  the error stream, and the way the process ends, are its only effects. This
  development is a shallow embedding of that file: every struct is a record, every
  function a definition with the name of the function, and the theorems are about
  those definitions.

  \<^bold>\<open>How C++ is rendered\<close>

  \<^item> Integers keep their width: \<^verbatim>\<open>uint8_t\<close>, \<^verbatim>\<open>uint16_t\<close>, \<^verbatim>\<open>uint32_t\<close> are \<open>byte\<close>, \<open>u16\<close>,
    \<open>u32\<close> (words); \<^verbatim>\<open>int\<close> and \<^verbatim>\<open>size_t\<close> are \<open>int\<close> and \<open>nat\<close> where the values
    provably stay in range (pool indices after promotion, the cursor below \<open>2 ^ 32 + 3\<close>).
  \<^item> The host is little-endian, as \<^verbatim>\<open>swapEndianness\<close> presupposes: the object
    representation of a word is \<open>word_bytes\<close>, least significant byte first.
  \<^item> A run ends abnormally with a value of type \<open>error\<close>: one constructor for each
    \<^verbatim>\<open>exit(1)\<close> of the source (\<open>UnknownTag\<close>, \<open>NullMethod\<close>, \<open>NeedLocals\<close>,
    \<open>UnknownInstruction\<close>), \<open>BadArrayNewLength\<close> for the exception of \<^verbatim>\<open>new[]\<close>,
    \<open>StackExhausted\<close> for unbounded recursion, and \<open>Undefined f\<close> for executions whose
    behaviour C++ does not define: a read past the end of the file (\<open>TruncatedRead\<close>),
    a pool subscript outside the array (\<open>PoolIndex\<close>), a read of a union member that
    is not the active one (\<open>InactiveMember\<close>), a null pointer dereferenced
    (\<open>NullPointer\<close>), a read outside an attribute buffer (\<open>BufferOverrun\<close>),
    \<^verbatim>\<open>top\<close> or \<^verbatim>\<open>pop\<close> on the empty stack (\<open>EmptyStack\<close>), the cast of an action to a
    kind it does not have (\<open>BadDowncast\<close>), and in the destructors \<^verbatim>\<open>delete\<close> of what
    \<^verbatim>\<open>new[]\<close> returned (\<open>MismatchedDelete\<close>) and the read of a member that was never
    assigned (\<open>IndeterminateRead\<close>). The model says where these occur; it says nothing
    about what happens afterwards.
  \<^item> Pointers into arrays are indices; \<^verbatim>\<open>nullptr\<close> is \<open>None\<close>.
  \<^item> The union of \<^verbatim>\<open>ConstantPoolEntry\<close> is a datatype with one constructor for each
    member, and a read of a member other than the one that was written is
    \<open>InactiveMember\<close>. This is stricter than C++ in one case: the members for the
    tags \<^verbatim>\<open>Class\<close>, \<^verbatim>\<open>String\<close>, \<^verbatim>\<open>Fieldref\<close>, \<^verbatim>\<open>Methodref\<close> and \<^verbatim>\<open>NameAndType\<close> begin with a
    \<^verbatim>\<open>uint16_t\<close>, and C++ lets a program read that common first member through any of
    them. The program reads members only under the tag they were written for, except
    in the destructor and where a class file points a reference at an entry of the
    wrong kind.
  \<^item> The casts \<^verbatim>\<open>*(uint16_t*)(codeptr + cursor)\<close> and \<^verbatim>\<open>(CodeAttribute*)info\<close> are the byte
    accesses that compilers make of them (\<open>code_u16\<close>, \<open>CodeAttribute_at\<close>,
    \<open>CodeAttribute_swap\<close>); that the operand may be misaligned and that the buffer was
    created as an array of bytes is not counted as a fault.
  \<^item> Output is a string that is part of the state (\<open>cout\<close>), debugging lines included.

  \<^bold>\<open>Theories\<close>

  \<^item> \<open>ZVM_Prelude\<close>: the word types, \<open>error\<close> and \<open>fault\<close>, sequencing of fallible
    computations (\<open>ebind\<close>), decimal and hexadecimal output (\<open>show_nat\<close>, \<open>show_int\<close>,
    \<open>show_hex\<close>), bytes as characters. The collection \<open>res_simps\<close> holds the rules that
    say when a computation returns a given result; \<open>fault_intros\<close> collects, through all
    theories, the lookups that fail only with \<open>Undefined f\<close> (\<open>only_faults\<close>).
  \<^item> \<open>Byte_Codec\<close>: \<^verbatim>\<open>swapEndianness\<close> (lines 7 to 18) as \<open>swapEndianness\<close>, with its loop
    \<open>swap_loop\<close>. Lemmas: it reverses the bytes, it is an involution, and the swapped
    host reading of wire bytes is their big-endian value (\<open>be_word\<close>, \<open>be_nat\<close>).
  \<^item> \<open>Byte_Stream\<close>: the \<^verbatim>\<open>ifstream\<close> as the list of unread bytes, \<^verbatim>\<open>read\<close> of an integer
    object (\<open>read_obj\<close>), of a character, of an array of records (\<open>read_array\<close>);
    readers compose with \<open>rbind\<close>. Lemmas: round trips of \<open>read_obj\<close> with \<open>be_bytes\<close>,
    arrays read element by element, readers only consume (\<open>consumes\<close>).
  \<^item> \<open>Constant_Pool\<close>: the two header structs, \<^verbatim>\<open>ConstantPoolEntry\<close> with its union and
    \<^verbatim>\<open>read\<close> (lines 53 to 160), \<^verbatim>\<open>ConstantPool\<close> (lines 162 to 192) and the unchecked
    subscripts \<^verbatim>\<open>entries[idx - 1]\<close> (\<open>entry_at\<close>, \<open>utf8_at\<close>). Lemmas: \<^verbatim>\<open>read\<close> and the
    constructor accept exactly the wire format of well-formed entries and pools; which
    tags end the run; one-based lookup and its bounds.
  \<^item> \<open>Class_File\<close>: \<^verbatim>\<open>AttributeInfo\<close>, \<^verbatim>\<open>FieldEntry\<close>, \<^verbatim>\<open>MethodEntry\<close> and
    \<^verbatim>\<open>JavaClassFile\<close> (lines 194 to 412): the \<^verbatim>\<open>read\<close> methods, the constructor
    \<open>JavaClassFile_ctor\<close>, \<open>get_method\<close> and \<open>get_attribute\<close>. Lemmas: the constructor
    accepts exactly the wire format of well-formed classes (\<open>encode_class\<close>,
    \<open>wf_class\<close>); what it does on a wrong magic number and on a short file; the interface
    indices that are not swapped; the two searches return the first match
    (\<open>first_match\<close>). The example class of the witnesses is defined here.
  \<^item> \<open>Executor\<close>: \<^verbatim>\<open>CodeAttribute\<close>, the opcodes, the actions and \<^verbatim>\<open>JavaExecutor\<close> (lines
    414 to 670). The state is the record \<open>JavaExecutor\<close> (class file, action stack,
    output); one definition for each branch of \<^verbatim>\<open>step\<close>, \<open>dispatch\<close> for the chain of
    tests, \<open>step\<close>, \<open>exec_loop\<close> for the loop of \<^verbatim>\<open>run\<close>, and \<open>run\<close>. Lemmas: the rules
    of the state monad, the cursor after a step and at the end of the loop, and the
    rule \<open>exec_loop_outcome\<close> by which every property of the loop is proved.
  \<^item> \<open>Instructions\<close>: the effect of a step at each of the seven opcodes and at an
    unknown one, stated over the big-endian operand (\<open>operand\<close>) and the names a
    reference resolves to (\<open>class_name_of\<close>, \<open>member_name_of\<close>, \<open>invoke_report\<close>); the
    header of the Code attribute after \<^verbatim>\<open>get_code_attribute\<close>; a call between two
    methods, which share the action stack.
  \<^item> \<open>Class_Changes\<close>, \<open>Stack_Depth\<close>, \<open>Last_Words\<close>: three properties of every run.
    What a run can change in the class (\<open>evolves\<close>, \<open>tracks\<close>) and the undoing of the
    header swap by a second call; independence of the depth bound (\<open>deepens\<close>); the
    message that ends the output of a failed run (\<open>last_words\<close>, \<open>announces\<close>). Each
    is proved once for the primitives of the state monad and carried through \<open>step\<close>,
    \<open>exec_loop\<close> and \<open>run\<close> by a collection of introduction rules (\<open>tracks_intros\<close>,
    \<open>announces_intros\<close>) and the rule \<open>exec_loop_outcome\<close>.
  \<^item> \<open>Machine\<close>: the specification that the interpreter is measured against. A
    method is a list of instructions (\<open>instr\<close>, one constructor for each opcode with
    its operands and \<open>Unknown\<close> for every other byte); \<open>exec_instr\<close> says what an
    instruction does to the action stack and the output (\<open>machine\<close>), the pool being a
    parameter; everything else the program has as state is a type variable that only
    the callee of INVOKESTATIC can touch. \<open>check_prog\<close> is a checker for methods
    without calls that follows the stack as a list of kinds. Lemmas: a checked method
    never reaches undefined behaviour (\<open>check_prog_sound\<close>), and the ways a method
    without calls can end.
  \<^item> \<open>Step_Refinement\<close>: \<open>fetch\<close> and \<open>decode\<close> turn code bytes into instructions;
    \<open>to_machine\<close> splits an executor into the state of the machine and the class.
    Lemmas: \<open>step\<close> implements \<open>exec_instr\<close> for the instruction at the cursor
    (\<open>step_refines\<close>), and fails where no instruction can be fetched. Results are
    compared by \<open>observe\<close>: the error always, the state unless the error is
    \<open>Undefined f\<close>.
  \<^item> \<open>Refinement\<close>: the loop of \<^verbatim>\<open>run\<close> implements \<open>exec_prog\<close> for the decoded code,
    and \<open>run\<close> implements the machine on the method it finds (\<open>method_program\<close>),
    provided the methods it calls leave the Code attribute of the running method alone
    (\<open>keeps\<close>). They do when no reference of the pool names the running method
    (\<open>uncalled\<close>, \<open>code_ref\<close>): \<open>run_keeps\<close>, by induction on the depth, over
    \<open>step_settled\<close> and \<open>exec_loop_settled\<close>. From these: a method that passes the
    check (\<open>checked_method\<close>: the checker of the machine, and no instruction that makes a
    local copy of a String entry) meets none of the faults, in its steps and at the
    end of each of their scopes, and a method without INVOKESTATIC needs one frame.
  \<^item> \<open>Scopes\<close>: the destructors that run at the closing brace of a branch of \<^verbatim>\<open>step\<close>,
    for the local copies of pool entries that the branch declares (\<open>locals_of\<close>,
    \<open>scope_exit\<close>; lines 514 to 521, 543, 563 to 570, 601 to 608). Lemmas: they delete
    nothing unless a copy has the tag of a String entry, for which the destructor has no
    defined behaviour; the copy that LDC makes of the text for \<^verbatim>\<open>println\<close> is such a
    copy, so no method that prints a text is free of it.
  \<^item> \<open>Transitions\<close>: the loop of \<^verbatim>\<open>run\<close> as a transition system on configurations
    (\<open>config\<close>: running at a cursor, halted, faulted), with the relation \<open>transition\<close>
    for one test of the loop condition and one step, and \<open>reaches\<close> for its closure.
    Lemmas: the relation is deterministic and \<open>exec_loop\<close> returns the one final
    configuration that can be reached; the number of transitions from a cursor is
    bounded; along every run the class changes as \<open>evolves\<close> allows and the cursor
    stands where an instruction begins (\<open>boundary\<close>); a loop that ends without an error
    ends at the code length or at most two bytes behind it.
  \<^item> \<open>Teardown\<close>: the six destructors (lines 155 to 159, 181 to 185, 211 to 213, 247
    to 249, 297 to 299, 380 to 391) as \<open>destroy_ConstantPoolEntry\<close> to
    \<open>destroy_JavaClassFile\<close>, over the way each pointer member got its value
    (\<open>storage\<close>). Lemmas: the destructors of attributes, fields and methods are
    defined; the destructor of a String entry, of every pool and of every class file
    that the constructor returns is not.
  \<^item> \<open>Printing\<close>: \<^verbatim>\<open>operator<<\<close> of \<^verbatim>\<open>AttributeInfo\<close> and of \<^verbatim>\<open>MethodEntry\<close> (lines 215 to
    219 and 289 to 295), which the program never calls. Lemmas: the text determines
    the numbers that were printed.
  \<^item> \<open>Spec2Isabelle\<close> (this theory): \<^verbatim>\<open>main\<close> (lines 672 to 686) as \<open>main\<close>, the opening
    of the file as \<open>open_file\<close>, the destruction of the class file at the return of
    \<^verbatim>\<open>main\<close> as \<open>main_teardown\<close>, and the properties of whole runs: the hello-world
    class, a wrong magic number, an unknown tag, the first line of every successful
    run, independence of the depth, the run of the file of a checked class up to the
    return from \<^verbatim>\<open>main\<close>, and the undefined end of every run that returns \<open>0\<close>.

  \<^bold>\<open>How the parts interact\<close>

  \<open>main\<close> calls \<open>JavaClassFile_ctor\<close> on the contents of the file and \<open>run\<close> on an
  executor for the object it returns, also after a wrong magic number. The constructor
  calls \<open>ConstantPool_ctor\<close> and the readers of \<open>Class_File\<close>, which read through
  \<open>Byte_Stream\<close> and swap with \<open>Byte_Codec\<close>. \<open>run\<close> finds the method with \<open>get_method\<close>,
  its Code attribute with \<open>get_attribute\<close>, swaps the header of that attribute in place
  (\<open>get_code_attribute\<close>: the class file is written to after its construction), and
  loops over \<open>step\<close>, which resolves references through \<open>entry_at\<close> and re-enters
  \<open>run\<close> for INVOKESTATIC.

  \<^bold>\<open>Bounds\<close>

  \<^item> \<open>exec_loop\<close> is a total function: every successful step moves the cursor forward
    and the code length is below \<open>2 ^ 32\<close>, so \<open>2 ^ 32 - cursor\<close> decreases.
  \<^item> \<open>run\<close> and \<open>main\<close> take the number of nested calls of \<^verbatim>\<open>run\<close> for which the native
    stack has room. At depth \<open>0\<close> a call ends with \<open>StackExhausted\<close>; the source has no
    such test and would overflow its stack. A result other than \<open>StackExhausted\<close> is
    the same for every larger depth (\<open>run_deeper\<close>, \<open>main_deeper\<close>), so a theorem for
    depth \<open>Suc d\<close> is a theorem about the program whenever the stack is not exhausted;
    a class without INVOKESTATIC needs depth \<open>1\<close>.
  \<^item> The searches \<open>get_method_from\<close> and \<open>get_attribute_from\<close> terminate because the
    index runs up to a 16-bit count.
  \<^item> \<open>decode\<close> terminates because every instruction has at least one byte. It stops
    behind ILOAD_1 and behind an unknown opcode, after which the program has ended.
  \<^item> The refinement theorems ask of a called method that it leaves the Code
    attribute of its caller as it is (\<open>keeps\<close>). A method that calls itself does not:
    the second \<^verbatim>\<open>get_code_attribute\<close> swaps the header of the running method back, and
    the loop of the caller goes on with another code length. For such classes the
    theorems of \<open>Instructions\<close>, \<open>Class_Changes\<close> and \<open>Transitions\<close> hold and those of \<open>Refinement\<close> say
    nothing. The method that is run first satisfies the condition in every class whose
    pool has no reference with its name (\<open>uncalled\<close>), whatever the methods it calls do
    among themselves.

  \<^bold>\<open>What is not modelled\<close>

  \<^item> The effect of the destructors on the run. \<open>main\<close> is the program up to its
    \<^verbatim>\<open>return\<close>, and \<open>step\<close> follows the execution in which the destructors of the local
    copies of pool entries delete nothing. What the destructors do is stated apart: in
    \<open>Scopes\<close> for the local copies (\<open>scope_exit\<close>), in \<open>Teardown\<close> and by \<open>main_teardown\<close>
    for the class file. A theorem about \<open>step\<close>, \<open>run\<close> or \<open>main\<close> alone therefore says
    what the program does as long as these destructors have a defined behaviour, and
    no more: for a method that loads a String entry they have none, and for a run that
    returns \<open>0\<close> the destructor of the class file has none. Memory that is never
    released (the strings of Utf8 entries, the actions) is not counted.
  \<^item> The state of the stream. A file that cannot be opened is the empty stream
    (\<open>open_file\<close>), on which every read fails: the test \<^verbatim>\<open>if (!stream)\<close> of the
    constructor looks at a pointer that is never null.
  \<^item> The text that the C++ runtime prints when it terminates the process after the
    uncaught exception of \<^verbatim>\<open>new[]\<close>, and the text that a stream prints for a pointer
    (a parameter of \<open>AttributeInfo_show\<close>).
  \<^item> What happens after undefined behaviour: the model stops with \<open>Undefined f\<close>.
\<close>

section \<open>The program\<close>

text \<open>
  The file system maps a name to the contents of the file. \<open>outcome\<close> is the way the
  process ends: \<open>Exit n\<close> for \<^verbatim>\<open>return n\<close> from \<^verbatim>\<open>main\<close> and for \<^verbatim>\<open>exit(n)\<close>, \<open>Abort\<close> for
  the uncaught exception, \<open>StackOverflow\<close> and \<open>Unspecified f\<close> for the two ways in
  which the model gives up. \<open>main\<close> returns the outcome, standard output and the
  error stream; \<open>argv\<close> includes the name of the program, as in C.
\<close>

type_synonym files = "string \<Rightarrow> byte list option"

datatype outcome = Exit int | Abort | StackOverflow | Unspecified fault

primrec outcome_of :: "error \<Rightarrow> outcome" where
  "outcome_of (UnknownTag t) = Exit 1"
| "outcome_of (NullMethod n) = Exit 1"
| "outcome_of NeedLocals = Exit 1"
| "outcome_of (UnknownInstruction op) = Exit 1"
| "outcome_of BadArrayNewLength = Abort"
| "outcome_of StackExhausted = StackOverflow"
| "outcome_of (Undefined f) = Unspecified f"

primrec cerr_of :: "error \<Rightarrow> string" where
  "cerr_of (UnknownTag t) =
     ''Error: Unknown constant pool element with tag: '' @ show_nat (unat t) @ endl"
| "cerr_of (NullMethod n) = []"
| "cerr_of NeedLocals = []"
| "cerr_of (UnknownInstruction op) = []"
| "cerr_of BadArrayNewLength = []"
| "cerr_of StackExhausted = []"
| "cerr_of (Undefined f) = []"

definition open_file :: "files \<Rightarrow> string \<Rightarrow> ifstream" where
  "open_file fs name = (case fs name of None \<Rightarrow> [] | Some bs \<Rightarrow> bs)"

definition main :: "nat \<Rightarrow> files \<Rightarrow> string list \<Rightarrow> outcome \<times> string \<times> string" where
  "main depth fs argv =
     (if length argv < 2 then (Exit 1, ''Too few arguments!'' @ endl, [])
      else
        let filename = argv ! 1 in
        case JavaClassFile_ctor filename (open_file fs filename) of
          Inl e \<Rightarrow> (outcome_of e, [], cerr_of e)
        | Inr (file, out) \<Rightarrow>
            (case run depth ''main'' ((new_JavaExecutor file)\<lparr>cout := out\<rparr>) of
               (Inl e, executor) \<Rightarrow> (outcome_of e, cout executor, cerr_of e)
             | (Inr u, executor) \<Rightarrow> (Exit 0, cout executor, [])))"

text \<open>
  The destruction of the class file when \<^verbatim>\<open>main\<close> returns from its last line: the object
  \<^verbatim>\<open>file\<close> goes out of scope there, in the state in which the run has left it. The
  result is \<open>None\<close> when the program ends elsewhere: \<^verbatim>\<open>return 1\<close> comes before the object
  exists, and \<^verbatim>\<open>exit\<close> runs no destructor of a local object.
\<close>

definition main_teardown :: "nat \<Rightarrow> files \<Rightarrow> string list \<Rightarrow> (error + unit) option" where
  "main_teardown depth fs argv =
     (if length argv < 2 then None
      else
        let filename = argv ! 1 in
        case JavaClassFile_ctor filename (open_file fs filename) of
          Inl e \<Rightarrow> None
        | Inr (file, out) \<Rightarrow>
            (case run depth ''main'' ((new_JavaExecutor file)\<lparr>cout := out\<rparr>) of
               (Inl e, executor) \<Rightarrow> None
             | (Inr u, executor) \<Rightarrow> Some (destroy_JavaClassFile (klass executor))))"

section \<open>Runs of the program\<close>

lemma outcome_of_StackOverflow [simp]: "outcome_of e = StackOverflow \<longleftrightarrow> e = StackExhausted"
  by (cases e) simp_all

lemma outcome_of_not_success [simp]: "outcome_of e \<noteq> Exit 0"
  by (cases e) simp_all

lemma main_run:
  assumes "JavaClassFile_ctor name (open_file fs name) = Inr (cf, out)"
    and "run depth ''main'' ((new_JavaExecutor cf)\<lparr>cout := out\<rparr>) = (r, executor)"
  shows "main depth fs [prog, name] =
           (case r of Inl e \<Rightarrow> (outcome_of e, cout executor, cerr_of e)
            | Inr u \<Rightarrow> (Exit 0, cout executor, []))"
  using assms by (simp add: main_def split: sum.splits)

lemma main_hello_example:
  "main (Suc 0) (Map.empty(''Hello.class'' \<mapsto> hello_bytes)) [''zvm'', ''Hello.class''] =
     (Exit 0, ''[main] Length of LVA: 1'' @ endl @ ''Hi'' @ endl @ ''Return!'' @ endl, [])"
proof -
  have "JavaClassFile_ctor ''Hello.class''
          (open_file (Map.empty(''Hello.class'' \<mapsto> hello_bytes)) ''Hello.class'') =
        Inr (example_class hello_code, [])"
    using JavaClassFile_ctor_encode [OF wf_example_class, of "''Hello.class''" "[]"]
    by (simp add: open_file_def encode_example_class)
  moreover have "run (Suc 0) ''main'' ((new_JavaExecutor (example_class hello_code))\<lparr>cout := []\<rparr>) =
      (Inr (), hello_final)"
    using run_hello by (simp add: new_JavaExecutor_def)
  ultimately show ?thesis
    by (simp add: main_run hello_final_def)
qed

text \<open>
  C1. Given the class file of the example, whatever follows it in the file and
  whatever the depth of the native stack, the program prints the line about the local
  variables, then \<^verbatim>\<open>Hi\<close>, then \<^verbatim>\<open>Return!\<close>, writes nothing to the error stream and
  returns \<open>0\<close>.
\<close>

theorem main_hello:
  assumes "fs name = Some (hello_bytes @ rest)"
  shows "main (Suc d) fs [prog, name] =
           (Exit 0, ''[main] Length of LVA: 1'' @ endl @ ''Hi'' @ endl @ ''Return!'' @ endl, [])"
proof -
  from assms have "JavaClassFile_ctor name (open_file fs name) = Inr (example_class hello_code, [])"
    using JavaClassFile_ctor_encode [OF wf_example_class, of name rest]
    by (simp add: open_file_def encode_example_class)
  moreover have "new_JavaExecutor (example_class hello_code)\<lparr>cout := []\<rparr> =
      new_JavaExecutor (example_class hello_code)"
    by (simp add: new_JavaExecutor_def)
  moreover have "run (1 + d) ''main'' (new_JavaExecutor (example_class hello_code)) =
      (Inr (), hello_final)"
    by (rule deepensD [OF deepens_run_add run_hello]) simp
  ultimately show ?thesis
    by (simp add: main_run hello_final_def)
qed

theorem main_hello_witness:
  "main (Suc 0) (Map.empty(''Hello.class'' \<mapsto> hello_bytes @ [])) [''zvm'', ''Hello.class''] =
     (Exit 0, ''[main] Length of LVA: 1'' @ endl @ ''Hi'' @ endl @ ''Return!'' @ endl, [])"
  by (rule main_hello) simp

text \<open>
  C27. A file of at least ten bytes that does not begin with \<^verbatim>\<open>CA FE BA BE\<close> is
  reported on standard output as not being a class file, and nothing of it beyond the
  tenth byte is read. The program does not stop there: it goes on to run \<^verbatim>\<open>main\<close>,
  finds no method in the empty class, prints the two lines of the null-method report
  and leaves with status \<open>1\<close>.
\<close>

theorem main_bad_magic:
  assumes "fs name = Some (hdr @ rest)" and "length hdr = 10"
    and "take 4 hdr \<noteq> [0xCA, 0xFE, 0xBA, 0xBE]"
  shows "main (Suc d) fs [prog, name] =
           (Exit 1,
            name @ '': not a Java Class file!'' @ endl @
            ''Exception: Trying to get Code Attribute from nullptr method!'' @ endl @
            ''           Method name: main'' @ endl,
            [])"
proof -
  define h where "h = \<lparr>magic = be_word (take 4 hdr), minor = be_word (take 2 (drop 4 hdr)),
    major = be_word (take 2 (drop 6 hdr)), constantPoolCount = be_word (take 2 (drop 8 hdr))\<rparr>"
  define out where "out = name @ '': not a Java Class file!'' @ [CHR 0x0A]"
  from assms have "JavaClassFile_ctor name (open_file fs name) = Inr (new_JavaClassFile h, out)"
    by (simp add: open_file_def JavaClassFile_ctor_bad_magic h_def out_def)
  moreover have "run (Suc d) ''main'' ((new_JavaExecutor (new_JavaClassFile h))\<lparr>cout := out\<rparr>) =
      (Inl (NullMethod ''main''),
       (new_JavaExecutor (new_JavaClassFile h))\<lparr>cout := out @
          ''Exception: Trying to get Code Attribute from nullptr method!'' @ endl @
          ''           Method name: main'' @ endl\<rparr>)"
    by (simp add: JavaExecutor_get_method_def get_method_def get_method_from.simps
        new_JavaExecutor_def new_JavaClassFile_def get_code_attribute_def xbind_def xread_def
        xprint_def xfail_def)
  ultimately show ?thesis
    by (simp add: main_run out_def endl_def)
qed

theorem main_bad_magic_witness:
  "main (Suc 0) (Map.empty(''A.txt'' \<mapsto> [0x48, 0x65, 0x6C, 0x6C, 0x6F, 0x2C, 0x20, 0x77, 0x6F, 0x72] @ [0x6C, 0x64])) [''zvm'', ''A.txt''] =
     (Exit 1,
      ''A.txt'' @ '': not a Java Class file!'' @ endl @
      ''Exception: Trying to get Code Attribute from nullptr method!'' @ endl @
      ''           Method name: main'' @ endl,
      [])"
  by (rule main_bad_magic [where hdr = "[0x48, 0x65, 0x6C, 0x6C, 0x6F, 0x2C, 0x20, 0x77, 0x6F, 0x72]"
        and rest = "[0x6C, 0x64]"]) simp_all

text \<open>
  C28. A class file whose pool holds, after any number of well-formed entries, an entry
  with a tag that \<^verbatim>\<open>read\<close> does not know (an Integer constant, say) makes the program
  write \<^verbatim>\<open>Error: Unknown constant pool element with tag:\<close> and the tag in decimal to
  the error stream and leave with status \<open>1\<close>; nothing is written to standard output.
\<close>

theorem main_unknown_tag:
  assumes "fs name = Some (encode_header1 h @ concat (map encode_entry es) @ t # rest)"
    and "magic h = 0xCAFEBABE" and "list_all wf_entry es"
    and "int (length es) < uint (constantPoolCount h) - 1" and "t \<notin> known_tags"
  shows "main d fs [prog, name] =
           (Exit 1, [],
            ''Error: Unknown constant pool element with tag: '' @ show_nat (unat t) @ endl)"
proof -
  from assms have "JavaClassFile_ctor name (open_file fs name) = Inl (UnknownTag t)"
    by (simp add: open_file_def JavaClassFile_ctor_def read_header1_encode read_class_body_def
        ctor_unknown_tag)
  then show ?thesis
    by (simp add: main_def)
qed

theorem main_unknown_tag_witness:
  "main 0 (Map.empty(''I.class'' \<mapsto>
       [0xCA, 0xFE, 0xBA, 0xBE, 0, 0, 0, 52, 0, 3] @ [1, 0, 2, 0x48, 0x69] @ 3 # [0, 0, 0, 42]))
     [''zvm'', ''I.class''] =
     (Exit 1, [], ''Error: Unknown constant pool element with tag: 3'' @ endl)"
proof -
  have "encode_header1 header_ex = [0xCA, 0xFE, 0xBA, 0xBE, 0, 0, 0, 52, 0, 3]"
    "concat (map encode_entry [utf8_entry ''Hi'']) = [1, 0, 2, 0x48, 0x69]"
    "show_nat (unat (3 :: byte)) = ''3''" "list_all wf_entry [utf8_entry ''Hi'']"
    by code_simp+
  moreover have "(3 :: byte) \<notin> known_tags" "magic header_ex = 0xCAFEBABE"
    "int (length [utf8_entry ''Hi'']) < uint (constantPoolCount header_ex) - 1"
    by (simp_all add: known_tags_def header_ex_def)
  ultimately show ?thesis
    using main_unknown_tag [of _ "''I.class''" header_ex "[utf8_entry ''Hi'']" 3 "[0, 0, 0, 42]"
        0 "''zvm''"]
    by simp
qed

text \<open>
  C35. Whenever the program returns \<open>0\<close>, its output begins with the line
  \<^verbatim>\<open>[main] Length of LVA:\<close> and a number, and its error stream is empty: a successful
  run never prints only what the interpreted code prints.
\<close>

theorem main_success_output:
  assumes "main d fs argv = (Exit 0, out, err)"
  shows "err = [] \<and> (\<exists>k rest. out = ''[main] Length of LVA: '' @ show_nat k @ endl @ rest)"
proof -
  from assms obtain cf out0 u ex where argv: "\<not> length argv < 2"
    and ctor: "JavaClassFile_ctor (argv ! 1) (open_file fs (argv ! 1)) = Inr (cf, out0)"
    and run: "run d ''main'' ((new_JavaExecutor cf)\<lparr>cout := out0\<rparr>) = (Inr u, ex)"
    and out: "out = cout ex" and err: "err = []"
    by (auto simp: main_def Let_def split: if_splits sum.splits prod.splits)
  from run obtain d' where d: "d = Suc d'"
    by (cases d) auto
  have "ok cf"
  proof (rule ccontr)
    assume "\<not> ok cf"
    with ctor have "methods_count cf = 0"
      by (auto simp: JavaClassFile_ctor_def res_simps new_JavaClassFile_def
          split: if_splits dest: read_class_body_sound)
    with run d show False
      by (simp add: JavaExecutor_get_method_def get_method_def get_method_from.simps
          new_JavaExecutor_def get_code_attribute_def xbind_def xread_def xprint_def xfail_def)
  qed
  with JavaClassFile_ctor_sound [OF ctor] have "out0 = []"
    by simp
  with run_prints_header [OF run [unfolded d]] out err show ?thesis
    by (auto simp: new_JavaExecutor_def)
qed

theorem main_success_output_witness:
  "\<exists>k rest. ''[main] Length of LVA: 1'' @ endl @ ''Hi'' @ endl @ ''Return!'' @ endl =
     ''[main] Length of LVA: '' @ show_nat k @ endl @ rest"
  using main_success_output [OF main_hello_example] by simp

text \<open>
  The depth of the native stack matters only when it is exhausted: a run of the
  program that ends in any other way ends in the same way, with the same output, for
  every larger depth.
\<close>

lemma main_deeper:
  assumes "main d fs argv = (oc, out, err)" and "oc \<noteq> StackOverflow"
  shows "main (d + k) fs argv = (oc, out, err)"
proof (cases "length argv < 2")
  case True
  with assms show ?thesis
    by (simp add: main_def)
next
  case False
  show ?thesis
  proof (cases "JavaClassFile_ctor (argv ! 1) (open_file fs (argv ! 1))")
    case (Inl e)
    with assms False show ?thesis
      by (simp add: main_def)
  next
    case (Inr p)
    obtain cf out0 where p: "p = (cf, out0)"
      by (cases p)
    obtain r ex where run: "run d ''main'' ((new_JavaExecutor cf)\<lparr>cout := out0\<rparr>) = (r, ex)"
      by (cases "run d ''main'' ((new_JavaExecutor cf)\<lparr>cout := out0\<rparr>)")
    with assms False Inr p have "r \<noteq> Inl StackExhausted"
      by (auto simp: main_def)
    from deepensD [OF deepens_run_add run this, of k] run assms False Inr p show ?thesis
      by (simp add: main_def)
  qed
qed

text \<open>
  C12. The reader and the interpreter together: for the file that holds a well-formed
  class whose method \<^verbatim>\<open>main\<close> passes the check, followed by anything, the program meets
  none of the faults of the model before \<^verbatim>\<open>main\<close> returns or \<^verbatim>\<open>exit\<close> is called. The
  constructor reads the class, the run returns or leaves with status \<open>1\<close> at ILOAD_1 or
  at an unknown opcode, nothing is written to the error stream, and the destructors of
  the local copies in \<^verbatim>\<open>step\<close> delete nothing. Such a program prints no text, since
  its stack is empty at the start. What is left without a meaning is the destruction
  of the class file after \<^verbatim>\<open>return 0\<close>, of which the last theorem of this theory
  speaks.
\<close>

theorem main_checked:
  assumes "fs name = Some (encode_class cf @ rest)" and "wf_class cf"
    and "checked_method (new_JavaExecutor cf) ''main''"
  shows "fst (main (Suc d) fs [prog, name]) \<in> {Exit 0, Exit 1} \<and>
         snd (snd (main (Suc d) fs [prog, name])) = [] \<and>
         method_scopes cf ''main'' = Inr ()"
proof -
  from assms(1,2) have "JavaClassFile_ctor name (open_file fs name) = Inr (cf, [])"
    using JavaClassFile_ctor_encode [of cf name rest] by (simp add: open_file_def)
  moreover have "(new_JavaExecutor cf)\<lparr>cout := []\<rparr> = new_JavaExecutor cf"
    by (simp add: new_JavaExecutor_def)
  moreover obtain r executor where run: "run (Suc d) ''main'' (new_JavaExecutor cf) = (r, executor)"
    by (cases "run (Suc d) ''main'' (new_JavaExecutor cf)") auto
  moreover from checked_run [OF assms(3), of d] run
  have "r \<in> {Inr (), Inl NeedLocals} \<union> range (\<lambda>op. Inl (UnknownInstruction op))"
    by simp
  moreover from checked_scopes [OF assms(3)] have "method_scopes cf ''main'' = Inr ()"
    by (simp add: new_JavaExecutor_def)
  ultimately show ?thesis
    by (auto simp: main_run)
qed

lemma wf_quiet_class: "wf_class (example_class quiet_code)"
  by code_simp

theorem main_checked_witness:
  "fst (main (Suc 0) (Map.empty(''Quiet.class'' \<mapsto> encode_class (example_class quiet_code) @ [0xFF]))
          [''zvm'', ''Quiet.class'']) \<in> {Exit 0, Exit 1} \<and>
   snd (snd (main (Suc 0) (Map.empty(''Quiet.class'' \<mapsto> encode_class (example_class quiet_code) @ [0xFF]))
          [''zvm'', ''Quiet.class''])) = [] \<and>
   method_scopes (example_class quiet_code) ''main'' = Inr ()"
proof (rule main_checked)
  show "wf_class (example_class quiet_code)"
    by (rule wf_quiet_class)
  show "checked_method (new_JavaExecutor (example_class quiet_code)) ''main''"
    by code_simp
qed simp

section \<open>The end of the program\<close>

lemma main_missing_file:
  "fs name = None \<Longrightarrow> main d fs [prog, name] = (Unspecified TruncatedRead, [], [])"
  by (simp add: main_def open_file_def JavaClassFile_ctor_truncated)

lemma run_returns_pool:
  assumes "run depth n ex = (Inr u, ex')"
  shows "\<exists>pool. const_pool (klass ex') = Some pool"
proof -
  from assms obtain d where "run (Suc d) n ex = (Inr (), ex')"
    by (cases depth) auto
  then obtain ca a where "method_code (klass ex) n = Inr (ca, a)"
    by (rule run_succeeds)
  then obtain mi where "get_method (klass ex) n = Inr (Some mi)"
    by (rule method_codeE)
  then obtain pool where "const_pool (klass ex) = Some pool"
    by (auto dest: get_method_pool)
  moreover from assms have "same_class (klass ex) (klass ex')"
    using tracksD [OF tracks_run] by (auto simp: evolves_def)
  ultimately show ?thesis
    by (simp add: same_class_fields(1))
qed

text \<open>
  C17. The program cannot end well. When \<^verbatim>\<open>main\<close> returns \<open>0\<close>, and only then, the
  destructor of the class file runs, and it has no defined behaviour: the run has found
  a method, so that the class has a constant pool, and \<^verbatim>\<open>~ConstantPool\<close> releases with
  \<^verbatim>\<open>delete\<close> the array of entries that \<^verbatim>\<open>new[]\<close> has returned.
\<close>

theorem main_teardown_undefined:
  "(main_teardown depth fs argv = None \<longleftrightarrow> fst (main depth fs argv) \<noteq> Exit 0) \<and>
   main_teardown depth fs argv \<in> {None, Some (Inl (Undefined MismatchedDelete))}"
proof (cases "length argv < 2")
  case True
  then show ?thesis
    by (simp add: main_teardown_def main_def)
next
  case False
  let ?name = "argv ! 1"
  show ?thesis
  proof (cases "JavaClassFile_ctor ?name (open_file fs ?name)")
    case (Inl e)
    with False show ?thesis
      by (simp add: main_teardown_def main_def)
  next
    case (Inr x)
    obtain cf out where x: "x = (cf, out)"
      by (cases x)
    obtain r ex where run: "run depth ''main'' ((new_JavaExecutor cf)\<lparr>cout := out\<rparr>) = (r, ex)"
      by (cases "run depth ''main'' ((new_JavaExecutor cf)\<lparr>cout := out\<rparr>)")
    show ?thesis
    proof (cases r)
      case (Inl e)
      with False Inr x run show ?thesis
        by (simp add: main_teardown_def main_def)
    next
      case (Inr u)
      with run obtain pool where "const_pool (klass ex) = Some pool"
        by (auto dest: run_returns_pool)
      then have "destroy_JavaClassFile (klass ex) = Inl (Undefined MismatchedDelete)"
        by (rule destroy_JavaClassFile_built)
      with False \<open>JavaClassFile_ctor ?name (open_file fs ?name) = Inr x\<close> x run Inr
      show ?thesis
        by (simp add: main_teardown_def main_def)
    qed
  qed
qed

theorem main_teardown_undefined_witness:
  "main_teardown (Suc 0) (Map.empty(''Hello.class'' \<mapsto> hello_bytes)) [''zvm'', ''Hello.class''] =
     Some (Inl (Undefined MismatchedDelete))"
  using main_teardown_undefined
    [of "Suc 0" "Map.empty(''Hello.class'' \<mapsto> hello_bytes)" "[''zvm'', ''Hello.class'']"]
  by (auto simp: main_hello_example)

end
